(* ===== verification/Snakes_Prelude.thy ===== *)
theory Snakes_Prelude
  imports Complex_Main
begin

text \<open>
  Shared vocabulary of the simply-snakes development: the types that name the
  model's coordinates, directions and object identities, the collections of
  rewrite rules the component theories fill, and the generic lemmas on lists
  used as an object store (a list indexed by object identity, grown by
  appending, updated in place with \<open>xs[i := v]\<close>).
\<close>

type_synonym coord = real
  \<comment> \<open>Kivy widget coordinates and sizes are Python floats\<close>
type_synonym dir = "int \<times> int"
  \<comment> \<open>a Snake's \<open>direction\<close>, the pair of \<open>direction_x\<close> and \<open>direction_y\<close>\<close>
type_synonym oid = nat
  \<comment> \<open>identity of a Trail object: its index in the trail store\<close>

named_theorems geom_simps "unfolding rules of the derived widget geometry"
named_theorems store_simps "frame rules of the trail store"

subsection \<open>Lists as an object store\<close>

lemma store_nth_append_old [store_simps]:
  "i < length xs \<Longrightarrow> (xs @ [v]) ! i = xs ! i"
  by (simp add: nth_append_left)

lemma store_nth_append_new [store_simps]:
  "(xs @ [v]) ! length xs = v"
  by simp

lemma store_in_range_append [store_simps]:
  "i < length xs \<Longrightarrow> i < length (xs @ [v])"
  by simp

lemma store_all_in_range_append:
  "\<forall>i\<in>set is. i < length xs \<Longrightarrow> \<forall>i\<in>set (is @ [length xs]). i < length (xs @ [v])"
  by auto

lemma store_update_other [store_simps]:
  "i \<noteq> j \<Longrightarrow> (xs[j := v]) ! i = xs ! i"
  by simp

lemma store_update_same [store_simps]:
  "i < length xs \<Longrightarrow> (xs[i := v]) ! i = v"
  by simp

subsection \<open>Scaled unit steps\<close>

text \<open>A direction component is one of -1, 0, 1; scaled by a non-negative
  factor it moves by exactly that factor, nothing or its negation.\<close>

lemma of_int_dir_mult_cases:
  fixes sc :: real
  shows "d \<in> {-1, 0, 1} \<Longrightarrow> of_int d * sc = sc \<or> of_int d * sc = 0 \<or> of_int d * sc = - sc"
  by auto

subsection \<open>Python errors as values\<close>

text \<open>The exceptions the modelled Python code can raise, and the sum type
  \<open>py_error + 'a\<close> as an error monad: \<open>Inl\<close> is a raised exception, which
  aborts the rest of the computation.\<close>

datatype py_error = AttributeError | TypeError | IndexError | ImportError

definition bind_err :: "py_error + 'a \<Rightarrow> ('a \<Rightarrow> py_error + 'b) \<Rightarrow> py_error + 'b" where
  "bind_err m f = (case m of Inl e \<Rightarrow> Inl e | Inr x \<Rightarrow> f x)"

lemma bind_err_Inr [simp]: "bind_err (Inr x) f = f x"
  by (simp add: bind_err_def)

lemma bind_err_Inl [simp]: "bind_err (Inl e) f = Inl e"
  by (simp add: bind_err_def)

lemma bind_err_return [simp]: "bind_err m Inr = m"
  by (cases m) (simp_all add: bind_err_def)

lemma bind_err_eq_Inr:
  "bind_err m f = Inr y \<longleftrightarrow> (\<exists>x. m = Inr x \<and> f x = Inr y)"
  by (cases m) (simp_all add: bind_err_def)

lemma bind_err_eq_Inl:
  "bind_err m f = Inl e \<longleftrightarrow> m = Inl e \<or> (\<exists>x. m = Inr x \<and> f x = Inl e)"
  by (cases m) (simp_all add: bind_err_def)

end
