(* ===== verification/Widget.thy ===== *)
theory Widget
  imports Snakes_Prelude
begin

text \<open>
  The geometry the game takes from Kivy's \<open>Widget\<close>: a position \<open>(x, y)\<close> and a
  size \<open>(width, height)\<close>, with the derived \<open>right\<close> and \<open>top\<close> edges and the
  \<open>center\<close> setter, and the collision test \<open>Snake.collide_widget\<close> of
  src/simply_snakes/snakes.py, which accepts a second widget of negative size.
  The Kivy class hierarchy is an extensible record: \<open>Trail\<close>, \<open>Snake\<close> and
  \<open>SnakesGame\<close> extend \<open>widget\<close>, so one generic operation over
  \<open>'a widget_scheme\<close> serves all of them, as the inherited methods do in Python.
  Besides the code, the theory holds the reference specification of the test
  (overlap of the normalised extents with a one-unit margin) and the geometric
  facts the game relies on.
\<close>

record widget =
  wx :: coord
  wy :: coord
  width :: coord
  height :: coord

definition widget_right :: "'a widget_scheme \<Rightarrow> coord" where
  "widget_right w = wx w + width w"

definition widget_top :: "'a widget_scheme \<Rightarrow> coord" where
  "widget_top w = wy w + height w"

definition set_center :: "coord \<times> coord \<Rightarrow> 'a widget_scheme \<Rightarrow> 'a widget_scheme" where
  "set_center c w = w\<lparr>wx := fst c - width w / 2, wy := snd c - height w / 2\<rparr>"

text \<open>\<open>Snake.collide_widget(self, wid)\<close>: each early \<open>return False\<close> of the source is
  one \<open>if\<close> branch, in the source's order; the sign of \<open>wid\<close>'s width (height)
  selects which of its edges is the low one. \<open>self\<close>'s own edges are used as
  they are.\<close>

definition collide_widget :: "'a widget_scheme \<Rightarrow> 'b widget_scheme \<Rightarrow> bool" where
  "collide_widget self wid =
     (if width wid < 0 then
        (if widget_right self < widget_right wid + 1 then False
         else if wx self > wx wid - 1 then False
         else if height wid < 0 then
           (if widget_top self < widget_top wid + 1 then False
            else if wy self > wy wid - 1 then False
            else True)
         else
           (if widget_top self < wy wid + 1 then False
            else if wy self > widget_top wid - 1 then False
            else True))
      else
        (if widget_right self < wx wid + 1 then False
         else if wx self > widget_right wid - 1 then False
         else if height wid < 0 then
           (if widget_top self < widget_top wid + 1 then False
            else if wy self > wy wid - 1 then False
            else True)
         else
           (if widget_top self < wy wid + 1 then False
            else if wy self > widget_top wid - 1 then False
            else True)))"

subsection \<open>Reference specification: extents and the one-unit margin\<close>

text \<open>The extent of a widget on one axis: \<open>[p, p + d]\<close> for a non-negative size,
  \<open>[p + d, p]\<close> for a negative one.\<close>

definition extent :: "coord \<Rightarrow> coord \<Rightarrow> coord \<times> coord" where
  "extent p d = (if d < 0 then (p + d, p) else (p, p + d))"

text \<open>Two extents overlap when each reaches at least one unit past the other's
  near end: touching extents do not.\<close>

definition overlaps :: "coord \<times> coord \<Rightarrow> coord \<times> coord \<Rightarrow> bool" where
  "overlaps a b \<longleftrightarrow> snd a \<ge> fst b + 1 \<and> fst a \<le> snd b - 1"

definition boxes_collide :: "'a widget_scheme \<Rightarrow> 'b widget_scheme \<Rightarrow> bool" where
  "boxes_collide a b \<longleftrightarrow>
     overlaps (extent (wx a) (width a)) (extent (wx b) (width b)) \<and>
     overlaps (extent (wy a) (height a)) (extent (wy b) (height b))"

text \<open>The widget of non-negative size covering the same region.\<close>

definition normalize :: "'a widget_scheme \<Rightarrow> 'a widget_scheme" where
  "normalize w = w\<lparr>wx := fst (extent (wx w) (width w)), wy := fst (extent (wy w) (height w)),
                   width := \<bar>width w\<bar>, height := \<bar>height w\<bar>\<rparr>"

declare widget_right_def [geom_simps] widget_top_def [geom_simps]

lemma extent_nonneg [simp]: "0 \<le> d \<Longrightarrow> extent p d = (p, p + d)"
  by (simp add: extent_def)

lemma extent_neg [simp]: "d < 0 \<Longrightarrow> extent p d = (p + d, p)"
  by (simp add: extent_def)

lemma extent_normalize [simp]:
  "extent (fst (extent p d)) \<bar>d\<bar> = extent p d"
  by (simp add: extent_def)


lemma collide_widget_extents:
  "collide_widget self wid \<longleftrightarrow>
     overlaps (wx self, widget_right self) (extent (wx wid) (width wid)) \<and>
     overlaps (wy self, widget_top self) (extent (wy wid) (height wid))"
  by (simp add: collide_widget_def overlaps_def extent_def geom_simps)

lemma set_center_same:
  "wx w = fst c - width w / 2 \<Longrightarrow> wy w = snd c - height w / 2 \<Longrightarrow> set_center c w = w"
  by (simp add: set_center_def)

subsection \<open>Properties of the collision test\<close>

text \<open>C6: For a first widget of non-negative size (every snake), the branchy
  test of the source is exactly the reference specification: both normalised
  extents overlap by the one-unit margin.\<close>

theorem collide_widget_refines_boxes:
  "0 \<le> width self \<Longrightarrow> 0 \<le> height self \<Longrightarrow> collide_widget self wid = boxes_collide self wid"
  by (simp add: collide_widget_extents boxes_collide_def geom_simps)

theorem collide_widget_refines_boxes_witness:
  "0 \<le> width \<lparr>wx = 0::real, wy = 0::real, width = 10, height = 10\<rparr>
   \<and> 0 \<le> height \<lparr>wx = 0::real, wy = 0::real, width = 10, height = 10\<rparr>
   \<and> collide_widget \<lparr>wx = 0::real, wy = 0::real, width = 10, height = 10\<rparr> \<lparr>wx = 12::real, wy = 5::real, width = -5, height = 2\<rparr>
     = boxes_collide \<lparr>wx = 0::real, wy = 0::real, width = 10, height = 10\<rparr> \<lparr>wx = 12::real, wy = 5::real, width = -5, height = 2\<rparr>"
  using collide_widget_refines_boxes [of "\<lparr>wx = 0::real, wy = 0::real, width = 10, height = 10\<rparr>"
      "\<lparr>wx = 12::real, wy = 5::real, width = -5, height = 2\<rparr>"]
  by simp

text \<open>C29: The test is symmetric on widgets of non-negative size.\<close>

theorem collide_widget_sym:
  assumes "0 \<le> width a" "0 \<le> height a" "0 \<le> width b" "0 \<le> height b"
  shows "collide_widget a b = collide_widget b a"
  using assms by (auto simp: collide_widget_extents overlaps_def geom_simps)

theorem collide_widget_sym_witness:
  "0 \<le> width \<lparr>wx = 0::real, wy = 0::real, width = 10, height = 10\<rparr>
   \<and> 0 \<le> height \<lparr>wx = 0::real, wy = 0::real, width = 10, height = 10\<rparr>
   \<and> 0 \<le> width \<lparr>wx = 5::real, wy = 5::real, width = 10, height = 10\<rparr>
   \<and> 0 \<le> height \<lparr>wx = 5::real, wy = 5::real, width = 10, height = 10\<rparr>
   \<and> collide_widget \<lparr>wx = 0::real, wy = 0::real, width = 10, height = 10\<rparr> \<lparr>wx = 5::real, wy = 5::real, width = 10, height = 10\<rparr>
     = collide_widget \<lparr>wx = 5::real, wy = 5::real, width = 10, height = 10\<rparr> \<lparr>wx = 0::real, wy = 0::real, width = 10, height = 10\<rparr>"
  using collide_widget_sym [of "\<lparr>wx = 0::real, wy = 0::real, width = 10, height = 10\<rparr>"
      "\<lparr>wx = 5::real, wy = 5::real, width = 10, height = 10\<rparr>"]
  by simp

text \<open>C30: The test does not depend on how the second widget encodes its region:
  flipping a negative width or height into a positive one over the same
  region gives the same answer.\<close>

theorem collide_widget_normalize:
  "collide_widget self (normalize wid) = collide_widget self wid"
  by (simp add: collide_widget_extents normalize_def)

text \<open>C31: The one-unit margin: widgets whose extents are disjoint or merely
  touch on one axis never collide.\<close>

theorem collide_widget_touching:
  assumes "widget_right self \<le> fst (extent (wx wid) (width wid)) \<or> snd (extent (wx wid) (width wid)) \<le> wx self
         \<or> widget_top self \<le> fst (extent (wy wid) (height wid)) \<or> snd (extent (wy wid) (height wid)) \<le> wy self"
  shows "\<not> collide_widget self wid"
  using assms by (auto simp: collide_widget_extents overlaps_def)

theorem collide_widget_touching_witness:
  "(widget_right \<lparr>wx = 0::real, wy = 0::real, width = 10, height = 10\<rparr>
      \<le> fst (extent (wx \<lparr>wx = 10::real, wy = 0::real, width = 5, height = 10\<rparr>)
                    (width \<lparr>wx = 10::real, wy = 0::real, width = 5, height = 10\<rparr>)))
   \<and> \<not> collide_widget \<lparr>wx = 0::real, wy = 0::real, width = 10, height = 10\<rparr> \<lparr>wx = 10::real, wy = 0::real, width = 5, height = 10\<rparr>"
  using collide_widget_touching [of "\<lparr>wx = 0::real, wy = 0::real, width = 10, height = 10\<rparr>"
      "\<lparr>wx = 10::real, wy = 0::real, width = 5, height = 10\<rparr>"]
  by (simp add: geom_simps)

text \<open>C32: Widgets whose extents overlap by at least one unit on both axes
  always collide, whatever the signs of the second widget's size.\<close>

theorem collide_widget_deep_overlap:
  assumes "min (widget_right self) (snd (extent (wx wid) (width wid))) -
           max (wx self) (fst (extent (wx wid) (width wid))) \<ge> 1"
    and "min (widget_top self) (snd (extent (wy wid) (height wid))) -
         max (wy self) (fst (extent (wy wid) (height wid))) \<ge> 1"
  shows "collide_widget self wid"
  using assms by (auto simp: collide_widget_extents overlaps_def min_def max_def split: if_splits)

theorem collide_widget_deep_overlap_witness:
  "min (widget_right \<lparr>wx = 0::real, wy = 0::real, width = 10, height = 10\<rparr>)
       (snd (extent (wx \<lparr>wx = 8::real, wy = 8::real, width = -4, height = -4\<rparr>) (width \<lparr>wx = 8::real, wy = 8::real, width = -4, height = -4\<rparr>)))
   - max (wx \<lparr>wx = 0::real, wy = 0::real, width = 10, height = 10\<rparr>)
       (fst (extent (wx \<lparr>wx = 8::real, wy = 8::real, width = -4, height = -4\<rparr>) (width \<lparr>wx = 8::real, wy = 8::real, width = -4, height = -4\<rparr>))) \<ge> 1
   \<and> min (widget_top \<lparr>wx = 0::real, wy = 0::real, width = 10, height = 10\<rparr>)
       (snd (extent (wy \<lparr>wx = 8::real, wy = 8::real, width = -4, height = -4\<rparr>) (height \<lparr>wx = 8::real, wy = 8::real, width = -4, height = -4\<rparr>)))
   - max (wy \<lparr>wx = 0::real, wy = 0::real, width = 10, height = 10\<rparr>)
       (fst (extent (wy \<lparr>wx = 8::real, wy = 8::real, width = -4, height = -4\<rparr>) (height \<lparr>wx = 8::real, wy = 8::real, width = -4, height = -4\<rparr>))) \<ge> 1
   \<and> collide_widget \<lparr>wx = 0::real, wy = 0::real, width = 10, height = 10\<rparr> \<lparr>wx = 8::real, wy = 8::real, width = -4, height = -4\<rparr>"
  using collide_widget_deep_overlap [of "\<lparr>wx = 0::real, wy = 0::real, width = 10, height = 10\<rparr>"
      "\<lparr>wx = 8::real, wy = 8::real, width = -4, height = -4\<rparr>"]
  by (simp add: geom_simps)

text \<open>The test is not symmetric in general: \<open>self\<close>'s edges are taken as
  they are, so a first widget of negative size is misread. A widget with a
  negative width collides with a positive one, but not the other way round.\<close>

theorem collide_widget_not_symmetric:
  "\<not> (\<forall>(a :: widget) (b :: widget). collide_widget a b = collide_widget b a)"
proof
  assume "\<forall>(a :: widget) (b :: widget). collide_widget a b = collide_widget b a"
  then have "collide_widget \<lparr>wx = -5, wy = 0, width = 10, height = 10\<rparr> \<lparr>wx = 0, wy = 0, width = -10, height = 10\<rparr>
           = collide_widget \<lparr>wx = 0, wy = 0, width = -10, height = 10\<rparr> \<lparr>wx = -5, wy = 0, width = 10, height = 10\<rparr>"
    by blast
  then show False by (simp add: collide_widget_def geom_simps)
qed

end
