(* ===== verification/Snake.thy ===== *)
theory Snake
  imports Widget
begin

text \<open>
  The \<open>Snake\<close> and \<open>Trail\<close> classes of src/simply_snakes/snakes.py and the part
  of the game a snake reaches through \<open>self.parent\<close>. Kivy objects have
  identity and are shared: a snake's \<open>trail\<close> is the same object as one entry
  of the game's \<open>trails\<close> list, and \<open>Snake.move\<close> grows it in place. The model
  makes the aliasing explicit with a store: every Trail object ever created is
  an element of \<open>trail_store\<close>, named by its index (\<open>oid\<close>); \<open>trails\<close> and
  \<open>Snake.trail\<close> hold indices. Creating a Trail appends to the store, growing it
  updates the store at the index.

  \<^item> \<open>parent\<close>: the fields of \<open>SnakesGame\<close> a snake reads or writes through
    \<open>self.parent\<close> (its size, \<open>status_bar.y\<close>, the \<open>trails\<close> list) plus the
    store. Operations over \<open>'a parent_scheme\<close> work on any extension, in
    particular on the whole game record of theory \<open>Game\<close>.
  \<^item> \<open>on_direction\<close>: the property observer that creates a new Trail.
  \<^item> \<open>set_direction\<close>: assignment to the \<open>direction\<close> ReferenceListProperty,
    which fires \<open>on_direction\<close> only when the value changes.
  \<^item> \<open>move\<close>: \<open>Snake.move(self, other)\<close>, returning the moved snake, the
    parent with the grown trail, and whether a collision occurred.
\<close>

record trail = widget +
  trail_color :: "real list"

record snake = widget +
  color :: "real list"
  direction_x :: int
  direction_y :: int
  trail :: "oid option"
  score :: int

text \<open>The children of the game widget in Kivy's widget tree: the widgets of the
  kv layout (the snakes and the status bar, by their position in the layout)
  and the Trails added by \<open>on_direction\<close>.\<close>

datatype child = KvChild nat | TrailChild oid

fun trail_children :: "child list \<Rightarrow> oid list" where
  "trail_children [] = []"
| "trail_children (TrailChild t # cs) = t # trail_children cs"
| "trail_children (KvChild n # cs) = trail_children cs"

record parent = widget +
  trails :: "oid list"
  status_bar_y :: coord
  trail_store :: "trail list"
  children :: "child list"

definition direction :: "snake \<Rightarrow> dir" where
  "direction s = (direction_x s, direction_y s)"

text \<open>The Trail built by \<open>Snake.on_direction\<close>: the snake's size, position and
  colour, flattened along the new heading so that it starts at the snake's
  trailing edge. A direction of (0, 0) matches no branch: the Trail keeps the
  snake's full size.\<close>

definition new_trail :: "snake \<Rightarrow> trail" where
  "new_trail self =
     (let t0 = \<lparr>wx = wx self, wy = wy self, width = width self, height = height self,
                trail_color = color self\<rparr>
      in if direction_x self = 1 then t0\<lparr>width := 0\<rparr>
         else if direction_x self = -1 then t0\<lparr>width := 0, wx := widget_right self\<rparr>
         else if direction_y self = 1 then t0\<lparr>height := 0\<rparr>
         else if direction_y self = -1 then t0\<lparr>height := 0, wy := widget_top self\<rparr>
         else t0)"

text \<open>\<open>Snake.on_direction\<close>: the new Trail becomes the snake's \<open>trail\<close>, is
  added to the parent's widget tree (\<open>add_widget\<close> puts it first among the
  children; it cannot raise, the Trail being new and without a parent) and
  appended to the parent's \<open>trails\<close>.\<close>

definition on_direction :: "snake \<Rightarrow> 'a parent_scheme \<Rightarrow> snake \<times> 'a parent_scheme" where
  "on_direction self p =
     (let i = length (trail_store p)
      in (self\<lparr>trail := Some i\<rparr>,
          p\<lparr>trail_store := trail_store p @ [new_trail self], children := TrailChild i # children p,
            trails := trails p @ [i]\<rparr>))"

text \<open>Assigning \<open>snake.direction = d\<close>: Kivy compares the new value with the old
  one and dispatches \<open>on_direction\<close> only when they differ.\<close>

definition set_direction :: "dir \<Rightarrow> snake \<Rightarrow> 'a parent_scheme \<Rightarrow> snake \<times> 'a parent_scheme" where
  "set_direction d self p =
     (if direction self = d then (self, p)
      else on_direction (self\<lparr>direction_x := fst d, direction_y := snd d\<rparr>) p)"

text \<open>The speed scale of \<open>Snake.move\<close>: the smaller side of the parent over 250.\<close>

definition speed_scale :: "'a parent_scheme \<Rightarrow> real" where
  "speed_scale p = (if width p < height p then width p / 250 else height p / 250)"

text \<open>The loop \<open>for trail in self.parent.trails\<close> with its early return.\<close>

primrec collide_trails :: "snake \<Rightarrow> trail list \<Rightarrow> oid list \<Rightarrow> bool" where
  "collide_trails self st [] = False"
| "collide_trails self st (t # ts) =
     (if collide_widget self (st ! t) then True else collide_trails self st ts)"

definition grow_trail :: "int \<Rightarrow> int \<Rightarrow> real \<Rightarrow> trail \<Rightarrow> trail" where
  "grow_trail dx dy sc t = t\<lparr>width := width t + of_int dx * sc, height := height t + of_int dy * sc\<rparr>"

text \<open>\<open>self.pos = Vector(self.direction) * speed_scale + self.pos\<close>.\<close>

definition advance :: "real \<Rightarrow> snake \<Rightarrow> snake" where
  "advance sc self = self\<lparr>wx := of_int (direction_x self) * sc + wx self,
                          wy := of_int (direction_y self) * sc + wy self\<rparr>"

text \<open>\<open>Snake.move(self, other)\<close>: move, grow the current trail by the same
  step, then the four early returns in the source's order. Hitting the other
  snake also gives \<open>self\<close> a point. The test \<open>if self.trail:\<close> is read as
  "the snake has a trail": a Kivy widget object is always true, so only the
  initial \<open>None\<close> is false.\<close>

definition move :: "snake \<Rightarrow> snake \<Rightarrow> 'a parent_scheme \<Rightarrow> snake \<times> 'a parent_scheme \<times> bool" where
  "move self other p =
     (let sc = speed_scale p;
          s = advance sc self;
          p' = (case trail s of
                  None \<Rightarrow> p
                | Some t \<Rightarrow> p\<lparr>trail_store := (trail_store p)[t :=
                             grow_trail (direction_x s) (direction_y s) sc (trail_store p ! t)]\<rparr>)
      in if widget_right s \<ge> width p' \<or> wx s \<le> 0 then (s, p', True)
         else if widget_top s \<ge> status_bar_y p' \<or> wy s \<le> 0 then (s, p', True)
         else if collide_widget s other then (s\<lparr>score := score s + 1\<rparr>, p', True)
         else (s, p', collide_trails s (trail_store p') (trails p')))"

text \<open>The edge test of \<open>move\<close> on a moved head, as one predicate.\<close>

definition out_of_arena :: "snake \<Rightarrow> 'a parent_scheme \<Rightarrow> bool" where
  "out_of_arena s p \<longleftrightarrow>
     widget_right s \<ge> width p \<or> wx s \<le> 0 \<or> widget_top s \<ge> status_bar_y p \<or> wy s \<le> 0"

subsection \<open>Well-formed directions and trails that follow their snake\<close>

text \<open>The directions the program ever assigns: idle and the four headings.\<close>

definition valid_dir :: "dir \<Rightarrow> bool" where
  "valid_dir d \<longleftrightarrow> d \<in> {(0, 0), (1, 0), (-1, 0), (0, 1), (0, -1)}"

text \<open>A snake's current trail lies right behind it: its leading edge is the
  snake's trailing edge for the heading, it extends backwards (its size along
  the heading has the heading's sign) and across the heading it has the
  snake's extent.\<close>

definition follows :: "snake \<Rightarrow> trail \<Rightarrow> bool" where
  "follows s t \<longleftrightarrow>
     (if direction s = (1, 0) then
        wx t + width t = wx s \<and> 0 \<le> width t \<and> wy t = wy s \<and> height t = height s
      else if direction s = (-1, 0) then
        wx t + width t = widget_right s \<and> width t \<le> 0 \<and> wy t = wy s \<and> height t = height s
      else if direction s = (0, 1) then
        wy t + height t = wy s \<and> 0 \<le> height t \<and> wx t = wx s \<and> width t = width s
      else if direction s = (0, -1) then
        wy t + height t = widget_top s \<and> height t \<le> 0 \<and> wx t = wx s \<and> width t = width s
      else True)"

subsection \<open>What move does to the snake, the parent and its result\<close>

lemma advance_fields [simp]:
  "wx (advance sc s) = of_int (direction_x s) * sc + wx s"
  "wy (advance sc s) = of_int (direction_y s) * sc + wy s"
  "width (advance sc s) = width s" "height (advance sc s) = height s"
  "direction_x (advance sc s) = direction_x s" "direction_y (advance sc s) = direction_y s"
  "trail (advance sc s) = trail s" "score (advance sc s) = score s" "color (advance sc s) = color s"
  by (simp_all add: advance_def)

lemma move_snake:
  "fst (move self other p) =
     (let s = advance (speed_scale p) self
      in if \<not> out_of_arena s p \<and> collide_widget s other then s\<lparr>score := score s + 1\<rparr> else s)"
  by (simp add: move_def out_of_arena_def Let_def split: option.split)

lemma move_parent:
  "fst (snd (move self other p)) =
     (case trail self of
        None \<Rightarrow> p
      | Some t \<Rightarrow> p\<lparr>trail_store := (trail_store p)[t :=
                   grow_trail (direction_x self) (direction_y self) (speed_scale p) (trail_store p ! t)]\<rparr>)"
  by (simp add: move_def Let_def split: option.split)

lemma move_result:
  "snd (snd (move self other p)) \<longleftrightarrow>
     (let s = advance (speed_scale p) self
      in out_of_arena s p \<or> collide_widget s other
         \<or> collide_trails s (trail_store (fst (snd (move self other p)))) (trails p))"
  by (simp add: move_def out_of_arena_def Let_def split: option.split)

lemma move_score:
  "score (fst (move self other p)) =
     (if \<not> out_of_arena (advance (speed_scale p) self) p \<and> collide_widget (advance (speed_scale p) self) other
      then score self + 1 else score self)"
  by (simp add: move_snake Let_def)

lemma move_no_collision_score:
  "\<not> snd (snd (move self other p)) \<Longrightarrow> score (fst (move self other p)) = score self"
  by (simp add: move_score move_result Let_def)

lemma move_snake_frame [simp]:
  "width (fst (move self other p)) = width self"
  "height (fst (move self other p)) = height self"
  "direction (fst (move self other p)) = direction self"
  "trail (fst (move self other p)) = trail self"
  "color (fst (move self other p)) = color self"
  by (simp_all add: move_snake Let_def direction_def)

lemma move_parent_frame [simp]:
  "width (fst (snd (move self other p))) = width p"
  "height (fst (snd (move self other p))) = height p"
  "trails (fst (snd (move self other p))) = trails p"
  "status_bar_y (fst (snd (move self other p))) = status_bar_y p"
  "length (trail_store (fst (snd (move self other p)))) = length (trail_store p)"
  "children (fst (snd (move self other p))) = children p"
  by (simp_all add: move_parent split: option.split)

lemma move_store_other:
  "trail self \<noteq> Some j \<Longrightarrow>
     trail_store (fst (snd (move self other p))) ! j = trail_store p ! j"
  by (auto simp: move_parent split: option.split)

lemma move_pos:
  "wx (fst (move self other p)) = wx self + of_int (direction_x self) * speed_scale p"
  "wy (fst (move self other p)) = wy self + of_int (direction_y self) * speed_scale p"
  by (simp_all add: move_snake Let_def)

lemma speed_scale_nonneg:
  "0 \<le> width p \<Longrightarrow> 0 \<le> height p \<Longrightarrow> 0 \<le> speed_scale p"
  by (simp add: speed_scale_def)

lemma speed_scale_min: "speed_scale p = min (width p) (height p) / 250"
  by (simp add: speed_scale_def min_def)

subsection \<open>The trail follows the snake\<close>

lemma follows_new_trail: "follows s (new_trail s)"
  by (auto simp: follows_def direction_def new_trail_def Let_def geom_simps)

lemma follows_snake_update [simp]:
  "follows (s\<lparr>trail := x\<rparr>) t = follows s t"
  "follows (s\<lparr>score := n\<rparr>) t = follows s t"
  by (simp_all add: follows_def direction_def geom_simps)

lemma move_follows:
  assumes "trail self = Some i" "i < length (trail_store p)" "0 \<le> speed_scale p"
    and "follows self (trail_store p ! i)"
  shows "follows (fst (move self other p)) (trail_store (fst (snd (move self other p))) ! i)"
  using assms
  by (auto simp: move_parent move_snake Let_def follows_def direction_def grow_trail_def geom_simps)

lemma follows_no_self_collision:
  assumes "valid_dir (direction s)" "direction s \<noteq> (0, 0)" "follows s t"
  shows "\<not> collide_widget s t"
  using assms
  by (auto simp: valid_dir_def follows_def collide_widget_def geom_simps)

lemma move_idle:
  assumes "direction self = (0, 0)" "\<not> out_of_arena self p" "\<not> collide_widget self other"
    "\<not> collide_trails self (trail_store p) (trails p)"
  shows "move self other p = (self, p, False)"
proof -
  from assms(1) have a: "advance (speed_scale p) self = self"
    by (simp add: advance_def direction_def)
  from assms(1) have st: "(case trail self of None \<Rightarrow> p
      | Some t \<Rightarrow> p\<lparr>trail_store := (trail_store p)[t :=
           grow_trail (direction_x self) (direction_y self) (speed_scale p) (trail_store p ! t)]\<rparr>) = p"
    by (simp add: grow_trail_def direction_def split: option.split)
  show ?thesis
    unfolding move_def Let_def a st
    using assms(2-4) by (simp add: out_of_arena_def)
qed

text \<open>The loop over the trails is \<open>list_ex\<close> over the listed objects.\<close>

lemma collide_trails_list_ex: "collide_trails s st ts = list_ex (\<lambda>t. collide_widget s (st ! t)) ts"
  by (induction ts) simp_all

end
