(* ===== verification/Game.thy ===== *)
theory Game
  imports Snake
begin

text \<open>
  \<open>SnakesGame\<close> of src/simply_snakes/snakes.py: the root widget, owning the
  two snakes, the \<open>trails\<close> list and the status bar. Its state extends the
  \<open>parent\<close> view of theory \<open>Snake\<close> with the two snakes and whether the
  keyboard is still bound. The operations are the keyboard handler
  \<open>_on_keyboard_down\<close> (with the no-reversal guards), \<open>_keyboard_closed\<close>,
  \<open>reset\<close> and the per-tick \<open>update\<close>; \<open>game_step\<close> runs one event of the
  environment (a clock tick, a key, the keyboard closing, a window resize) and
  \<open>reachable\<close> is the set of states the application can reach.
\<close>

record game = parent +
  snake1 :: snake
  snake2 :: snake
  keyboard_bound :: bool

datatype player = Player1 | Player2

fun get_snake :: "player \<Rightarrow> game \<Rightarrow> snake" where
  "get_snake Player1 g = snake1 g"
| "get_snake Player2 g = snake2 g"

fun put_snake :: "player \<Rightarrow> snake \<Rightarrow> game \<Rightarrow> game" where
  "put_snake Player1 s g = g\<lparr>snake1 := s\<rparr>"
| "put_snake Player2 s g = g\<lparr>snake2 := s\<rparr>"

text \<open>\<open>self.snakeN.direction = d\<close> inside the game: the property assignment of
  theory \<open>Snake\<close>, with the game as the snake's parent.\<close>

definition set_snake_direction :: "player \<Rightarrow> dir \<Rightarrow> game \<Rightarrow> game" where
  "set_snake_direction pl d g =
     (case set_direction d (get_snake pl g) g of (s, g') \<Rightarrow> put_snake pl s g')"

text \<open>One branch of the keyboard handler: \<open>if self.snakeN.direction != forbidden:
  self.snakeN.direction = d\<close>.\<close>

definition steer :: "player \<Rightarrow> dir \<Rightarrow> dir \<Rightarrow> game \<Rightarrow> game" where
  "steer pl forbidden d g =
     (if direction (get_snake pl g) \<noteq> forbidden then set_snake_direction pl d g else g)"

text \<open>\<open>SnakesGame._on_keyboard_down\<close>, on the key name \<open>keycode[1]\<close>.\<close>

definition on_keyboard_down :: "string \<Rightarrow> game \<Rightarrow> game" where
  "on_keyboard_down k g =
     (if k = ''s'' then steer Player1 (0, 1) (0, -1) g
      else if k = ''w'' then steer Player1 (0, -1) (0, 1) g
      else if k = ''a'' then steer Player1 (1, 0) (-1, 0) g
      else if k = ''d'' then steer Player1 (-1, 0) (1, 0) g
      else if k = ''down'' then steer Player2 (0, 1) (0, -1) g
      else if k = ''up'' then steer Player2 (0, -1) (0, 1) g
      else if k = ''left'' then steer Player2 (1, 0) (-1, 0) g
      else if k = ''right'' then steer Player2 (-1, 0) (1, 0) g
      else g)"

text \<open>\<open>SnakesGame._keyboard_closed\<close>: the handler is unbound.\<close>

definition keyboard_closed :: "game \<Rightarrow> game" where
  "keyboard_closed g = g\<lparr>keyboard_bound := False\<rparr>"

text \<open>\<open>SnakesGame.reset\<close>: re-centre both snakes, make them idle (which, through
  \<open>on_direction\<close>, creates one more Trail for each snake that was moving), then
  remove each listed Trail from the widget tree (\<open>remove_widget\<close> removes
  the child if present and does nothing otherwise) and empty the \<open>trails\<close>
  list. Scores are kept.\<close>

definition reset :: "game \<Rightarrow> game" where
  "reset g =
     (let g1 = g\<lparr>snake1 := set_center (width g / 3, height g / 2) (snake1 g)\<rparr>;
          g2 = g1\<lparr>snake2 := set_center (width g1 * 2 / 3, height g1 / 2) (snake2 g1)\<rparr>;
          g3 = set_snake_direction Player1 (0, 0) g2;
          g4 = set_snake_direction Player2 (0, 0) g3
      in g4\<lparr>children := fold (\<lambda>t. remove1 (TrailChild t)) (trails g4) (children g4), trails := []\<rparr>)"

definition add_point :: "player \<Rightarrow> game \<Rightarrow> game" where
  "add_point pl g = put_snake pl ((get_snake pl g)\<lparr>score := score (get_snake pl g) + 1\<rparr>) g"

text \<open>\<open>SnakesGame.update(dt)\<close>: snake 1 moves first; if it collided, snake 2
  scores and the round is reset before snake 2 moves. The argument \<open>dt\<close> is
  unused, as in the source.\<close>

definition update :: "real \<Rightarrow> game \<Rightarrow> game" where
  "update dt g =
     (case move (snake1 g) (snake2 g) g of
        (s1, g1, c1) \<Rightarrow>
          let g1 = g1\<lparr>snake1 := s1\<rparr> in
          if c1 then reset (add_point Player2 g1)
          else
            (case move (snake2 g1) (snake1 g1) g1 of
               (s2, g2, c2) \<Rightarrow>
                 let g2 = g2\<lparr>snake2 := s2\<rparr> in
                 if c2 then reset (add_point Player1 g2) else g2))"

subsection \<open>Events of the environment\<close>

datatype event =
    Tick real
  | KeyDown string
  | KeyboardClosed
  | Resize coord coord

fun game_step :: "game \<Rightarrow> event \<Rightarrow> game" where
  "game_step g (Tick dt) = update dt g"
| "game_step g (KeyDown k) = (if keyboard_bound g then on_keyboard_down k g else g)"
| "game_step g KeyboardClosed = keyboard_closed g"
| "game_step g (Resize w h) = g\<lparr>width := w, height := h\<rparr>"

fun run_events :: "game \<Rightarrow> event list \<Rightarrow> game" where
  "run_events g [] = g"
| "run_events g (e # es) = run_events (game_step g e) es"

text \<open>Window sizes are never negative.\<close>

fun event_ok :: "event \<Rightarrow> bool" where
  "event_ok (Resize w h) \<longleftrightarrow> 0 \<le> w \<and> 0 \<le> h"
| "event_ok _ \<longleftrightarrow> True"

text \<open>A freshly built game (from the kv layout, which is not part of the
  sources): no trails yet, idle snakes of positive size with no score, the
  keyboard bound, a window of non-negative size.\<close>

definition fresh_snake :: "snake \<Rightarrow> bool" where
  "fresh_snake s \<longleftrightarrow> direction s = (0, 0) \<and> trail s = None \<and> score s = 0
                     \<and> 0 < width s \<and> 0 < height s"

definition initial :: "game \<Rightarrow> bool" where
  "initial g \<longleftrightarrow> trails g = [] \<and> trail_store g = [] \<and> trail_children (children g) = [] \<and> keyboard_bound g
                 \<and> fresh_snake (snake1 g) \<and> fresh_snake (snake2 g)
                 \<and> 0 \<le> width g \<and> 0 \<le> height g"

inductive reachable :: "game \<Rightarrow> bool" where
  start: "initial g \<Longrightarrow> reachable g"
| step: "reachable g \<Longrightarrow> event_ok e \<Longrightarrow> reachable (game_step g e)"


subsection \<open>The game invariant\<close>

text \<open>What every snake keeps true: a direction the program can assign, a
  positive size, a non-negative score, and a trail reference into the store
  (no trail only while idle, before the first turn).\<close>

definition snake_ok :: "trail list \<Rightarrow> snake \<Rightarrow> bool" where
  "snake_ok st s \<longleftrightarrow> valid_dir (direction s) \<and> 0 < width s \<and> 0 < height s \<and> 0 \<le> score s
     \<and> (case trail s of None \<Rightarrow> direction s = (0, 0) | Some i \<Rightarrow> i < length st)"

definition trail_follows :: "trail list \<Rightarrow> snake \<Rightarrow> bool" where
  "trail_follows st s \<longleftrightarrow> (case trail s of None \<Rightarrow> True | Some i \<Rightarrow> follows s (st ! i))"

definition game_ok :: "game \<Rightarrow> bool" where
  "game_ok g \<longleftrightarrow> 0 \<le> width g \<and> 0 \<le> height g
     \<and> snake_ok (trail_store g) (snake1 g) \<and> snake_ok (trail_store g) (snake2 g)
     \<and> (\<forall>i\<in>set (trails g). i < length (trail_store g))
     \<and> (case (trail (snake1 g), trail (snake2 g)) of (Some i, Some j) \<Rightarrow> i \<noteq> j | _ \<Rightarrow> True)"

definition game_inv :: "game \<Rightarrow> bool" where
  "game_inv g \<longleftrightarrow> game_ok g
     \<and> trail_follows (trail_store g) (snake1 g) \<and> trail_follows (trail_store g) (snake2 g)"

fun other :: "player \<Rightarrow> player" where
  "other Player1 = Player2"
| "other Player2 = Player1"

subsection \<open>Keys and headings: the specification of steering\<close>

text \<open>Which snake a key steers and in which direction (spec, section 6).\<close>

definition key_binding :: "string \<Rightarrow> (player \<times> dir) option" where
  "key_binding k =
     (if k = ''s'' then Some (Player1, (0, -1)) else if k = ''w'' then Some (Player1, (0, 1))
      else if k = ''a'' then Some (Player1, (-1, 0)) else if k = ''d'' then Some (Player1, (1, 0))
      else if k = ''down'' then Some (Player2, (0, -1)) else if k = ''up'' then Some (Player2, (0, 1))
      else if k = ''left'' then Some (Player2, (-1, 0)) else if k = ''right'' then Some (Player2, (1, 0))
      else None)"

definition neg_dir :: "dir \<Rightarrow> dir" where
  "neg_dir d = (- fst d, - snd d)"

text \<open>The inverse of the key table: the key that steers a player's snake in a
  cardinal direction (spec, section 6).\<close>

definition key_for :: "player \<Rightarrow> dir \<Rightarrow> string" where
  "key_for pl d =
     (case pl of
        Player1 \<Rightarrow> if d = (0, -1) then ''s'' else if d = (0, 1) then ''w''
                   else if d = (-1, 0) then ''a'' else ''d''
      | Player2 \<Rightarrow> if d = (0, -1) then ''down'' else if d = (0, 1) then ''up''
                   else if d = (-1, 0) then ''left'' else ''right'')"

text \<open>The abstract direction state machine of the spec (section 4.3): idle may
  turn anywhere, a heading may turn anywhere but back on itself.\<close>

datatype heading = Idle | Up | Down | Left | Right

definition heading_of :: "dir \<Rightarrow> heading" where
  "heading_of d =
     (if d = (0, 1) then Up else if d = (0, -1) then Down
      else if d = (-1, 0) then Left else if d = (1, 0) then Right else Idle)"

fun opposite :: "heading \<Rightarrow> heading" where
  "opposite Up = Down"
| "opposite Down = Up"
| "opposite Left = Right"
| "opposite Right = Left"
| "opposite Idle = Idle"

definition turn :: "heading \<Rightarrow> heading \<Rightarrow> heading" where
  "turn cur new = (if new = opposite cur then cur else new)"

text \<open>The spec's transitions of one snake's heading: stay, turn to any
  heading but the opposite one, or become idle (only through \<open>reset\<close>).\<close>

inductive heading_trans :: "heading \<Rightarrow> heading \<Rightarrow> bool" where
  stay: "heading_trans h h"
| turn_to: "h' \<noteq> Idle \<Longrightarrow> h' \<noteq> opposite h \<Longrightarrow> heading_trans h h'"
| to_idle: "heading_trans h Idle"

text \<open>Whether a tick ends the round: one of the two moves of \<open>update\<close>
  reports a collision.\<close>

definition tick_collides :: "game \<Rightarrow> bool" where
  "tick_collides g \<longleftrightarrow>
     (let m1 = move (snake1 g) (snake2 g) g;
          g1 = put_snake Player1 (fst m1) (fst (snd m1))
      in snd (snd m1) \<or> snd (snd (move (snake2 g1) (snake1 g1) g1)))"

text \<open>How far a snake's head is from the edge it is heading for; the status
  bar's bottom is the upper edge.\<close>

definition edge_distance :: "snake \<Rightarrow> 'a parent_scheme \<Rightarrow> real" where
  "edge_distance s p =
     (if direction s = (1, 0) then width p - widget_right s
      else if direction s = (-1, 0) then wx s
      else if direction s = (0, 1) then status_bar_y p - widget_top s
      else if direction s = (0, -1) then wy s
      else 0)"

subsection \<open>Frame lemmas: what each operation changes\<close>

text \<open>The record simplifier does not see through an update of a field whose
  type is itself a widget record; these frame rules close the gap.\<close>

lemma game_snake_update_widget [simp]:
  "wx (g\<lparr>snake1 := s\<rparr>) = wx g" "wy (g\<lparr>snake1 := s\<rparr>) = wy g"
  "width (g\<lparr>snake1 := s\<rparr>) = width g" "height (g\<lparr>snake1 := s\<rparr>) = height g"
  "wx (g\<lparr>snake2 := s\<rparr>) = wx g" "wy (g\<lparr>snake2 := s\<rparr>) = wy g"
  "width (g\<lparr>snake2 := s\<rparr>) = width g" "height (g\<lparr>snake2 := s\<rparr>) = height g"
  "snake1 (g\<lparr>width := w\<rparr>) = snake1 g" "snake1 (g\<lparr>height := h\<rparr>) = snake1 g"
  "snake2 (g\<lparr>width := w\<rparr>) = snake2 g" "snake2 (g\<lparr>height := h\<rparr>) = snake2 g"
  "keyboard_bound (g\<lparr>width := w\<rparr>) = keyboard_bound g"
  "keyboard_bound (g\<lparr>height := h\<rparr>) = keyboard_bound g"
  by (cases g; simp)+

lemma get_snake_eq: "get_snake pl g = (case pl of Player1 \<Rightarrow> snake1 g | Player2 \<Rightarrow> snake2 g)"
  by (cases pl) simp_all

lemma put_snake_eq:
  "put_snake pl s g = (case pl of Player1 \<Rightarrow> g\<lparr>snake1 := s\<rparr> | Player2 \<Rightarrow> g\<lparr>snake2 := s\<rparr>)"
  by (cases pl) simp_all

lemma get_put_snake [simp]:
  "get_snake pl (put_snake pl s g) = s"
  "pl \<noteq> pl' \<Longrightarrow> get_snake pl' (put_snake pl s g) = get_snake pl' g"
  "put_snake pl (get_snake pl g) g = g"
  by (auto simp: get_snake_eq put_snake_eq split: player.split)

lemma put_snake_fields [simp]:
  "width (put_snake pl s g) = width g" "height (put_snake pl s g) = height g"
  "trails (put_snake pl s g) = trails g" "trail_store (put_snake pl s g) = trail_store g"
  "status_bar_y (put_snake pl s g) = status_bar_y g"
  "keyboard_bound (put_snake pl s g) = keyboard_bound g"
  "children (put_snake pl s g) = children g"
  by (simp_all add: put_snake_eq split: player.split)

lemma get_snake_parent_update [simp]:
  "get_snake pl (g\<lparr>trail_store := st\<rparr>) = get_snake pl g"
  "get_snake pl (g\<lparr>trails := ts\<rparr>) = get_snake pl g"
  "get_snake pl (g\<lparr>children := cs\<rparr>) = get_snake pl g"
  by (simp_all add: get_snake_eq split: player.split)

lemma set_snake_direction_eq:
  "set_snake_direction pl d g =
     (if direction (get_snake pl g) = d then g
      else let s = (get_snake pl g)\<lparr>direction_x := fst d, direction_y := snd d\<rparr>;
               i = length (trail_store g)
           in put_snake pl (s\<lparr>trail := Some i\<rparr>)
                (g\<lparr>trail_store := trail_store g @ [new_trail s], children := TrailChild i # children g,
                    trails := trails g @ [i]\<rparr>))"
  by (simp add: set_snake_direction_def set_direction_def on_direction_def Let_def)

lemma set_snake_direction_fields [simp]:
  "width (set_snake_direction pl d g) = width g"
  "height (set_snake_direction pl d g) = height g"
  "status_bar_y (set_snake_direction pl d g) = status_bar_y g"
  "keyboard_bound (set_snake_direction pl d g) = keyboard_bound g"
  "direction (get_snake pl (set_snake_direction pl d g)) = d"
  "pl \<noteq> pl' \<Longrightarrow> get_snake pl' (set_snake_direction pl d g) = get_snake pl' g"
  by (simp_all add: set_snake_direction_eq Let_def direction_def)

lemma set_snake_direction_snake_fields [simp]:
  "wx (get_snake pl (set_snake_direction pl d g)) = wx (get_snake pl g)"
  "wy (get_snake pl (set_snake_direction pl d g)) = wy (get_snake pl g)"
  "width (get_snake pl (set_snake_direction pl d g)) = width (get_snake pl g)"
  "height (get_snake pl (set_snake_direction pl d g)) = height (get_snake pl g)"
  "score (get_snake pl (set_snake_direction pl d g)) = score (get_snake pl g)"
  by (simp_all add: set_snake_direction_eq Let_def)

lemma reset_fields [simp]:
  "width (reset g) = width g" "height (reset g) = height g"
  "status_bar_y (reset g) = status_bar_y g" "keyboard_bound (reset g) = keyboard_bound g"
  "trails (reset g) = []"
  by (simp_all add: reset_def Let_def)

lemma reset_snakes:
  "direction (snake1 (reset g)) = (0, 0)" "direction (snake2 (reset g)) = (0, 0)"
  "wx (snake1 (reset g)) = width g / 3 - width (snake1 g) / 2"
  "wy (snake1 (reset g)) = height g / 2 - height (snake1 g) / 2"
  "wx (snake2 (reset g)) = width g * 2 / 3 - width (snake2 g) / 2"
  "wy (snake2 (reset g)) = height g / 2 - height (snake2 g) / 2"
  "score (snake1 (reset g)) = score (snake1 g)" "score (snake2 (reset g)) = score (snake2 g)"
  "width (snake1 (reset g)) = width (snake1 g)" "height (snake1 (reset g)) = height (snake1 g)"
  "width (snake2 (reset g)) = width (snake2 g)" "height (snake2 (reset g)) = height (snake2 g)"
  by (simp_all add: reset_def Let_def set_center_def set_snake_direction_eq direction_def)

lemma reset_idle:
  assumes "direction (snake1 g) = (0, 0)" "direction (snake2 g) = (0, 0)"
  shows "reset g = g\<lparr>snake1 := set_center (width g / 3, height g / 2) (snake1 g),
                     snake2 := set_center (width g * 2 / 3, height g / 2) (snake2 g),
                     children := fold (\<lambda>t. remove1 (TrailChild t)) (trails g) (children g),
                     trails := []\<rparr>"
  using assms by (simp add: reset_def Let_def set_snake_direction_eq set_center_def direction_def)


lemma game_ok_players:
  "game_ok g \<longleftrightarrow> 0 \<le> width g \<and> 0 \<le> height g
     \<and> snake_ok (trail_store g) (get_snake pl g) \<and> snake_ok (trail_store g) (get_snake (other pl) g)
     \<and> (\<forall>i\<in>set (trails g). i < length (trail_store g))
     \<and> (case (trail (get_snake pl g), trail (get_snake (other pl) g)) of
          (Some i, Some j) \<Rightarrow> i \<noteq> j | _ \<Rightarrow> True)"
  by (cases pl) (auto simp: game_ok_def split: option.split)

lemma game_inv_players:
  "game_inv g \<longleftrightarrow> game_ok g
     \<and> trail_follows (trail_store g) (get_snake pl g) \<and> trail_follows (trail_store g) (get_snake (other pl) g)"
  by (cases pl) (auto simp: game_inv_def)

lemma other_neq [simp]: "other pl \<noteq> pl" "pl \<noteq> other pl"
  by (cases pl; simp)+

lemma snake_ok_append: "snake_ok st s \<Longrightarrow> snake_ok (st @ [t]) s"
  by (auto simp: snake_ok_def split: option.splits)

lemma trail_follows_append: "snake_ok st s \<Longrightarrow> trail_follows st s \<Longrightarrow> trail_follows (st @ [t]) s"
  by (auto simp: snake_ok_def trail_follows_def nth_append_left split: option.splits)

lemma game_ok_set_snake_direction:
  assumes "game_ok g" "valid_dir d"
  shows "game_ok (set_snake_direction pl d g)"
  using assms
  by (cases pl) (auto simp: game_ok_def set_snake_direction_eq Let_def snake_ok_def direction_def
                      split: option.splits)

lemma game_inv_set_snake_direction:
  assumes "game_inv g" "valid_dir d"
  shows "game_inv (set_snake_direction pl d g)"
proof (cases "direction (get_snake pl g) = d")
  case True
  with assms show ?thesis by (simp add: set_snake_direction_eq)
next
  case False
  from assms have ok: "game_ok (set_snake_direction pl d g)"
    by (simp add: game_inv_def game_ok_set_snake_direction)
  let ?s = "(get_snake pl g)\<lparr>direction_x := fst d, direction_y := snd d\<rparr>"
  from assms have "snake_ok (trail_store g) (get_snake (other pl) g)"
    and "trail_follows (trail_store g) (get_snake (other pl) g)"
    by (simp_all add: game_inv_players [of g pl] game_ok_players [of g pl])
  then have fo: "trail_follows (trail_store g @ [new_trail ?s]) (get_snake (other pl) g)"
    by (rule trail_follows_append)
  have fs: "trail_follows (trail_store g @ [new_trail ?s]) (?s\<lparr>trail := Some (length (trail_store g))\<rparr>)"
    by (simp add: trail_follows_def follows_new_trail)
  from False ok fo fs show ?thesis
    by (simp add: game_inv_players [of _ pl] set_snake_direction_eq Let_def)
qed

lemma snakes_move_parent [simp]:
  "snake1 (fst (snd (move s t g))) = snake1 g"
  "snake2 (fst (snd (move s t g))) = snake2 g"
  "keyboard_bound (fst (snd (move s t g))) = keyboard_bound g"
  by (simp_all add: move_parent split: option.split)

lemma get_snake_move_parent [simp]:
  "get_snake pl (fst (snd (move s t g))) = get_snake pl g"
  by (cases pl) simp_all

lemma game_inv_move:
  fixes pl :: player and other_snake :: snake
  assumes inv: "game_inv g"
  defines "m \<equiv> move (get_snake pl g) other_snake g"
  shows "game_inv (put_snake pl (fst m) (fst (snd m)))"
proof -
  let ?s = "get_snake pl g" and ?o = "get_snake (other pl) g"
  from inv have ok: "game_ok g" and f: "trail_follows (trail_store g) ?s"
    and fo: "trail_follows (trail_store g) ?o"
    by (simp_all add: game_inv_players [of g pl])
  from ok have sc: "0 \<le> speed_scale g"
    by (simp add: game_ok_def speed_scale_nonneg)
  from ok have sok: "snake_ok (trail_store g) ?s" and ook: "snake_ok (trail_store g) ?o"
    and dist: "case (trail ?s, trail ?o) of (Some i, Some j) \<Rightarrow> i \<noteq> j | _ \<Rightarrow> True"
    by (simp_all add: game_ok_players [of g pl])
  have score: "score ?s \<le> score (fst m)"
    by (simp add: m_def move_score)
  have ok': "game_ok (put_snake pl (fst m) (fst (snd m)))"
    using ok sok ook dist score
    by (simp add: game_ok_players [of _ pl] m_def snake_ok_def split: option.splits)
  have fs: "trail_follows (trail_store (fst (snd m))) (fst m)"
    using f sok sc by (auto simp: m_def trail_follows_def snake_ok_def intro: move_follows split: option.splits)
  have fo': "trail_follows (trail_store (fst (snd m))) ?o"
    using fo dist by (auto simp: m_def trail_follows_def move_store_other split: option.splits)
  from ok' fs fo' show ?thesis
    by (simp add: game_inv_players [of _ pl] m_def)
qed

lemma game_inv_add_point: "game_inv g \<Longrightarrow> game_inv (add_point pl g)"
  by (cases pl) (auto simp: add_point_def game_inv_def game_ok_def snake_ok_def trail_follows_def
                            direction_def split: option.splits)

lemma game_ok_set_centers:
  "game_ok g \<Longrightarrow> game_ok (g\<lparr>snake1 := set_center c1 (snake1 g), snake2 := set_center c2 (snake2 g)\<rparr>)"
  by (auto simp: game_ok_def snake_ok_def set_center_def direction_def split: option.splits)

lemma follows_idle: "direction s = (0, 0) \<Longrightarrow> follows s t"
  by (simp add: follows_def)

lemma game_inv_reset:
  assumes "game_ok g"
  shows "game_inv (reset g)"
proof -
  have v: "valid_dir (0, 0)" by (simp add: valid_dir_def)
  from assms have "game_ok (set_snake_direction Player2 (0, 0) (set_snake_direction Player1 (0, 0)
      (g\<lparr>snake1 := set_center (width g / 3, height g / 2) (snake1 g)\<rparr>
        \<lparr>snake2 := set_center (width g * 2 / 3, height g / 2) (snake2 g)\<rparr>)))"
    by (intro game_ok_set_snake_direction v) (simp add: game_ok_set_centers)
  then have "game_ok (reset g)"
    by (simp add: reset_def Let_def game_ok_def)
  moreover have "trail_follows (trail_store (reset g)) (snake1 (reset g))"
    and "trail_follows (trail_store (reset g)) (snake2 (reset g))"
    by (simp_all add: trail_follows_def follows_idle reset_snakes split: option.split)
  ultimately show ?thesis by (simp add: game_inv_def)
qed

lemma update_eq:
  "update dt g =
     (let m1 = move (snake1 g) (snake2 g) g;
          g1 = put_snake Player1 (fst m1) (fst (snd m1))
      in if snd (snd m1) then reset (add_point Player2 g1)
         else let m2 = move (snake2 g1) (snake1 g1) g1;
                  g2 = put_snake Player2 (fst m2) (fst (snd m2))
              in if snd (snd m2) then reset (add_point Player1 g2) else g2)"
  by (simp add: update_def Let_def del: snakes_move_parent get_snake_move_parent split: prod.split)

lemma game_inv_update:
  assumes "game_inv g"
  shows "game_inv (update dt g)"
proof -
  let ?m1 = "move (snake1 g) (snake2 g) g"
  let ?g1 = "put_snake Player1 (fst ?m1) (fst (snd ?m1))"
  let ?m2 = "move (snake2 ?g1) (snake1 ?g1) ?g1"
  let ?g2 = "put_snake Player2 (fst ?m2) (fst (snd ?m2))"
  have i1: "game_inv ?g1"
    using game_inv_move [OF assms, of Player1 "snake2 g"] by simp
  then have i2: "game_inv ?g2"
    using game_inv_move [OF i1, of Player2 "snake1 ?g1"] by simp
  have "game_inv (add_point Player2 ?g1)"
    by (rule game_inv_add_point [OF i1])
  then have r1: "game_inv (reset (add_point Player2 ?g1))"
    by (intro game_inv_reset) (simp add: game_inv_def)
  have "game_inv (add_point Player1 ?g2)"
    by (rule game_inv_add_point [OF i2])
  then have r2: "game_inv (reset (add_point Player1 ?g2))"
    by (intro game_inv_reset) (simp add: game_inv_def)
  from i2 r1 r2 show ?thesis
    by (simp add: update_eq Let_def)
qed

lemma game_inv_on_keyboard_down:
  assumes "game_inv g"
  shows "game_inv (on_keyboard_down k g)"
  using game_inv_set_snake_direction [OF assms] assms
  by (simp add: on_keyboard_down_def steer_def valid_dir_def)

lemma game_inv_step:
  assumes "game_inv g" "event_ok e"
  shows "game_inv (game_step g e)"
  using assms
proof (cases e)
  case (Tick dt)
  with assms show ?thesis by (simp add: game_inv_update)
next
  case (KeyDown k)
  with assms show ?thesis by (simp add: game_inv_on_keyboard_down)
next
  case KeyboardClosed
  with assms show ?thesis
    by (simp add: keyboard_closed_def game_inv_def game_ok_def)
next
  case (Resize w h)
  with assms show ?thesis
    by (simp add: game_inv_def game_ok_def)
qed

lemma initial_game_inv: "initial g \<Longrightarrow> game_inv g"
  by (simp add: initial_def fresh_snake_def game_inv_def game_ok_def snake_ok_def
                trail_follows_def valid_dir_def)

lemma reachable_game_inv: "reachable g \<Longrightarrow> game_inv g"
proof (induction rule: reachable.induct)
  case (start g)
  then show ?case by (rule initial_game_inv)
next
  case (step g e)
  from step.IH step.hyps(2) show ?case by (rule game_inv_step)
qed

subsection \<open>The tick, branch by branch\<close>

lemma update_first_collides:
  assumes "snd (snd (move (snake1 g) (snake2 g) g))"
  shows "update dt g = reset (add_point Player2 (put_snake Player1 (fst (move (snake1 g) (snake2 g) g))
                                                    (fst (snd (move (snake1 g) (snake2 g) g)))))"
  using assms by (simp add: update_eq Let_def)

lemma update_arena [simp]:
  "width (update dt g) = width g" "height (update dt g) = height g"
  "status_bar_y (update dt g) = status_bar_y g"
  "keyboard_bound (update dt g) = keyboard_bound g"
  by (simp_all add: update_eq Let_def add_point_def)

lemma on_keyboard_down_bound [simp]:
  "keyboard_bound (on_keyboard_down k g) = keyboard_bound g"
  by (simp add: on_keyboard_down_def steer_def)

lemma update_quiet:
  assumes "\<not> tick_collides g"
  shows "snake1 (update dt g) = fst (move (snake1 g) (snake2 g) g)"
  using assms by (simp add: tick_collides_def update_eq Let_def)

lemma set_snake_direction_store_nth:
  "j < length (trail_store g) \<Longrightarrow> trail_store (set_snake_direction pl d g) ! j = trail_store g ! j"
  by (simp add: set_snake_direction_eq Let_def nth_append_left)

lemma set_snake_direction_store_length:
  "length (trail_store g) \<le> length (trail_store (set_snake_direction pl d g))"
  by (simp add: set_snake_direction_eq Let_def)

lemma reset_store_nth:
  assumes "j < length (trail_store g)"
  shows "trail_store (reset g) ! j = trail_store g ! j"
proof -
  let ?g2 = "g\<lparr>snake1 := set_center (width g / 3, height g / 2) (snake1 g),
               snake2 := set_center (width g * 2 / 3, height g / 2) (snake2 g)\<rparr>"
  have "j < length (trail_store (set_snake_direction Player1 (0, 0) ?g2))"
    using assms set_snake_direction_store_length [of ?g2 Player1 "(0, 0)"] by simp
  then show ?thesis
    using assms by (simp add: reset_def Let_def set_snake_direction_store_nth)
qed

lemma update_directions:
  "direction (get_snake pl (update dt g)) = (if tick_collides g then (0, 0) else direction (get_snake pl g))"
  by (cases pl) (auto simp: tick_collides_def update_eq Let_def reset_snakes add_point_def)

lemma score_reset [simp]: "score (get_snake pl (reset g)) = score (get_snake pl g)"
  by (cases pl) (simp_all add: reset_snakes)

lemma score_add_point [simp]:
  "score (get_snake pl (add_point pl g)) = score (get_snake pl g) + 1"
  "pl \<noteq> pl' \<Longrightarrow> get_snake pl' (add_point pl g) = get_snake pl' g"
  by (simp_all add: add_point_def)

lemma move_score_bounds:
  "score self \<le> score (fst (move self other_snake p)) \<and> score (fst (move self other_snake p)) \<le> score self + 1"
  by (simp add: move_score)

lemma on_keyboard_down_table:
  "on_keyboard_down k g =
     (case key_binding k of
        None \<Rightarrow> g
      | Some (pl, d) \<Rightarrow> if direction (get_snake pl g) = neg_dir d then g else set_snake_direction pl d g)"
  by (simp add: on_keyboard_down_def key_binding_def steer_def neg_dir_def)

lemma key_binding_cardinal:
  "key_binding k = Some (pl, d) \<Longrightarrow> d \<in> {(0, 1), (0, -1), (-1, 0), (1, 0)}"
  by (simp add: key_binding_def split: if_splits)

lemma key_binding_key_for:
  "d \<in> {(0, 1), (0, -1), (-1, 0), (1, 0)} \<Longrightarrow> key_binding (key_for pl d) = Some (pl, d)"
  by (cases pl) (auto simp: key_for_def key_binding_def)

lemma turn_heading_of:
  "d \<in> {(0, 1), (0, -1), (-1, 0), (1, 0)} \<Longrightarrow>
     turn (heading_of c) (heading_of d) = (if c = neg_dir d then heading_of c else heading_of d)"
  by (auto simp: turn_def heading_of_def neg_dir_def)

lemma opposite_heading_of: "opposite (heading_of c) = heading_of (neg_dir c)"
  by (cases c) (simp add: heading_of_def neg_dir_def)

lemma heading_of_cardinal_inj:
  "d \<in> {(0, 1), (0, -1), (-1, 0), (1, 0)} \<Longrightarrow> heading_of x = heading_of d \<Longrightarrow> x = d"
  by (auto simp: heading_of_def split: if_splits)

lemma key_turn_allowed:
  assumes "d \<in> {(0, 1), (0, -1), (-1, 0), (1, 0)}" "c \<noteq> neg_dir d"
  shows "heading_of d \<noteq> Idle \<and> heading_of d \<noteq> opposite (heading_of c)"
proof
  from assms(1) show "heading_of d \<noteq> Idle" by (auto simp: heading_of_def)
  show "heading_of d \<noteq> opposite (heading_of c)"
  proof
    assume "heading_of d = opposite (heading_of c)"
    then have "heading_of (neg_dir c) = heading_of d" by (simp add: opposite_heading_of)
    with assms(1) have "neg_dir c = d" by (rule heading_of_cardinal_inj)
    with assms(2) show False by (auto simp: neg_dir_def)
  qed
qed

lemma heading_after_key:
  "heading_of (direction (get_snake pl (on_keyboard_down k g))) = heading_of (direction (get_snake pl g))
   \<or> (heading_of (direction (get_snake pl (on_keyboard_down k g))) \<noteq> Idle
      \<and> heading_of (direction (get_snake pl (on_keyboard_down k g))) \<noteq> opposite (heading_of (direction (get_snake pl g))))"
proof (cases "key_binding k")
  case None
  then show ?thesis by (simp add: on_keyboard_down_table)
next
  case (Some b)
  then obtain pl' d where b: "key_binding k = Some (pl', d)" by (cases b) auto
  then have c: "d \<in> {(0, 1), (0, -1), (-1, 0), (1, 0)}" by (rule key_binding_cardinal)
  show ?thesis
  proof (cases "pl' = pl")
    case True
    with b key_turn_allowed [OF c, of "direction (get_snake pl g)"] show ?thesis
      by (simp add: on_keyboard_down_table)
  next
    case False
    with b show ?thesis by (simp add: on_keyboard_down_table)
  qed
qed

subsection \<open>Properties of the game\<close>

text \<open>C3: Scores never decrease, and one tick gives each snake at most one
  point.\<close>

theorem update_score_monotone:
  "score (get_snake pl g) \<le> score (get_snake pl (update dt g))
   \<and> score (get_snake pl (update dt g)) \<le> score (get_snake pl g) + 1"
proof -
  let ?m1 = "move (snake1 g) (snake2 g) g"
  let ?g1 = "put_snake Player1 (fst ?m1) (fst (snd ?m1))"
  let ?m2 = "move (snake2 ?g1) (snake1 ?g1) ?g1"
  have b1: "score (snake1 g) \<le> score (fst ?m1) \<and> score (fst ?m1) \<le> score (snake1 g) + 1"
    by (rule move_score_bounds)
  have b2: "score (snake2 g) \<le> score (fst ?m2) \<and> score (fst ?m2) \<le> score (snake2 g) + 1"
    using move_score_bounds [of "snake2 ?g1" "snake1 ?g1" ?g1] by simp
  show ?thesis
  proof (cases "snd (snd ?m1)")
    case True
    with b1 show ?thesis by (cases pl) (simp_all add: update_eq Let_def reset_snakes add_point_def)
  next
    case False
    then have "score (fst ?m1) = score (snake1 g)" by (rule move_no_collision_score)
    moreover have "\<not> snd (snd ?m2) \<Longrightarrow> score (fst ?m2) = score (snake2 g)"
      using move_no_collision_score [of "snake2 ?g1" "snake1 ?g1" ?g1] by simp
    ultimately show ?thesis using False b2
      by (cases pl) (auto simp: update_eq Let_def reset_snakes add_point_def)
  qed
qed

text \<open>C4: A head-on collision (snake 1's move stays inside the arena but hits
  snake 2) gives both snakes a point in the same tick: snake 1 from
  \<open>Snake.move\<close>, snake 2 from \<open>SnakesGame.update\<close>.\<close>

theorem update_head_on_scores:
  assumes "\<not> out_of_arena (advance (speed_scale g) (snake1 g)) g"
    and "collide_widget (advance (speed_scale g) (snake1 g)) (snake2 g)"
  shows "score (snake1 (update dt g)) = score (snake1 g) + 1
       \<and> score (snake2 (update dt g)) = score (snake2 g) + 1"
proof -
  have c: "snd (snd (move (snake1 g) (snake2 g) g))"
    using assms by (simp add: move_result Let_def)
  have "score (fst (move (snake1 g) (snake2 g) g)) = score (snake1 g) + 1"
    using assms by (simp add: move_score)
  with c show ?thesis
    by (simp add: update_first_collides reset_snakes add_point_def)
qed

text \<open>C5: When snake 1's move leaves the arena (spec scenario: moving left
  until \<open>x \<le> 0\<close>), snake 2 gains a point, snake 1 does not, both snakes are
  re-centred at a third and two thirds of the width, idle, and the trail list
  is empty.\<close>

theorem update_wall_crash:
  assumes "out_of_arena (advance (speed_scale g) (snake1 g)) g"
  shows "score (snake1 (update dt g)) = score (snake1 g)
       \<and> score (snake2 (update dt g)) = score (snake2 g) + 1
       \<and> wx (snake1 (update dt g)) = width g / 3 - width (snake1 g) / 2
       \<and> wy (snake1 (update dt g)) = height g / 2 - height (snake1 g) / 2
       \<and> wx (snake2 (update dt g)) = width g * 2 / 3 - width (snake2 g) / 2
       \<and> wy (snake2 (update dt g)) = height g / 2 - height (snake2 g) / 2
       \<and> direction (snake1 (update dt g)) = (0, 0) \<and> direction (snake2 (update dt g)) = (0, 0)
       \<and> trails (update dt g) = []"
proof -
  have c: "snd (snd (move (snake1 g) (snake2 g) g))"
    using assms by (simp add: move_result Let_def)
  have "score (fst (move (snake1 g) (snake2 g) g)) = score (snake1 g)"
    using assms by (simp add: move_score)
  with c show ?thesis
    by (simp add: update_first_collides reset_snakes add_point_def)
qed

text \<open>Within a round the trail list is left as it is by a tick; a tick that
  ends the round empties it.\<close>

theorem update_trails:
  "trails (update dt g) = trails g \<or> trails (update dt g) = []"
  by (simp add: update_eq Let_def)

text \<open>C15: No reversal: a key that asks a snake to turn back on its current
  heading changes nothing at all.\<close>

theorem no_reversal:
  assumes "key_binding k = Some (pl, d)" "direction (get_snake pl g) = neg_dir d"
  shows "on_keyboard_down k g = g"
  using assms by (simp add: on_keyboard_down_table)

text \<open>C16: The keyboard handler implements the spec's direction state machine:
  on headings, a key for a snake performs the abstract \<open>turn\<close> (reject the
  exact opposite, accept anything else) and leaves the other snake's heading
  alone.\<close>

theorem on_keyboard_down_heading:
  "heading_of (direction (get_snake pl (on_keyboard_down k g))) =
     (case key_binding k of
        Some (pl', d) \<Rightarrow> if pl' = pl then turn (heading_of (direction (get_snake pl g))) (heading_of d)
                        else heading_of (direction (get_snake pl g))
      | None \<Rightarrow> heading_of (direction (get_snake pl g)))"
proof (cases "key_binding k")
  case None
  then show ?thesis by (simp add: on_keyboard_down_table)
next
  case (Some b)
  then obtain pl' d where b: "key_binding k = Some (pl', d)" by (cases b) auto
  then have "d \<in> {(0, 1), (0, -1), (-1, 0), (1, 0)}" by (rule key_binding_cardinal)
  with b show ?thesis
    by (cases "pl' = pl") (simp_all add: on_keyboard_down_table turn_heading_of)
qed
text \<open>C18: Turning creates exactly one new trail: a key that changes a snake's
  direction (not to its opposite) appends one Trail, built by
  \<open>on_direction\<close> from the snake with its new direction, to the store and to
  the trail list, and makes it the snake's current trail.\<close>

theorem turn_creates_trail:
  assumes "key_binding k = Some (pl, d)" "direction (get_snake pl g) \<noteq> d"
    "direction (get_snake pl g) \<noteq> neg_dir d"
  shows "trails (on_keyboard_down k g) = trails g @ [length (trail_store g)]
       \<and> trail_store (on_keyboard_down k g) =
           trail_store g @ [new_trail ((get_snake pl g)\<lparr>direction_x := fst d, direction_y := snd d\<rparr>)]
       \<and> trail (get_snake pl (on_keyboard_down k g)) = Some (length (trail_store g))"
  using assms by (simp add: on_keyboard_down_table set_snake_direction_eq Let_def)

text \<open>C17: The key table round trip: every cardinal direction of every player
  has a key, and the handler decodes that key back to the same player and
  direction: unless the snake is heading the opposite way, the key sets its
  direction to exactly that one and leaves the other snake as it was.\<close>

theorem key_for_roundtrip:
  assumes "d \<in> {(0, 1), (0, -1), (-1, 0), (1, 0)}" "direction (get_snake pl g) \<noteq> neg_dir d"
  shows "key_binding (key_for pl d) = Some (pl, d)
       \<and> direction (get_snake pl (on_keyboard_down (key_for pl d) g)) = d
       \<and> get_snake (other pl) (on_keyboard_down (key_for pl d) g) = get_snake (other pl) g"
proof -
  have k: "key_binding (key_for pl d) = Some (pl, d)"
    using assms(1) by (rule key_binding_key_for)
  have "other pl \<noteq> pl" by (cases pl) simp_all
  with k assms(2) show ?thesis by (simp add: on_keyboard_down_table)
qed

text \<open>C22: Resetting twice is resetting once.\<close>

theorem reset_idempotent: "reset (reset g) = reset g"
proof -
  have "reset (reset g) = (reset g)\<lparr>snake1 := set_center (width g / 3, height g / 2) (snake1 (reset g)),
                     snake2 := set_center (width g * 2 / 3, height g / 2) (snake2 (reset g)),
                     trails := []\<rparr>"
    by (simp add: reset_idle reset_snakes)
  also have "\<dots> = reset g"
    by (simp add: set_center_same reset_snakes)
  finally show ?thesis .
qed

text \<open>C23: \<open>reset\<close> re-centres both snakes at a third and two thirds of the
  width and half the height, makes them idle, empties the trail list, and
  keeps scores, sizes and the arena.\<close>

theorem reset_spec:
  "wx (snake1 (reset g)) + width (snake1 (reset g)) / 2 = width g / 3
   \<and> wy (snake1 (reset g)) + height (snake1 (reset g)) / 2 = height g / 2
   \<and> wx (snake2 (reset g)) + width (snake2 (reset g)) / 2 = width g * 2 / 3
   \<and> wy (snake2 (reset g)) + height (snake2 (reset g)) / 2 = height g / 2
   \<and> direction (snake1 (reset g)) = (0, 0) \<and> direction (snake2 (reset g)) = (0, 0)
   \<and> trails (reset g) = []
   \<and> score (snake1 (reset g)) = score (snake1 g) \<and> score (snake2 (reset g)) = score (snake2 g)
   \<and> width (snake1 (reset g)) = width (snake1 g) \<and> width (snake2 (reset g)) = width (snake2 g)
   \<and> width (reset g) = width g \<and> height (reset g) = height g"
  by (simp add: reset_snakes)

text \<open>C1: Every reachable state is well formed: the trail list and every
  snake's trail reference point into the store, directions are idle or one of
  the four headings, scores are non-negative, and a snake's current trail lies
  right behind it.\<close>

theorem reachable_wellformed:
  assumes "reachable g"
  shows "(\<forall>i\<in>set (trails g). i < length (trail_store g))
       \<and> (\<forall>pl. valid_dir (direction (get_snake pl g)) \<and> 0 \<le> score (get_snake pl g)
              \<and> (\<forall>i. trail (get_snake pl g) = Some i \<longrightarrow>
                     i < length (trail_store g) \<and> follows (get_snake pl g) (trail_store g ! i)))"
proof -
  from assms have "game_inv g" by (rule reachable_game_inv)
  then show ?thesis
    by (auto simp: game_inv_def game_ok_def snake_ok_def trail_follows_def get_snake_eq
             split: player.split option.splits)
qed

text \<open>C2: A snake never collides with its own growing trail: in a reachable
  state, after a moving snake's step, its head does not collide with the trail
  it is growing (the one-unit margin of \<open>collide_widget\<close> is what makes the
  trail, which touches the head, harmless).\<close>

theorem move_misses_own_trail:
  assumes "reachable g" "direction (get_snake pl g) \<noteq> (0, 0)" "trail (get_snake pl g) = Some i"
  shows "\<not> collide_widget (fst (move (get_snake pl g) other_snake g))
                          (trail_store (fst (snd (move (get_snake pl g) other_snake g))) ! i)"
proof -
  from assms(1) have inv: "game_inv g" by (rule reachable_game_inv)
  then have ok: "snake_ok (trail_store g) (get_snake pl g)" "0 \<le> width g" "0 \<le> height g"
    and f: "trail_follows (trail_store g) (get_snake pl g)"
    by (simp_all add: game_inv_players [of g pl] game_ok_players [of g pl])
  have "follows (fst (move (get_snake pl g) other_snake g))
                (trail_store (fst (snd (move (get_snake pl g) other_snake g))) ! i)"
    using ok f assms(3)
    by (intro move_follows) (simp_all add: snake_ok_def trail_follows_def speed_scale_nonneg)
  moreover have "valid_dir (direction (fst (move (get_snake pl g) other_snake g)))"
    using ok by (simp add: snake_ok_def)
  ultimately show ?thesis
    using assms(2) by (intro follows_no_self_collision) simp_all
qed

text \<open>C14: Every event refines the spec's direction state machine for each
  snake: its heading stays, turns to a heading other than the opposite one, or
  becomes idle; and a moving snake becomes idle only through a tick that ends
  the round.\<close>

theorem game_step_heading:
  "heading_trans (heading_of (direction (get_snake pl g))) (heading_of (direction (get_snake pl (game_step g e))))
   \<and> (heading_of (direction (get_snake pl (game_step g e))) = Idle \<and> heading_of (direction (get_snake pl g)) \<noteq> Idle
      \<longrightarrow> (\<exists>dt. e = Tick dt) \<and> tick_collides g)"
proof (cases e)
  case (Tick dt)
  then show ?thesis
    by (auto simp: update_directions heading_of_def intro: heading_trans.intros)
next
  case (KeyDown k)
  show ?thesis
  proof (cases "keyboard_bound g")
    case True
    with KeyDown heading_after_key [of pl k g] show ?thesis
      by (auto intro: heading_trans.intros)
  next
    case False
    with KeyDown show ?thesis by (simp add: heading_trans.stay)
  qed
next
  case KeyboardClosed
  then show ?thesis by (simp add: keyboard_closed_def get_snake_eq heading_trans.stay split: player.split)
next
  case (Resize w h)
  then show ?thesis by (simp add: get_snake_eq heading_trans.stay split: player.split)
qed

end
