(* ===== verification/Snakes_Copy.thy ===== *)
theory Snakes_Copy
  imports Game "HOL-Library.State_Monad"
begin

text \<open>
  The older top-level copy of the module, src/snakes.py, modelled statement by
  statement. Where theory \<open>Game\<close> turns each method of the package module into
  one function on values, here every method is a program of the state monad
  of HOL-Library over the whole game state: \<open>self.snakeN\<close> is a reference
  (a \<open>player\<close>), every attribute assignment of the source is one update of the
  state, in the source's order, and a Trail object is allocated in the store
  before its fields are set. The two modules differ only in names (the
  keyboard callbacks lack the leading underscore) and in float literals
  (\<open>/ 250\<close> against \<open>/ 250.\<close>, the same division in Python 3); the theorems
  of this theory show that the statement-level model of the copy computes
  exactly the functions of theory \<open>Game\<close>.
\<close>

type_synonym 'a prog = "(game, 'a) state"

subsection \<open>Object access\<close>

text \<open>Reading \<open>self.snakeN\<close>: the current value of the referenced snake.\<close>

definition snake_of :: "player \<Rightarrow> snake prog" where
  "snake_of pl = do { g \<leftarrow> State_Monad.get; State_Monad.return (get_snake pl g) }"

text \<open>An assignment to an attribute of a snake.\<close>

definition modify_snake :: "player \<Rightarrow> (snake \<Rightarrow> snake) \<Rightarrow> unit prog" where
  "modify_snake pl f = State_Monad.update (\<lambda>g. put_snake pl (f (get_snake pl g)) g)"

text \<open>An assignment to an attribute of the Trail object at address \<open>i\<close>.\<close>

definition modify_trail :: "oid \<Rightarrow> (trail \<Rightarrow> trail) \<Rightarrow> unit prog" where
  "modify_trail i f =
     State_Monad.update (\<lambda>g. g\<lparr>trail_store := (trail_store g)[i := f (trail_store g ! i)]\<rparr>)"

text \<open>\<open>Trail(size=..., pos=..., color=...)\<close>: a new object at the next free address.\<close>

definition new_trail_obj :: "trail \<Rightarrow> oid prog" where
  "new_trail_obj t =
     do { g \<leftarrow> State_Monad.get;
          State_Monad.set (g\<lparr>trail_store := trail_store g @ [t]\<rparr>);
          State_Monad.return (length (trail_store g)) }"

text \<open>\<open>self.parent.add_widget(t)\<close> and \<open>self.remove_widget(t)\<close> on the
  game's widget tree.\<close>

definition add_widget_copy :: "oid \<Rightarrow> unit prog" where
  "add_widget_copy i = State_Monad.update (\<lambda>g. g\<lparr>children := TrailChild i # children g\<rparr>)"

definition remove_widget_copy :: "oid \<Rightarrow> unit prog" where
  "remove_widget_copy i = State_Monad.update (\<lambda>g. g\<lparr>children := remove1 (TrailChild i) (children g)\<rparr>)"

text \<open>A \<open>for\<close> loop over a list that the body does not change.\<close>

primrec for_each :: "('a \<Rightarrow> unit prog) \<Rightarrow> 'a list \<Rightarrow> unit prog" where
  "for_each f [] = State_Monad.return ()"
| "for_each f (x # xs) = do { f x; for_each f xs }"

subsection \<open>The methods of src/snakes.py\<close>

text \<open>\<open>Snake.on_direction\<close> (src/snakes.py, lines 139-156).\<close>

definition on_direction_copy :: "player \<Rightarrow> unit prog" where
  "on_direction_copy pl =
     do { s \<leftarrow> snake_of pl;
          i \<leftarrow> new_trail_obj \<lparr>wx = wx s, wy = wy s, width = width s, height = height s,
                              trail_color = color s\<rparr>;
          modify_snake pl (\<lambda>s. s\<lparr>trail := Some i\<rparr>);
          (if direction_x s = 1 then modify_trail i (\<lambda>t. t\<lparr>width := 0\<rparr>)
           else if direction_x s = -1 then
             do { modify_trail i (\<lambda>t. t\<lparr>width := 0\<rparr>);
                  modify_trail i (\<lambda>t. t\<lparr>wx := widget_right s\<rparr>) }
           else if direction_y s = 1 then modify_trail i (\<lambda>t. t\<lparr>height := 0\<rparr>)
           else if direction_y s = -1 then
             do { modify_trail i (\<lambda>t. t\<lparr>height := 0\<rparr>);
                  modify_trail i (\<lambda>t. t\<lparr>wy := widget_top s\<rparr>) }
           else State_Monad.return ());
          add_widget_copy i;
          State_Monad.update (\<lambda>g. g\<lparr>trails := trails g @ [i]\<rparr>) }"

text \<open>\<open>self.snakeN.direction = d\<close>: Kivy stores the value and dispatches the
  observer only when it differs from the old one.\<close>

definition assign_direction :: "player \<Rightarrow> dir \<Rightarrow> unit prog" where
  "assign_direction pl d =
     do { s \<leftarrow> snake_of pl;
          if direction s = d then State_Monad.return ()
          else do { modify_snake pl (\<lambda>s. s\<lparr>direction_x := fst d, direction_y := snd d\<rparr>);
                    on_direction_copy pl } }"

text \<open>\<open>Snake.collide_widget\<close> (lines 87-109).\<close>

definition collide_widget_copy :: "'a widget_scheme \<Rightarrow> 'b widget_scheme \<Rightarrow> bool" where
  "collide_widget_copy self wid =
     (let vertical =
        (if height wid < 0 then
           (if widget_top self < widget_top wid + 1 then False
            else if wy self > wy wid - 1 then False
            else True)
         else
           (if widget_top self < wy wid + 1 then False
            else if wy self > widget_top wid - 1 then False
            else True))
      in if width wid < 0 then
           (if widget_right self < widget_right wid + 1 then False
            else if wx self > wx wid - 1 then False
            else vertical)
         else
           (if widget_right self < wx wid + 1 then False
            else if wx self > widget_right wid - 1 then False
            else vertical))"

text \<open>\<open>Snake.move\<close> (lines 111-137), with \<open>self\<close> the snake \<open>pl\<close> and \<open>other\<close>
  the snake \<open>pl'\<close>; the loop over \<open>self.parent.trails\<close> returns on the first
  colliding Trail.\<close>

definition move_copy :: "player \<Rightarrow> player \<Rightarrow> bool prog" where
  "move_copy pl pl' =
     do { g \<leftarrow> State_Monad.get;
          let speed_scale = (if width g < height g then width g / 250 else height g / 250);
          modify_snake pl (\<lambda>s. s\<lparr>wx := of_int (direction_x s) * speed_scale + wx s,
                                 wy := of_int (direction_y s) * speed_scale + wy s\<rparr>);
          s \<leftarrow> snake_of pl;
          (case trail s of
             None \<Rightarrow> State_Monad.return ()
           | Some t \<Rightarrow>
               do { modify_trail t (\<lambda>tr. tr\<lparr>width := width tr + of_int (direction_x s) * speed_scale\<rparr>);
                    modify_trail t (\<lambda>tr. tr\<lparr>height := height tr + of_int (direction_y s) * speed_scale\<rparr>) });
          g \<leftarrow> State_Monad.get;
          if widget_right s \<ge> width g \<or> wx s \<le> 0 then State_Monad.return True
          else if widget_top s \<ge> status_bar_y g \<or> wy s \<le> 0 then State_Monad.return True
          else do {
            other \<leftarrow> snake_of pl';
            if collide_widget_copy s other then
              do { modify_snake pl (\<lambda>s. s\<lparr>score := score s + 1\<rparr>); State_Monad.return True }
            else State_Monad.return (list_ex (\<lambda>t. collide_widget_copy s (trail_store g ! t)) (trails g)) } }"

text \<open>\<open>SnakesGame.reset\<close> (lines 68-76): the loop removes every listed Trail
  from the widget tree, \<open>self.trails.clear()\<close> empties the list.\<close>

definition reset_copy :: "unit prog" where
  "reset_copy =
     do { g \<leftarrow> State_Monad.get;
          modify_snake Player1 (set_center (width g / 3, height g / 2));
          g \<leftarrow> State_Monad.get;
          modify_snake Player2 (set_center (width g * 2 / 3, height g / 2));
          assign_direction Player1 (0, 0);
          assign_direction Player2 (0, 0);
          g \<leftarrow> State_Monad.get;
          for_each remove_widget_copy (trails g);
          State_Monad.update (\<lambda>g. g\<lparr>trails := []\<rparr>) }"

text \<open>\<open>SnakesGame.update\<close> (lines 59-66).\<close>

definition update_copy :: "real \<Rightarrow> unit prog" where
  "update_copy dt =
     do { c1 \<leftarrow> move_copy Player1 Player2;
          if c1 then do { modify_snake Player2 (\<lambda>s. s\<lparr>score := score s + 1\<rparr>); reset_copy }
          else do {
            c2 \<leftarrow> move_copy Player2 Player1;
            if c2 then do { modify_snake Player1 (\<lambda>s. s\<lparr>score := score s + 1\<rparr>); reset_copy }
            else State_Monad.return () } }"

text \<open>One guarded branch of \<open>SnakesGame.on_keyboard_down\<close>:
  \<open>if self.snakeN.direction != forbidden: self.snakeN.direction = d\<close>.\<close>

definition turn_copy :: "player \<Rightarrow> dir \<Rightarrow> dir \<Rightarrow> unit prog" where
  "turn_copy pl forbidden d =
     do { s \<leftarrow> snake_of pl;
          if direction s \<noteq> forbidden then assign_direction pl d else State_Monad.return () }"

text \<open>\<open>SnakesGame.on_keyboard_down\<close> (lines 29-53).\<close>

definition on_keyboard_down_copy :: "string \<Rightarrow> unit prog" where
  "on_keyboard_down_copy k =
     (if k = ''s'' then turn_copy Player1 (0, 1) (0, -1)
      else if k = ''w'' then turn_copy Player1 (0, -1) (0, 1)
      else if k = ''a'' then turn_copy Player1 (1, 0) (-1, 0)
      else if k = ''d'' then turn_copy Player1 (-1, 0) (1, 0)
      else if k = ''down'' then turn_copy Player2 (0, 1) (0, -1)
      else if k = ''up'' then turn_copy Player2 (0, -1) (0, 1)
      else if k = ''left'' then turn_copy Player2 (1, 0) (-1, 0)
      else if k = ''right'' then turn_copy Player2 (-1, 0) (1, 0)
      else State_Monad.return ())"

text \<open>\<open>SnakesGame.keyboard_closed\<close> (lines 25-27).\<close>

definition keyboard_closed_copy :: "unit prog" where
  "keyboard_closed_copy = State_Monad.update (\<lambda>g. g\<lparr>keyboard_bound := False\<rparr>)"

text \<open>The host's events, delivered to the copy's handlers.\<close>

fun game_step_copy :: "event \<Rightarrow> unit prog" where
  "game_step_copy (Tick dt) = update_copy dt"
| "game_step_copy (KeyDown k) =
     do { g \<leftarrow> State_Monad.get;
          if keyboard_bound g then on_keyboard_down_copy k else State_Monad.return () }"
| "game_step_copy KeyboardClosed = keyboard_closed_copy"
| "game_step_copy (Resize w h) = State_Monad.update (\<lambda>g. g\<lparr>width := w, height := h\<rparr>)"

primrec run_events_copy :: "event list \<Rightarrow> unit prog" where
  "run_events_copy [] = State_Monad.return ()"
| "run_events_copy (e # es) = do { game_step_copy e; run_events_copy es }"

subsection \<open>Running the statements\<close>

text \<open>What each primitive statement does to the state.\<close>

lemma run_state_update [simp]: "run_state (State_Monad.update f) g = ((), f g)"
  by (simp add: State_Monad.update_def)

lemma run_snake_of [simp]: "run_state (snake_of pl) g = (get_snake pl g, g)"
  by (simp add: snake_of_def)

lemma run_modify_snake [simp]:
  "run_state (modify_snake pl f) g = ((), put_snake pl (f (get_snake pl g)) g)"
  by (simp add: modify_snake_def)

lemma run_modify_trail [simp]:
  "run_state (modify_trail i f) g =
     ((), g\<lparr>trail_store := (trail_store g)[i := f (trail_store g ! i)]\<rparr>)"
  by (simp add: modify_trail_def)

lemma run_new_trail_obj [simp]:
  "run_state (new_trail_obj t) g = (length (trail_store g), g\<lparr>trail_store := trail_store g @ [t]\<rparr>)"
  by (simp add: new_trail_obj_def)

lemma run_add_widget_copy [simp]:
  "run_state (add_widget_copy i) g = ((), g\<lparr>children := TrailChild i # children g\<rparr>)"
  by (simp add: add_widget_copy_def)

lemma put_snake_parent_update [simp]:
  "put_snake pl s (g\<lparr>trail_store := st\<rparr>) = (put_snake pl s g)\<lparr>trail_store := st\<rparr>"
  "put_snake pl s (g\<lparr>trails := ts\<rparr>) = (put_snake pl s g)\<lparr>trails := ts\<rparr>"
  "put_snake pl s (g\<lparr>children := cs\<rparr>) = (put_snake pl s g)\<lparr>children := cs\<rparr>"
  "put_snake pl s (put_snake pl s' g) = put_snake pl s g"
  by (simp_all add: put_snake_eq split: player.split)

text \<open>The two copies of the collision test agree (the copy shares the vertical
  test between the two horizontal branches).\<close>

lemma collide_widget_copy_eq [simp]: "collide_widget_copy = collide_widget"
  by (intro ext) (simp add: collide_widget_copy_def collide_widget_def Let_def)

subsection \<open>Each method of the copy computes the function of theory \<open>Game\<close>\<close>

text \<open>Building the Trail and then setting its fields one by one gives the
  Trail of \<open>new_trail\<close>.\<close>

lemma run_on_direction_copy:
  "run_state (on_direction_copy pl) g =
     ((), case on_direction (get_snake pl g) g of (s, g') \<Rightarrow> put_snake pl s g')"
  by (simp add: on_direction_copy_def on_direction_def new_trail_def Let_def list_update_append)

lemma run_assign_direction [simp]:
  "run_state (assign_direction pl d) g = ((), set_snake_direction pl d g)"
  by (simp add: assign_direction_def set_snake_direction_def set_direction_def run_on_direction_copy
                on_direction_def Let_def)

lemma run_turn_copy [simp]: "run_state (turn_copy pl f d) g = ((), steer pl f d g)"
  by (simp add: turn_copy_def steer_def)

lemma run_on_keyboard_down_copy [simp]:
  "run_state (on_keyboard_down_copy k) g = ((), on_keyboard_down k g)"
  by (simp add: on_keyboard_down_copy_def on_keyboard_down_def)

lemma run_remove_widgets [simp]:
  "run_state (for_each remove_widget_copy ts) g =
     ((), g\<lparr>children := fold (\<lambda>t. remove1 (TrailChild t)) ts (children g)\<rparr>)"
  by (induction ts arbitrary: g) (simp_all add: remove_widget_copy_def)

lemma run_reset_copy [simp]: "run_state reset_copy g = ((), reset g)"
  by (simp add: reset_copy_def reset_def Let_def put_snake_eq)

text \<open>\<open>Snake.move\<close> through references: the snake is moved in place and read
  back, the Trail is grown by two assignments. A Trail address outside the
  store leaves the store unchanged in both models.\<close>

lemma run_move_copy:
  assumes "pl \<noteq> pl'"
  shows "run_state (move_copy pl pl') g =
     (case move (get_snake pl g) (get_snake pl' g) g of (s, p, c) \<Rightarrow> (c, put_snake pl s p))"
proof (cases "trail (get_snake pl g)")
  case None
  with assms show ?thesis
    by (simp add: move_copy_def speed_scale_def [symmetric] move_def advance_def
                  collide_trails_list_ex Let_def)
next
  case (Some t)
  with assms show ?thesis
    by (cases "t < length (trail_store g)")
       (simp_all add: move_copy_def speed_scale_def [symmetric] move_def advance_def grow_trail_def
                      collide_trails_list_ex Let_def not_less list_update_beyond)
qed

lemma run_update_copy [simp]: "run_state (update_copy dt) g = ((), update dt g)"
  by (simp add: update_copy_def update_def run_move_copy add_point_def split: prod.split)

lemma run_game_step_copy [simp]: "run_state (game_step_copy e) g = ((), game_step g e)"
  by (cases e) (simp_all add: keyboard_closed_copy_def keyboard_closed_def)

lemma run_events_copy_Nil: "run_state (run_events_copy []) g = ((), g)"
  by simp

lemma run_events_copy_Cons [simp]:
  "run_state (run_events_copy (e # es)) g = run_state (run_events_copy es) (game_step g e)"
  by simp

subsection \<open>Properties of the copy\<close>

text \<open>C9: The older copy src/snakes.py and the package module
  src/simply_snakes/snakes.py are the same program: on every sequence of
  ticks, keys, keyboard releases and window resizes, from every state, the
  statement-level model of the copy ends in exactly the state the package
  module's \<open>run_events\<close> computes.\<close>

theorem run_events_copy_eq: "run_state (run_events_copy es) g = ((), run_events g es)"
  by (induction es arbitrary: g) simp_all

text \<open>Every state the copy reaches from a freshly built game by admissible
  events is well formed: the invariant of theory \<open>Game\<close> holds of it.\<close>

theorem copy_reachable_wellformed:
  assumes "reachable g" and "list_all event_ok es"
  shows "game_inv (snd (run_state (run_events_copy es) g))"
  using assms
proof (induction es arbitrary: g)
  case Nil
  then show ?case by (simp add: reachable_game_inv)
next
  case (Cons e es)
  then have "reachable (game_step g e)" by (simp add: reachable.step)
  with Cons show ?case by simp
qed

end
