(* ===== verification/Trail_Store.thy ===== *)
theory Trail_Store
  imports Game "HOL-Library.Sublist"
begin

text \<open>
  The life of Trail objects (spec, section 3: a TrailSegment is created on a
  direction change, grown only by its snake, frozen for good once the snake
  turns again, and removed from the list only by \<open>reset\<close>). A Trail is
  \<^emph>\<open>owned\<close> while it is some snake's \<open>trail\<close>; an object of the store that
  no snake owns is \<^emph>\<open>frozen\<close>. The theorems show that frozen Trails never
  change and never become owned again, how many Trail objects each event can
  create, and that the \<open>trails\<close> list only grows within a round. The widget
  tree is the spec's parallel display handle of the trail list: the Trails
  drawn as children of the game are exactly the listed ones (\<open>drawn_ok\<close>).
\<close>

definition owned :: "game \<Rightarrow> oid \<Rightarrow> bool" where
  "owned g i \<longleftrightarrow> trail (snake1 g) = Some i \<or> trail (snake2 g) = Some i"

definition frozen :: "game \<Rightarrow> oid \<Rightarrow> bool" where
  "frozen g i \<longleftrightarrow> i < length (trail_store g) \<and> \<not> owned g i"

text \<open>The most Trail objects one event can create: a tick creates them only
  through \<open>reset\<close>, one for each snake that was moving; a key creates one when
  it turns a snake; the other events create none.\<close>

fun trail_budget :: "event \<Rightarrow> nat" where
  "trail_budget (Tick dt) = 2"
| "trail_budget (KeyDown k) = 1"
| "trail_budget KeyboardClosed = 0"
| "trail_budget (Resize w h) = 0"

text \<open>One state leads to another without touching frozen Trails: the store
  only grows, and every frozen Trail stays frozen and unchanged.\<close>

definition keeps_frozen :: "game \<Rightarrow> game \<Rightarrow> bool" where
  "keeps_frozen g g' \<longleftrightarrow> length (trail_store g) \<le> length (trail_store g')
     \<and> (\<forall>i. frozen g i \<longrightarrow> frozen g' i \<and> trail_store g' ! i = trail_store g ! i)"

text \<open>The drawn Trails are the listed ones, the newest first (\<open>add_widget\<close>
  puts a new child in front, \<open>trails.append\<close> puts it last).\<close>

definition drawn_ok :: "game \<Rightarrow> bool" where
  "drawn_ok g \<longleftrightarrow> trail_children (children g) = rev (trails g)"

subsection \<open>Each operation keeps frozen Trails\<close>

lemma owned_players: "owned g i \<longleftrightarrow> trail (get_snake Player1 g) = Some i \<or> trail (get_snake Player2 g) = Some i"
  by (simp add: owned_def)

lemma keeps_frozen_refl [intro]: "keeps_frozen g g"
  by (simp add: keeps_frozen_def)

lemma keeps_frozen_trans [trans]: "keeps_frozen g g' \<Longrightarrow> keeps_frozen g' g'' \<Longrightarrow> keeps_frozen g g''"
  by (fastforce simp: keeps_frozen_def)

lemma keeps_frozen_intro:
  assumes "length (trail_store g) \<le> length (trail_store g')"
    and "\<And>pl j. trail (get_snake pl g') = Some j \<Longrightarrow>
                 trail (get_snake pl g) = Some j \<or> length (trail_store g) \<le> j"
    and "\<And>i. frozen g i \<Longrightarrow> trail_store g' ! i = trail_store g ! i"
  shows "keeps_frozen g g'"
proof -
  have "\<not> owned g' i" if "frozen g i" for i
    using that assms(2) [of Player1 i] assms(2) [of Player2 i]
    by (auto simp: frozen_def owned_players)
  with assms show ?thesis
    by (auto simp: keeps_frozen_def frozen_def)
qed

lemma keeps_frozen_set_snake_direction: "keeps_frozen g (set_snake_direction pl d g)"
  by (rule keeps_frozen_intro)
     (auto simp: set_snake_direction_eq Let_def nth_append_left frozen_def get_snake_eq put_snake_eq
           split: if_splits player.splits)

lemma keeps_frozen_move:
  "keeps_frozen g (put_snake pl (fst (move (get_snake pl g) t g)) (fst (snd (move (get_snake pl g) t g))))"
proof (rule keeps_frozen_intro)
  fix i assume "frozen g i"
  then have "trail (get_snake pl g) \<noteq> Some i"
    by (cases pl) (auto simp: frozen_def owned_def)
  then show "trail_store (put_snake pl (fst (move (get_snake pl g) t g)) (fst (snd (move (get_snake pl g) t g)))) ! i
             = trail_store g ! i"
    by (simp add: move_store_other)
qed (auto simp: get_snake_eq put_snake_eq split: player.splits)

lemma keeps_frozen_snake_update:
  assumes "\<And>pl. trail (get_snake pl g') = trail (get_snake pl g)" "trail_store g' = trail_store g"
  shows "keeps_frozen g g'"
  using assms by (intro keeps_frozen_intro) auto

lemma keeps_frozen_reset: "keeps_frozen g (reset g)"
proof -
  let ?g1 = "g\<lparr>snake1 := set_center (width g / 3, height g / 2) (snake1 g)\<rparr>"
  let ?g2 = "?g1\<lparr>snake2 := set_center (width ?g1 * 2 / 3, height ?g1 / 2) (snake2 ?g1)\<rparr>"
  let ?g3 = "set_snake_direction Player1 (0, 0) ?g2"
  let ?g4 = "set_snake_direction Player2 (0, 0) ?g3"
  have "keeps_frozen g ?g2"
    by (rule keeps_frozen_snake_update) (simp_all add: get_snake_eq set_center_def split: player.split)
  also have "keeps_frozen ?g2 ?g3" by (rule keeps_frozen_set_snake_direction)
  also have "keeps_frozen ?g3 ?g4" by (rule keeps_frozen_set_snake_direction)
  also have "keeps_frozen ?g4 (?g4\<lparr>children := fold (\<lambda>t. remove1 (TrailChild t)) (trails ?g4) (children ?g4),
                                   trails := []\<rparr>)"
    by (rule keeps_frozen_snake_update) simp_all
  finally show ?thesis by (simp add: reset_def Let_def)
qed

lemma keeps_frozen_add_point: "keeps_frozen g (add_point pl g)"
  by (rule keeps_frozen_snake_update) (simp_all add: add_point_def get_snake_eq put_snake_eq split: player.split)

lemma keeps_frozen_update: "keeps_frozen g (update dt g)"
proof -
  let ?m1 = "move (get_snake Player1 g) (snake2 g) g"
  let ?g1 = "put_snake Player1 (fst ?m1) (fst (snd ?m1))"
  let ?m2 = "move (get_snake Player2 ?g1) (snake1 ?g1) ?g1"
  let ?g2 = "put_snake Player2 (fst ?m2) (fst (snd ?m2))"
  have k1: "keeps_frozen g ?g1" by (rule keeps_frozen_move)
  have k2: "keeps_frozen g ?g2"
    using k1 keeps_frozen_move [of ?g1 Player2] by (rule keeps_frozen_trans)
  have r1: "keeps_frozen g (reset (add_point Player2 ?g1))"
    using k1 keeps_frozen_add_point keeps_frozen_reset by (blast intro: keeps_frozen_trans)
  have r2: "keeps_frozen g (reset (add_point Player1 ?g2))"
    using k2 keeps_frozen_add_point keeps_frozen_reset by (blast intro: keeps_frozen_trans)
  from k2 r1 r2 show ?thesis
    by (simp add: update_eq Let_def del: snakes_move_parent get_snake_move_parent)
qed

lemma keeps_frozen_on_keyboard_down: "keeps_frozen g (on_keyboard_down k g)"
  by (auto simp: on_keyboard_down_table keeps_frozen_set_snake_direction split: option.split)

lemma keeps_frozen_step: "keeps_frozen g (game_step g e)"
  by (cases e) (simp_all add: keeps_frozen_update keeps_frozen_on_keyboard_down keeps_frozen_refl
                              keyboard_closed_def,
                simp_all add: keeps_frozen_def frozen_def owned_def)

lemma keeps_frozen_run: "keeps_frozen g (run_events g es)"
  by (induction es arbitrary: g) (auto intro: keeps_frozen_trans keeps_frozen_step)

subsection \<open>How many Trail objects an event creates\<close>

lemma set_snake_direction_store_budget:
  "length (trail_store (set_snake_direction pl d g)) \<le> length (trail_store g) + 1"
  by (simp add: set_snake_direction_eq Let_def)

lemma reset_store_budget: "length (trail_store (reset g)) \<le> length (trail_store g) + 2"
proof -
  let ?g2 = "g\<lparr>snake1 := set_center (width g / 3, height g / 2) (snake1 g),
               snake2 := set_center (width g * 2 / 3, height g / 2) (snake2 g)\<rparr>"
  have "length (trail_store (set_snake_direction Player2 (0, 0) (set_snake_direction Player1 (0, 0) ?g2)))
        \<le> length (trail_store g) + 2"
    using set_snake_direction_store_budget [of Player2 "(0, 0)" "set_snake_direction Player1 (0, 0) ?g2"]
          set_snake_direction_store_budget [of Player1 "(0, 0)" ?g2]
    by simp
  then show ?thesis by (simp add: reset_def Let_def)
qed

lemma update_store_budget: "length (trail_store (update dt g)) \<le> length (trail_store g) + 2"
proof -
  let ?m1 = "move (snake1 g) (snake2 g) g"
  let ?g1 = "put_snake Player1 (fst ?m1) (fst (snd ?m1))"
  let ?m2 = "move (snake2 ?g1) (snake1 ?g1) ?g1"
  let ?g2 = "put_snake Player2 (fst ?m2) (fst (snd ?m2))"
  have l1: "length (trail_store ?g1) = length (trail_store g)"
    and l2: "length (trail_store ?g2) = length (trail_store g)"
    by simp_all
  have r1: "length (trail_store (reset (add_point Player2 ?g1))) \<le> length (trail_store g) + 2"
    using reset_store_budget [of "add_point Player2 ?g1"] l1 by (simp add: add_point_def)
  have r2: "length (trail_store (reset (add_point Player1 ?g2))) \<le> length (trail_store g) + 2"
    using reset_store_budget [of "add_point Player1 ?g2"] l2 by (simp add: add_point_def)
  from l2 r1 r2 show ?thesis
    by (simp add: update_eq Let_def del: snakes_move_parent get_snake_move_parent)
qed

lemma step_store_budget:
  "length (trail_store (game_step g e)) \<le> length (trail_store g) + trail_budget e"
proof (cases e)
  case (Tick dt)
  then show ?thesis using update_store_budget [of dt g] by simp
next
  case (KeyDown k)
  then show ?thesis
    using set_snake_direction_store_budget by (auto simp: on_keyboard_down_table split: option.split)
qed (simp_all add: keyboard_closed_def)

subsection \<open>The trail list within a round\<close>

lemma trails_set_snake_direction: "prefix (trails g) (trails (set_snake_direction pl d g))"
  by (simp add: set_snake_direction_eq Let_def)

lemma trails_update: "trails (update dt g) = (if tick_collides g then [] else trails g)"
  by (simp add: update_eq tick_collides_def Let_def)

subsection \<open>The widget tree\<close>

lemma trail_children_remove1:
  "trail_children (remove1 (TrailChild t) cs) = remove1 t (trail_children cs)"
  by (induction cs rule: trail_children.induct) auto

lemma count_list_remove1:
  "count_list (remove1 t xs) x = count_list xs x - (if x = t then 1 else 0)"
  by (induction xs) auto

lemma count_list_fold_remove1:
  "count_list (fold remove1 ts xs) x = count_list xs x - count_list ts x"
  by (induction ts arbitrary: xs) (simp_all add: count_list_remove1)

lemma count_list_zero_Nil: "(\<forall>x. count_list xs x = 0) \<Longrightarrow> xs = []"
  by (cases xs) (auto dest: spec [of _ "hd xs"])

text \<open>Removing each listed Trail once from a tree that draws exactly the
  listed Trails leaves none drawn.\<close>

lemma fold_remove_drawn:
  "trail_children cs = rev ts \<Longrightarrow> trail_children (fold (\<lambda>t. remove1 (TrailChild t)) ts cs) = []"
proof -
  assume d: "trail_children cs = rev ts"
  have "trail_children (fold (\<lambda>t. remove1 (TrailChild t)) ts cs) = fold remove1 ts (trail_children cs)"
    by (induction ts arbitrary: cs) (simp_all add: trail_children_remove1)
  moreover have "\<forall>x. count_list (fold remove1 ts (rev ts)) x = 0"
    by (simp add: count_list_fold_remove1)
  ultimately show ?thesis using d count_list_zero_Nil by metis
qed

lemma drawn_ok_frame [simp]:
  "drawn_ok (put_snake pl s g) = drawn_ok g"
  "drawn_ok (fst (snd (move s t g))) = drawn_ok g"
  "drawn_ok (add_point pl g) = drawn_ok g"
  "drawn_ok (keyboard_closed g) = drawn_ok g"
  "drawn_ok (g\<lparr>width := w, height := ht\<rparr>) = drawn_ok g"
  "drawn_ok (g\<lparr>snake1 := s\<rparr>) = drawn_ok g"
  "drawn_ok (g\<lparr>snake2 := s\<rparr>) = drawn_ok g"
  by (simp_all add: drawn_ok_def add_point_def keyboard_closed_def)

lemma drawn_set_snake_direction [simp]:
  "drawn_ok g \<Longrightarrow> drawn_ok (set_snake_direction pl d g)"
  by (simp add: drawn_ok_def set_snake_direction_eq Let_def)

text \<open>\<open>reset\<close> takes every Trail off the screen, those its own direction
  assignments have just created included.\<close>

lemma reset_undraws:
  assumes "drawn_ok g"
  shows "trail_children (children (reset g)) = []"
proof -
  let ?g1 = "g\<lparr>snake1 := set_center (width g / 3, height g / 2) (snake1 g)\<rparr>"
  let ?g2 = "?g1\<lparr>snake2 := set_center (width ?g1 * 2 / 3, height ?g1 / 2) (snake2 ?g1)\<rparr>"
  let ?g4 = "set_snake_direction Player2 (0, 0) (set_snake_direction Player1 (0, 0) ?g2)"
  have "drawn_ok ?g2" using assms by (simp add: drawn_ok_def)
  then have "drawn_ok ?g4" by simp
  then have "trail_children (fold (\<lambda>t. remove1 (TrailChild t)) (trails ?g4) (children ?g4)) = []"
    by (simp add: drawn_ok_def fold_remove_drawn)
  then show ?thesis by (simp add: reset_def Let_def)
qed

lemma drawn_reset [simp]: "drawn_ok g \<Longrightarrow> drawn_ok (reset g)"
  using reset_undraws by (simp add: drawn_ok_def)

lemma drawn_update: "drawn_ok g \<Longrightarrow> drawn_ok (update dt g)"
  by (simp add: update_eq Let_def del: put_snake.simps)

lemma drawn_on_keyboard_down: "drawn_ok g \<Longrightarrow> drawn_ok (on_keyboard_down k g)"
  by (simp add: on_keyboard_down_table split: option.split)

lemma drawn_step: "drawn_ok g \<Longrightarrow> drawn_ok (game_step g e)"
  by (cases e) (simp_all add: drawn_update drawn_on_keyboard_down)

lemma reachable_drawn_ok: "reachable g \<Longrightarrow> drawn_ok g"
proof (induction rule: reachable.induct)
  case (start g)
  then show ?case by (simp add: initial_def drawn_ok_def)
next
  case (step g e)
  then show ?case by (simp add: drawn_step)
qed

subsection \<open>Properties of the trail store\<close>

text \<open>C10: A frozen Trail stays frozen: whatever events follow, no snake takes
  it over again and its position and size never change (spec, section 3: once
  the snake turns, the prior segment is frozen permanently).\<close>

theorem frozen_trail_never_changes:
  assumes "frozen g i"
  shows "frozen (run_events g es) i \<and> trail_store (run_events g es) ! i = trail_store g ! i"
  using assms keeps_frozen_run [of g es] by (simp add: keeps_frozen_def)

text \<open>C19: The store of Trail objects never shrinks, and a run of events creates
  at most two Trail objects per tick and one per key.\<close>

theorem trail_store_budget:
  "length (trail_store g) \<le> length (trail_store (run_events g es))
   \<and> length (trail_store (run_events g es)) \<le> length (trail_store g) + sum_list (map trail_budget es)"
proof (induction es arbitrary: g)
  case Nil
  then show ?case by simp
next
  case (Cons e es)
  have "length (trail_store g) \<le> length (trail_store (game_step g e))"
    using keeps_frozen_step [of g e] by (simp add: keeps_frozen_def)
  with step_store_budget [of g e] Cons.IH [of "game_step g e"] show ?case by simp
qed

text \<open>C20: Within a round the trail list only grows: every event keeps the list
  as a prefix of the new one, except a tick that ends the round, which
  empties it (spec, section 3: the list only ever grows within a round and is
  cleared on reset).\<close>

theorem trails_grow_within_round:
  "prefix (trails g) (trails (game_step g e))
   \<or> (trails (game_step g e) = [] \<and> (\<exists>dt. e = Tick dt) \<and> tick_collides g)"
proof (cases e)
  case (KeyDown k)
  then show ?thesis
    by (auto simp: on_keyboard_down_table trails_set_snake_direction split: option.split)
qed (simp_all add: trails_update keyboard_closed_def)

text \<open>C21: What is drawn is what collides: in every reachable state the Trails
  that are children of the game widget are exactly the Trails of the
  \<open>trails\<close> list, the newest first, so the spec's display handles stay
  parallel to the trail list; and \<open>reset\<close> takes every Trail off the screen,
  the ones its own direction assignments create included.\<close>

theorem drawn_trails_listed:
  assumes "reachable g"
  shows "trail_children (children g) = rev (trails g) \<and> trail_children (children (reset g)) = []"
  using reachable_drawn_ok [OF assms] reset_undraws by (simp add: drawn_ok_def)

end
