(* ===== verification/Arena.thy ===== *)
theory Arena
  imports Game
begin

text \<open>
  The spec's Arena (sections 3 and 4) as an abstract machine without object
  identities: the trail segments are a plain list owned by the arena, and a
  competitor refers to its current segment by its position in that list, as
  the spec's re-architecture (section 8) proposes. A competitor is a
  \<open>snake\<close> record whose \<open>trail\<close> field holds that position. The abstraction
  \<open>abs_game\<close> reads the program's state this way: the listed Trail objects in
  list order, and for each snake the position of its Trail in the list, or
  none when its Trail is not listed (before the first turn, and after a
  reset). The refinement theorem shows that every run of events of the program
  is, under this reading, a run of the abstract Arena.
\<close>

record arena = widget +
  segments :: "trail list"
  bar_y :: coord
  comp_a :: snake
  comp_b :: snake
  accepting :: bool

fun comp :: "player \<Rightarrow> arena \<Rightarrow> snake" where
  "comp Player1 a = comp_a a"
| "comp Player2 a = comp_b a"

fun put_comp :: "player \<Rightarrow> snake \<Rightarrow> arena \<Rightarrow> arena" where
  "put_comp Player1 s a = a\<lparr>comp_a := s\<rparr>"
| "put_comp Player2 s a = a\<lparr>comp_b := s\<rparr>"

text \<open>Spec 4.2, step 1.\<close>

definition arena_speed :: "arena \<Rightarrow> real" where
  "arena_speed a = (if width a < height a then width a / 250 else height a / 250)"

text \<open>Spec 4.3, an accepted and actually different direction: the new
  segment is appended to the list and becomes the competitor's current one.\<close>

definition set_heading :: "player \<Rightarrow> dir \<Rightarrow> arena \<Rightarrow> arena" where
  "set_heading pl d a =
     (if direction (comp pl a) = d then a
      else let s = (comp pl a)\<lparr>direction_x := fst d, direction_y := snd d\<rparr>
           in put_comp pl (s\<lparr>trail := Some (length (segments a))\<rparr>)
                (a\<lparr>segments := segments a @ [new_trail s]\<rparr>))"

text \<open>Spec 4.3 and 6: the key table, and the rejection of the exact
  opposite of the current direction.\<close>

definition arena_key :: "string \<Rightarrow> arena \<Rightarrow> arena" where
  "arena_key k a =
     (case key_binding k of
        None \<Rightarrow> a
      | Some (pl, d) \<Rightarrow> if direction (comp pl a) = neg_dir d then a else set_heading pl d a)"

text \<open>Spec 4.2: advance, grow the current segment, then the boundary, the
  other competitor (with the mover's own point) and every segment.\<close>

definition arena_advance :: "snake \<Rightarrow> snake \<Rightarrow> arena \<Rightarrow> snake \<times> trail list \<times> bool" where
  "arena_advance self rival a =
     (let sc = arena_speed a;
          s = advance sc self;
          ts = (case trail s of
                  None \<Rightarrow> segments a
                | Some k \<Rightarrow> (segments a)[k := grow_trail (direction_x s) (direction_y s) sc (segments a ! k)])
      in if widget_right s \<ge> width a \<or> wx s \<le> 0 \<or> widget_top s \<ge> bar_y a \<or> wy s \<le> 0
         then (s, ts, True)
         else if collide_widget s rival then (s\<lparr>score := score s + 1\<rparr>, ts, True)
         else (s, ts, list_ex (collide_widget s) ts))"

text \<open>Spec 4.5: re-centre, make idle (no current segment), clear the list.\<close>

definition idle :: "snake \<Rightarrow> snake" where
  "idle s = s\<lparr>direction_x := 0, direction_y := 0, trail := None\<rparr>"

definition arena_reset :: "arena \<Rightarrow> arena" where
  "arena_reset a =
     a\<lparr>comp_a := idle (set_center (width a / 3, height a / 2) (comp_a a)),
       comp_b := idle (set_center (width a * 2 / 3, height a / 2) (comp_b a)),
       segments := []\<rparr>"

definition award :: "player \<Rightarrow> arena \<Rightarrow> arena" where
  "award pl a = put_comp pl ((comp pl a)\<lparr>score := score (comp pl a) + 1\<rparr>) a"

text \<open>Spec 4.4: competitor A first; its collision preempts competitor B.\<close>

definition arena_update :: "arena \<Rightarrow> arena" where
  "arena_update a =
     (case arena_advance (comp_a a) (comp_b a) a of
        (s1, ts1, c1) \<Rightarrow>
          let a1 = a\<lparr>comp_a := s1, segments := ts1\<rparr> in
          if c1 then arena_reset (award Player2 a1)
          else
            (case arena_advance (comp_b a1) (comp_a a1) a1 of
               (s2, ts2, c2) \<Rightarrow>
                 let a2 = a1\<lparr>comp_b := s2, segments := ts2\<rparr> in
                 if c2 then arena_reset (award Player1 a2) else a2))"

fun arena_step :: "arena \<Rightarrow> event \<Rightarrow> arena" where
  "arena_step a (Tick dt) = arena_update a"
| "arena_step a (KeyDown k) = (if accepting a then arena_key k a else a)"
| "arena_step a KeyboardClosed = a\<lparr>accepting := False\<rparr>"
| "arena_step a (Resize w h) = a\<lparr>width := w, height := h\<rparr>"

fun arena_run :: "arena \<Rightarrow> event list \<Rightarrow> arena" where
  "arena_run a [] = a"
| "arena_run a (e # es) = arena_run (arena_step a e) es"

subsection \<open>Reading the program's state as an Arena\<close>

text \<open>The position of an object identity in the \<open>trails\<close> list.\<close>

fun pos_of :: "oid \<Rightarrow> oid list \<Rightarrow> nat option" where
  "pos_of i [] = None"
| "pos_of i (j # js) = (if i = j then Some 0 else map_option Suc (pos_of i js))"

definition abs_snake :: "oid list \<Rightarrow> snake \<Rightarrow> snake" where
  "abs_snake ts s = s\<lparr>trail := Option.bind (trail s) (\<lambda>i. pos_of i ts)\<rparr>"

definition abs_game :: "game \<Rightarrow> arena" where
  "abs_game g =
     \<lparr>wx = wx g, wy = wy g, width = width g, height = height g,
      segments = map (\<lambda>i. trail_store g ! i) (trails g), bar_y = status_bar_y g,
      comp_a = abs_snake (trails g) (snake1 g), comp_b = abs_snake (trails g) (snake2 g),
      accepting = keyboard_bound g\<rparr>"

text \<open>What the reading needs of a state: the listed objects are distinct and
  in the store, and so are the snakes' own Trails.\<close>

fun below :: "oid option \<Rightarrow> nat \<Rightarrow> bool" where
  "below None n = True"
| "below (Some i) n = (i < n)"

definition ref_ok :: "game \<Rightarrow> bool" where
  "ref_ok g \<longleftrightarrow> distinct (trails g) \<and> (\<forall>i\<in>set (trails g). i < length (trail_store g))
     \<and> below (trail (snake1 g)) (length (trail_store g)) \<and> below (trail (snake2 g)) (length (trail_store g))"

subsection \<open>Lists, positions and the abstraction\<close>

lemma pos_of_None [simp]: "pos_of i ts = None \<longleftrightarrow> i \<notin> set ts"
  by (induction ts) auto

lemma pos_of_unlisted: "i \<notin> set ts \<Longrightarrow> pos_of i ts = None"
  by simp

lemma pos_of_Some: "pos_of i ts = Some k \<Longrightarrow> k < length ts \<and> ts ! k = i"
  by (induction ts arbitrary: k) (auto split: if_splits)

lemma pos_of_append_fresh:
  "i \<notin> set ts \<Longrightarrow> pos_of i (ts @ [i]) = Some (length ts)"
  "j \<noteq> i \<Longrightarrow> pos_of j (ts @ [i]) = pos_of j ts"
  by (induction ts) auto

lemma map_nth_update_unlisted:
  "i \<notin> set ts \<Longrightarrow> map (\<lambda>j. st[i := v] ! j) ts = map (\<lambda>j. st ! j) ts"
  by (induction ts) auto

lemma map_nth_update_listed:
  assumes "distinct ts" "pos_of i ts = Some k" "i < length st"
  shows "map (\<lambda>j. st[i := v] ! j) ts = (map (\<lambda>j. st ! j) ts)[k := v]"
proof (rule nth_equalityI)
  fix m assume m: "m < length (map (\<lambda>j. st[i := v] ! j) ts)"
  from pos_of_Some [OF assms(2)] have k: "k < length ts" "ts ! k = i" by simp_all
  with assms(1) m have "ts ! m = i \<longleftrightarrow> m = k"
    by (auto simp: nth_eq_iff_index_eq)
  with m k assms(3) show "map (\<lambda>j. st[i := v] ! j) ts ! m = (map (\<lambda>j. st ! j) ts)[k := v] ! m"
    by (auto simp: nth_list_update)
qed simp

lemma abs_snake_fields [simp]:
  "wx (abs_snake ts s) = wx s" "wy (abs_snake ts s) = wy s"
  "width (abs_snake ts s) = width s" "height (abs_snake ts s) = height s"
  "direction_x (abs_snake ts s) = direction_x s" "direction_y (abs_snake ts s) = direction_y s"
  "score (abs_snake ts s) = score s" "color (abs_snake ts s) = color s"
  "trail (abs_snake ts s) = Option.bind (trail s) (\<lambda>i. pos_of i ts)"
  "widget_right (abs_snake ts s) = widget_right s" "widget_top (abs_snake ts s) = widget_top s"
  by (simp_all add: abs_snake_def geom_simps)

lemma abs_snake_score: "abs_snake ts (s\<lparr>score := n\<rparr>) = (abs_snake ts s)\<lparr>score := n\<rparr>"
  by (simp add: abs_snake_def)

lemma abs_snake_collide [simp]:
  "collide_widget (abs_snake ts s) w = collide_widget s w"
  "collide_widget v (abs_snake ts' s') = collide_widget v s'"
  by (simp_all add: collide_widget_def geom_simps)

lemma abs_snake_advance: "advance sc (abs_snake ts s) = abs_snake ts (advance sc s)"
  by (simp add: abs_snake_def advance_def)

subsection \<open>Each operation, read abstractly\<close>

lemma arena_speed_abs [simp]: "arena_speed (abs_game g) = speed_scale g"
  by (simp add: arena_speed_def speed_scale_def abs_game_def)

lemma abs_game_fields [simp]:
  "width (abs_game g) = width g" "height (abs_game g) = height g"
  "bar_y (abs_game g) = status_bar_y g" "accepting (abs_game g) = keyboard_bound g"
  "segments (abs_game g) = map (\<lambda>i. trail_store g ! i) (trails g)"
  "comp_a (abs_game g) = abs_snake (trails g) (snake1 g)"
  "comp_b (abs_game g) = abs_snake (trails g) (snake2 g)"
  by (simp_all add: abs_game_def)

lemma arena_advance_parts:
  "fst (arena_advance self rival a) =
     (let s = advance (arena_speed a) self
      in if \<not> (widget_right s \<ge> width a \<or> wx s \<le> 0 \<or> widget_top s \<ge> bar_y a \<or> wy s \<le> 0)
              \<and> collide_widget s rival
         then s\<lparr>score := score s + 1\<rparr> else s)"
  "fst (snd (arena_advance self rival a)) =
     (let s = advance (arena_speed a) self
      in case trail s of
           None \<Rightarrow> segments a
         | Some k \<Rightarrow> (segments a)[k := grow_trail (direction_x s) (direction_y s) (arena_speed a) (segments a ! k)])"
  "snd (snd (arena_advance self rival a)) =
     (let s = advance (arena_speed a) self
      in (widget_right s \<ge> width a \<or> wx s \<le> 0 \<or> widget_top s \<ge> bar_y a \<or> wy s \<le> 0)
         \<or> collide_widget s rival \<or> list_ex (collide_widget s) (fst (snd (arena_advance self rival a))))"
  by (simp_all add: arena_advance_def Let_def)

text \<open>One move, read abstractly, is one advance of the competitor.\<close>

lemma abs_move:
  assumes d: "distinct (trails g)" and l: "\<forall>i\<in>set (trails g). i < length (trail_store g)"
    and s: "below (trail self) (length (trail_store g))"
  shows "arena_advance (abs_snake (trails g) self) rival (abs_game g)
         = (abs_snake (trails g) (fst (move self rival g)),
            map (\<lambda>i. trail_store (fst (snd (move self rival g))) ! i) (trails g),
            snd (snd (move self rival g)))"
proof -
  let ?sc = "speed_scale g" and ?ts = "trails g" and ?st = "trail_store g"
  let ?A = "arena_advance (abs_snake ?ts self) rival (abs_game g)"
  have segs: "fst (snd ?A) = map (\<lambda>i. trail_store (fst (snd (move self rival g))) ! i) ?ts"
  proof (cases "trail self")
    case None
    then show ?thesis by (simp add: arena_advance_parts(2) abs_snake_advance move_parent)
  next
    case (Some i)
    show ?thesis
    proof (cases "pos_of i ?ts")
      case None
      then have "i \<notin> set ?ts" by simp
      with Some show ?thesis
        by (simp add: arena_advance_parts(2) abs_snake_advance move_parent map_nth_update_unlisted
                      pos_of_unlisted)
    next
      case (Some k)
      with pos_of_Some [OF Some] \<open>trail self = Some i\<close> s d show ?thesis
        by (simp add: arena_advance_parts(2) abs_snake_advance move_parent map_nth_update_listed)
    qed
  qed
  have "fst ?A = abs_snake ?ts (fst (move self rival g))"
    by (simp add: arena_advance_parts(1) move_snake abs_snake_advance abs_snake_score out_of_arena_def
                  Let_def)
  moreover have "snd (snd ?A) = snd (snd (move self rival g))"
    by (simp only: arena_advance_parts(3) segs)
       (simp add: move_result abs_snake_advance out_of_arena_def geom_simps
                  collide_trails_list_ex list_ex_iff Let_def)
  ultimately show ?thesis using segs by (simp add: prod_eq_iff)
qed

lemma comp_abs_game [simp]: "comp pl (abs_game g) = abs_snake (trails g) (get_snake pl g)"
  by (cases pl) simp_all

lemma abs_put_snake:
  "abs_game (put_snake pl s g) = put_comp pl (abs_snake (trails g) s) (abs_game g)"
  by (cases pl) (simp_all add: abs_game_def)

lemma abs_direction [simp]: "direction (abs_snake ts s) = direction s"
  by (simp add: direction_def)

lemma abs_new_trail [simp]: "new_trail (abs_snake ts s) = new_trail s"
  by (simp add: new_trail_def Let_def geom_simps)

lemma trail_update_frame [simp]:
  "direction (s\<lparr>trail := x\<rparr>) = direction s" "new_trail (s\<lparr>trail := x\<rparr>) = new_trail s"
  "new_trail (s\<lparr>trail := x, direction_x := a, direction_y := b\<rparr>)
     = new_trail (s\<lparr>direction_x := a, direction_y := b\<rparr>)"
  by (simp_all add: direction_def new_trail_def Let_def geom_simps)

text \<open>A turn, read abstractly, appends the new segment and points the
  competitor at it.\<close>

lemma abs_set_snake_direction:
  assumes l: "\<forall>i\<in>set (trails g). i < length (trail_store g)"
    and o: "below (trail (get_snake (other pl) g)) (length (trail_store g))"
  shows "abs_game (set_snake_direction pl d g) = set_heading pl d (abs_game g)"
proof (cases "direction (get_snake pl g) = d")
  case True
  then show ?thesis by (simp add: set_snake_direction_eq set_heading_def)
next
  case False
  let ?n = "length (trail_store g)"
  have fresh: "?n \<notin> set (trails g)" using l by auto
  have segs: "map (\<lambda>i. (trail_store g @ [t]) ! i) (trails g @ [?n]) = map (\<lambda>i. trail_store g ! i) (trails g) @ [t]" for t
    using l by (simp add: nth_append_left)
  have other: "abs_snake (trails g @ [?n]) (get_snake (other pl) g) = abs_snake (trails g) (get_snake (other pl) g)"
    using o by (cases "trail (get_snake (other pl) g)") (simp_all add: abs_snake_def pos_of_append_fresh)
  show ?thesis
    using False fresh segs other
    by (cases pl) (simp_all add: set_snake_direction_eq set_heading_def abs_game_def abs_snake_def
                                 pos_of_append_fresh Let_def)
qed

lemma abs_snake_Nil: "abs_snake [] s = s\<lparr>trail := None\<rparr>"
  by (cases "trail s") (simp_all add: abs_snake_def)

lemma idle_abs_snake [simp]: "idle (abs_snake ts s) = idle s"
  by (simp add: idle_def abs_snake_def)

lemma set_center_abs_snake: "set_center c (abs_snake ts s) = abs_snake ts (set_center c s)"
  by (simp add: set_center_def abs_snake_def)

lemma idle_already: "direction s = (0, 0) \<Longrightarrow> idle s = s\<lparr>trail := None\<rparr>"
  by (cases s) (simp add: idle_def direction_def)

lemma reset_snake_idle:
  "abs_snake [] (snake1 (reset g)) = idle (set_center (width g / 3, height g / 2) (snake1 g))"
  "abs_snake [] (snake2 (reset g)) = idle (set_center (width g * 2 / 3, height g / 2) (snake2 g))"
  by (cases "direction (snake1 g) = (0, 0)"; cases "direction (snake2 g) = (0, 0)";
      simp add: abs_snake_Nil reset_def set_snake_direction_eq Let_def idle_already idle_def
                set_center_def direction_def)+

lemma reset_origin [simp]: "wx (reset g) = wx g" "wy (reset g) = wy g"
  by (simp_all add: reset_def Let_def set_snake_direction_eq)

lemma abs_reset: "abs_game (reset g) = arena_reset (abs_game g)"
  by (simp add: abs_game_def arena_reset_def reset_snake_idle set_center_abs_snake)

lemma abs_add_point: "abs_game (add_point pl g) = award pl (abs_game g)"
  by (cases pl) (simp_all add: add_point_def award_def abs_game_def abs_snake_score)

lemma move_abs_rival [simp]: "move self (abs_snake ts r) p = move self r p"
  by (simp add: move_def Let_def)

lemma game_snake_update_store [simp]:
  "trail_store (g\<lparr>snake1 := s\<rparr>) = trail_store g" "trails (g\<lparr>snake1 := s\<rparr>) = trails g"
  "trail_store (g\<lparr>snake2 := s\<rparr>) = trail_store g" "trails (g\<lparr>snake2 := s\<rparr>) = trails g"
  by (cases g; simp)+

lemma ref_ok_move:
  assumes "ref_ok g" "trail s = trail (get_snake pl g)"
  shows "ref_ok (put_snake pl (fst (move s t g)) (fst (snd (move s t g))))"
  using assms by (cases pl) (simp_all add: ref_ok_def)

lemma move_parent_origin [simp]:
  "wx (fst (snd (move s t p))) = wx p" "wy (fst (snd (move s t p))) = wy p"
  by (simp_all add: move_parent split: option.split)

lemma ref_ok_self:
  "ref_ok g \<Longrightarrow> below (trail (get_snake pl g)) (length (trail_store g))"
  by (cases pl) (simp_all add: ref_ok_def)

text \<open>One move of snake \<open>pl\<close> against the other, read abstractly.\<close>

lemma abs_move_step:
  fixes pl :: player
  assumes ok: "ref_ok g"
  defines "m \<equiv> move (get_snake pl g) (get_snake (other pl) g) g"
  shows "arena_advance (comp pl (abs_game g)) (comp (other pl) (abs_game g)) (abs_game g)
         = (comp pl (abs_game (put_snake pl (fst m) (fst (snd m)))),
            segments (abs_game (put_snake pl (fst m) (fst (snd m)))), snd (snd m))"
proof -
  from ok have "distinct (trails g)" "\<forall>i\<in>set (trails g). i < length (trail_store g)"
    by (simp_all add: ref_ok_def)
  with ref_ok_self [OF ok, of pl] show ?thesis
    by (simp add: m_def abs_move)
qed

lemma abs_update:
  assumes ok: "ref_ok g"
  shows "abs_game (update dt g) = arena_update (abs_game g)"
proof -
  let ?m1 = "move (snake1 g) (snake2 g) g"
  let ?g1 = "put_snake Player1 (fst ?m1) (fst (snd ?m1))"
  let ?m2 = "move (snake2 ?g1) (snake1 ?g1) ?g1"
  let ?g2 = "put_snake Player2 (fst ?m2) (fst (snd ?m2))"
  have ok1: "ref_ok ?g1" using ok by (rule ref_ok_move) simp
  have a1: "arena_advance (comp_a (abs_game g)) (comp_b (abs_game g)) (abs_game g)
            = (comp_a (abs_game ?g1), segments (abs_game ?g1), snd (snd ?m1))"
    using abs_move_step [OF ok, of Player1] by simp
  have e1: "(abs_game g)\<lparr>comp_a := comp_a (abs_game ?g1), segments := segments (abs_game ?g1)\<rparr> = abs_game ?g1"
    by (simp add: abs_game_def)
  have a2: "arena_advance (comp_b (abs_game ?g1)) (comp_a (abs_game ?g1)) (abs_game ?g1)
            = (comp_b (abs_game ?g2), segments (abs_game ?g2), snd (snd ?m2))"
    using abs_move_step [OF ok1, of Player2] by simp
  have e2: "(abs_game ?g1)\<lparr>comp_b := comp_b (abs_game ?g2), segments := segments (abs_game ?g2)\<rparr> = abs_game ?g2"
    by (simp add: abs_game_def)
  show ?thesis
    using a1 a2 e1 e2
    by (simp add: arena_update_def update_eq Let_def abs_reset abs_add_point
             del: snakes_move_parent get_snake_move_parent abs_game_fields)
qed

subsection \<open>The invariant of the reading and the refinement\<close>

lemma below_Suc [simp]: "below x n \<Longrightarrow> below x (Suc n)"
  by (cases x) simp_all

lemma ref_ok_set_snake_direction: "ref_ok g \<Longrightarrow> ref_ok (set_snake_direction pl d g)"
  by (cases pl) (auto simp: ref_ok_def set_snake_direction_eq Let_def less_Suc_eq)

lemma ref_ok_reset:
  assumes "ref_ok g"
  shows "ref_ok (reset g)"
proof -
  let ?g2 = "g\<lparr>snake1 := set_center (width g / 3, height g / 2) (snake1 g),
               snake2 := set_center (width g * 2 / 3, height g / 2) (snake2 g)\<rparr>"
  have "ref_ok ?g2" using assms by (simp add: ref_ok_def set_center_def)
  then have "ref_ok (set_snake_direction Player2 (0, 0) (set_snake_direction Player1 (0, 0) ?g2))"
    by (intro ref_ok_set_snake_direction)
  then show ?thesis
    by (simp add: reset_def Let_def ref_ok_def)
qed

lemma ref_ok_add_point: "ref_ok g \<Longrightarrow> ref_ok (add_point pl g)"
  by (cases pl) (simp_all add: add_point_def ref_ok_def)

lemma ref_ok_update:
  assumes ok: "ref_ok g"
  shows "ref_ok (update dt g)"
proof -
  let ?m1 = "move (snake1 g) (snake2 g) g"
  let ?g1 = "put_snake Player1 (fst ?m1) (fst (snd ?m1))"
  let ?m2 = "move (snake2 ?g1) (snake1 ?g1) ?g1"
  let ?g2 = "put_snake Player2 (fst ?m2) (fst (snd ?m2))"
  have ok1: "ref_ok ?g1" using ok by (rule ref_ok_move) simp
  have ok2: "ref_ok ?g2" using ok1 by (rule ref_ok_move) simp
  show ?thesis
    using ok1 ok2 ref_ok_reset ref_ok_add_point
    by (simp add: update_eq Let_def del: snakes_move_parent get_snake_move_parent)
qed

lemma ref_ok_step: "ref_ok g \<Longrightarrow> ref_ok (game_step g e)"
  by (cases e) (auto simp: ref_ok_update on_keyboard_down_table ref_ok_set_snake_direction split: option.split,
                simp_all add: keyboard_closed_def ref_ok_def)

lemma reachable_ref_ok: "reachable g \<Longrightarrow> ref_ok g"
  by (induction rule: reachable.induct)
     (simp add: initial_def ref_ok_def fresh_snake_def, simp add: ref_ok_step)

lemma abs_on_keyboard_down:
  assumes "ref_ok g"
  shows "abs_game (on_keyboard_down k g) = arena_key k (abs_game g)"
proof -
  have "abs_game (set_snake_direction pl d g) = set_heading pl d (abs_game g)" for pl d
    using assms
    by (intro abs_set_snake_direction) (cases pl; simp add: ref_ok_def)+
  then show ?thesis
    by (simp add: on_keyboard_down_table arena_key_def split: option.split)
qed

lemma abs_step: "ref_ok g \<Longrightarrow> abs_game (game_step g e) = arena_step (abs_game g) e"
  by (cases e) (simp_all add: abs_update abs_on_keyboard_down, simp_all add: keyboard_closed_def abs_game_def)

text \<open>C8: The program refines the spec's Arena: from every reachable state,
  any sequence of ticks, keys, keyboard releases and resizes, run by the
  program with its shared Trail objects, reads as the same sequence run by
  the abstract Arena, in which segments are a plain list and competitors hold
  positions in it (spec, sections 4 and 8).\<close>

theorem game_refines_arena:
  assumes "reachable g"
  shows "abs_game (run_events g es) = arena_run (abs_game g) es"
proof -
  from assms have "ref_ok g" by (rule reachable_ref_ok)
  then show ?thesis
    by (induction es arbitrary: g) (simp_all add: abs_step ref_ok_step)
qed

end
