(* ===== verification/Host.thy ===== *)
theory Host
  imports Game
begin

text \<open>
  The plumbing that connects \<open>SnakesGame\<close> to Kivy: \<open>SnakesGame.__init__\<close>
  requests the keyboard and binds \<open>_on_keyboard_down\<close> to it,
  \<open>_keyboard_closed\<close> unbinds it again, \<open>run\<close> schedules \<open>update\<close> on the clock,
  \<open>SnakesApp.build\<close> sets the configuration, builds the game and starts it,
  and \<open>main\<close> runs the application. The game is reached only through the
  interface \<open>game_ops\<close> (its update, key handler, keyboard-closed handler, the
  \<open>_keyboard\<close> attribute and the window size), so that the same plumbing serves
  both copies of the module.

  Kivy's side is modelled from its documented behaviour: the configuration
  store, the keyboard obtained by \<open>Window.request_keyboard\<close> with its list
  of \<open>on_key_down\<close> handlers and its release callback, the clock's list of
  interval events, and the event loop, which calls bound methods with Python
  arguments. A call with the wrong number of arguments raises \<open>TypeError\<close>
  (\<open>py_call\<close>); errors are values of \<open>py_error + 'a\<close>.
\<close>

subsection \<open>Python values and bound methods\<close>

datatype pyval =
    PInt int | PFloat real | PStr string | PTuple "pyval list" | PList "pyval list"
  | PNone | PKeyboard

text \<open>Python's subscription \<open>v[i]\<close> on tuples, lists and strings.\<close>

fun subscript :: "pyval \<Rightarrow> nat \<Rightarrow> py_error + pyval" where
  "subscript (PTuple xs) i = (if i < length xs then Inr (xs ! i) else Inl IndexError)"
| "subscript (PList xs) i = (if i < length xs then Inr (xs ! i) else Inl IndexError)"
| "subscript (PStr s) i = (if i < length s then Inr (PStr [s ! i]) else Inl IndexError)"
| "subscript _ i = Inl TypeError"

text \<open>The bound methods of the game that the program hands to Kivy, and the
  number of arguments each takes after \<open>self\<close>: \<open>update(self, dt)\<close>,
  \<open>_on_keyboard_down(self, keyboard, keycode, text, modifiers)\<close>,
  \<open>_keyboard_closed(self)\<close>.\<close>

datatype callback = M_update | M_on_keyboard_down | M_keyboard_closed

fun params :: "callback \<Rightarrow> nat" where
  "params M_update = 1"
| "params M_on_keyboard_down = 4"
| "params M_keyboard_closed = 0"

text \<open>The game as the plumbing sees it.\<close>

record 'g game_ops =
  op_update :: "'g \<Rightarrow> 'g"
  op_key :: "string \<Rightarrow> 'g \<Rightarrow> 'g"
  op_closed :: "'g \<Rightarrow> 'g"
  op_bound :: "'g \<Rightarrow> bool"
  op_bind :: "'g \<Rightarrow> 'g"
  op_resize :: "coord \<Rightarrow> coord \<Rightarrow> 'g \<Rightarrow> 'g"

text \<open>Kivy's state: the configuration, the clock's interval events, the
  requested keyboard (its \<open>on_key_down\<close> handlers and the callback the window
  calls when it takes the keyboard back, \<open>None\<close> once it has), whether the
  application is still running, and the root widget.\<close>

record 'g host =
  config :: "string \<times> string \<Rightarrow> string option"
  clock_events :: "(callback \<times> real) list"
  kb_handlers :: "callback list"
  kb_release :: "callback option"
  running :: bool
  root :: 'g

subsection \<open>The methods handed to Kivy\<close>

text \<open>The bodies of the bound methods on the host. \<open>update\<close> does not read
  \<open>dt\<close>. \<open>_on_keyboard_down\<close> reads the key name \<open>keycode[1]\<close> before its first
  comparison; a name that is not a string matches no branch.
  \<open>_keyboard_closed\<close> calls \<open>self._keyboard.unbind(...)\<close>, which raises
  \<open>AttributeError\<close> when \<open>_keyboard\<close> is already \<open>None\<close>, then sets it to
  \<open>None\<close>.\<close>

fun run_method :: "'g game_ops \<Rightarrow> callback \<Rightarrow> pyval list \<Rightarrow> 'g host \<Rightarrow> py_error + 'g host" where
  "run_method ops M_update [dt] h = Inr (h\<lparr>root := op_update ops (root h)\<rparr>)"
| "run_method ops M_on_keyboard_down [kb, keycode, text, modifiers] h =
     bind_err (subscript keycode 1)
       (\<lambda>v. Inr (h\<lparr>root := (case v of PStr k \<Rightarrow> op_key ops k (root h) | _ \<Rightarrow> root h)\<rparr>))"
| "run_method ops M_keyboard_closed [] h =
     (if op_bound ops (root h)
      then Inr (h\<lparr>kb_handlers := remove1 M_on_keyboard_down (kb_handlers h),
                  root := op_closed ops (root h)\<rparr>)
      else Inl AttributeError)"
| "run_method ops cb args h = Inl TypeError"

text \<open>Calling a bound method: a wrong number of arguments raises \<open>TypeError\<close>.\<close>

definition py_call :: "'g game_ops \<Rightarrow> callback \<Rightarrow> pyval list \<Rightarrow> 'g host \<Rightarrow> py_error + 'g host" where
  "py_call ops cb args h = (if length args = params cb then run_method ops cb args h else Inl TypeError)"

text \<open>Dispatching an event to a list of handlers, in order; an exception
  aborts the dispatch.\<close>

fun call_all :: "'g game_ops \<Rightarrow> callback list \<Rightarrow> pyval list \<Rightarrow> 'g host \<Rightarrow> py_error + 'g host" where
  "call_all ops [] args h = Inr h"
| "call_all ops (cb # cbs) args h = bind_err (py_call ops cb args h) (call_all ops cbs args)"

subsection \<open>Kivy services\<close>

definition config_set :: "string \<Rightarrow> string \<Rightarrow> string \<Rightarrow> 'g host \<Rightarrow> 'g host" where
  "config_set sec key v h = h\<lparr>config := (config h)((sec, key) \<mapsto> v)\<rparr>"

definition request_keyboard :: "callback \<Rightarrow> 'g host \<Rightarrow> 'g host" where
  "request_keyboard cb h = h\<lparr>kb_release := Some cb\<rparr>"

definition kb_bind :: "callback \<Rightarrow> 'g host \<Rightarrow> 'g host" where
  "kb_bind cb h = h\<lparr>kb_handlers := kb_handlers h @ [cb]\<rparr>"

definition schedule_interval :: "callback \<Rightarrow> real \<Rightarrow> 'g host \<Rightarrow> 'g host" where
  "schedule_interval cb t h = h\<lparr>clock_events := clock_events h @ [(cb, t)]\<rparr>"

text \<open>Kivy's default configuration: Escape closes the application.\<close>

definition default_config :: "string \<times> string \<Rightarrow> string option" where
  "default_config = [(''kivy'', ''exit_on_escape'') \<mapsto> ''1'']"

definition escape_exits :: "'g host \<Rightarrow> bool" where
  "escape_exits h \<longleftrightarrow> config h (''kivy'', ''exit_on_escape'') \<noteq> Some ''0''"

subsection \<open>The program's start-up\<close>

text \<open>\<open>SnakesGame.__init__\<close>: request the keyboard with \<open>_keyboard_closed\<close> as
  its release callback, store it in \<open>_keyboard\<close>, bind \<open>_on_keyboard_down\<close>.\<close>

definition game_init :: "'g game_ops \<Rightarrow> 'g host \<Rightarrow> 'g host" where
  "game_init ops h =
     (let h1 = request_keyboard M_keyboard_closed h;
          h2 = h1\<lparr>root := op_bind ops (root h1)\<rparr>
      in kb_bind M_on_keyboard_down h2)"

text \<open>\<open>SnakesGame.run\<close>: \<open>Clock.schedule_interval(self.update, 1/60.)\<close>.\<close>

definition game_run :: "'g host \<Rightarrow> 'g host" where
  "game_run h = schedule_interval M_update (1 / 60) h"

text \<open>\<open>SnakesApp.build\<close>: switch off exit on Escape, build the game (the kv
  layout gives \<open>g0\<close>, then \<open>__init__\<close> runs), start it, and make it the root.\<close>

definition build :: "'g game_ops \<Rightarrow> 'g \<Rightarrow> 'g host \<Rightarrow> 'g host" where
  "build ops g0 h =
     (let h1 = config_set ''kivy'' ''exit_on_escape'' ''0'' h;
          h2 = game_init ops (h1\<lparr>root := g0\<rparr>)
      in game_run h2)"

subsection \<open>The event loop\<close>

datatype host_event = Frame real | KeyPress int string | KeyboardRelease | WindowResize coord coord

text \<open>One event of Kivy's loop: a frame fires every interval event with the
  elapsed time; a key press closes the application on Escape (key code 27)
  when the configuration says so, and otherwise goes to the handlers of the
  keyboard while it is held, with \<open>keycode = (code, name)\<close>; the window taking
  the keyboard back calls the release callback once; a resize sets the root
  widget's size.\<close>

fun host_step :: "'g game_ops \<Rightarrow> 'g host \<Rightarrow> host_event \<Rightarrow> py_error + 'g host" where
  "host_step ops h (Frame dt) = call_all ops (map fst (clock_events h)) [PFloat dt] h"
| "host_step ops h (KeyPress code name) =
     (if code = 27 \<and> escape_exits h then Inr (h\<lparr>running := False\<rparr>)
      else if kb_release h = None then Inr h
      else call_all ops (kb_handlers h) [PKeyboard, PTuple [PInt code, PStr name], PNone, PList []] h)"
| "host_step ops h KeyboardRelease =
     (case kb_release h of
        None \<Rightarrow> Inr h
      | Some cb \<Rightarrow> py_call ops cb [] (h\<lparr>kb_release := None\<rparr>))"
| "host_step ops h (WindowResize w ht) = Inr (h\<lparr>root := op_resize ops w ht (root h)\<rparr>)"

fun host_run :: "'g game_ops \<Rightarrow> 'g host \<Rightarrow> host_event list \<Rightarrow> py_error + 'g host" where
  "host_run ops h [] = Inr h"
| "host_run ops h (e # es) =
     (if running h then bind_err (host_step ops h e) (\<lambda>h'. host_run ops h' es) else Inr h)"

text \<open>\<open>main()\<close>: \<open>SnakesApp().run()\<close> builds the root widget from Kivy's
  initial state and runs the event loop.\<close>

definition main :: "'g game_ops \<Rightarrow> 'g \<Rightarrow> host_event list \<Rightarrow> py_error + 'g host" where
  "main ops g0 es =
     host_run ops
       (build ops g0 \<lparr>config = default_config, clock_events = [], kb_handlers = [],
                      kb_release = None, running = True, root = g0\<rparr>) es"

subsection \<open>What the game sees\<close>

text \<open>The event of the game model that a host event delivers, and the game
  model's step over the interface.\<close>

fun abs_event :: "host_event \<Rightarrow> event" where
  "abs_event (Frame dt) = Tick dt"
| "abs_event (KeyPress code name) = KeyDown name"
| "abs_event KeyboardRelease = KeyboardClosed"
| "abs_event (WindowResize w ht) = Resize w ht"

fun ops_step :: "'g game_ops \<Rightarrow> 'g \<Rightarrow> event \<Rightarrow> 'g" where
  "ops_step ops g (Tick dt) = op_update ops g"
| "ops_step ops g (KeyDown k) = (if op_bound ops g then op_key ops k g else g)"
| "ops_step ops g KeyboardClosed = op_closed ops g"
| "ops_step ops g (Resize w ht) = op_resize ops w ht g"

text \<open>What the plumbing needs of a game: \<open>_keyboard\<close> is set by binding and
  cleared by the closed handler (which does nothing more once it is clear),
  and no other handler touches it.\<close>

definition ops_ok :: "'g game_ops \<Rightarrow> bool" where
  "ops_ok ops \<longleftrightarrow>
     (\<forall>g. op_bound ops (op_bind ops g)) \<and> (\<forall>g. \<not> op_bound ops (op_closed ops g))
     \<and> (\<forall>g. \<not> op_bound ops g \<longrightarrow> op_closed ops g = g)
     \<and> (\<forall>g. op_bound ops (op_update ops g) = op_bound ops g)
     \<and> (\<forall>k g. op_bound ops (op_key ops k g) = op_bound ops g)
     \<and> (\<forall>w ht g. op_bound ops (op_resize ops w ht g) = op_bound ops g)"

text \<open>The typing of the registries: every callback is registered where Kivy
  calls it with as many arguments as it takes.\<close>

definition host_typed :: "'g host \<Rightarrow> bool" where
  "host_typed h \<longleftrightarrow>
     list_all (\<lambda>(cb, t). params cb = 1) (clock_events h)
     \<and> list_all (\<lambda>cb. params cb = 4) (kb_handlers h)
     \<and> pred_option (\<lambda>cb. params cb = 0) (kb_release h)"

text \<open>The state the program keeps the host in after start-up: \<open>update\<close> is
  the one interval event, the keyboard is held with \<open>_on_keyboard_down\<close> bound
  exactly while \<open>_keyboard\<close> is set, Escape does not exit, and the application
  runs.\<close>

definition host_ok :: "'g game_ops \<Rightarrow> 'g host \<Rightarrow> bool" where
  "host_ok ops h \<longleftrightarrow>
     clock_events h = [(M_update, 1 / 60)]
     \<and> (if op_bound ops (root h) then kb_release h = Some M_keyboard_closed \<and> kb_handlers h = [M_on_keyboard_down]
        else kb_release h = None \<and> kb_handlers h = [])
     \<and> config h (''kivy'', ''exit_on_escape'') = Some ''0''
     \<and> running h"

subsection \<open>Calls on the host\<close>

lemma list_all_remove1: "list_all P xs \<Longrightarrow> list_all P (remove1 x xs)"
  by (induction xs) auto

lemma params_iff [simp]:
  "params cb = Suc 0 \<longleftrightarrow> cb = M_update"
  "params cb = 4 \<longleftrightarrow> cb = M_on_keyboard_down"
  "params cb = 0 \<longleftrightarrow> cb = M_keyboard_closed"
  by (cases cb; simp)+

lemma py_call_update [simp]:
  "py_call ops M_update [v] h = Inr (h\<lparr>root := op_update ops (root h)\<rparr>)"
  by (simp add: py_call_def)

lemma py_call_key [simp]:
  "py_call ops M_on_keyboard_down [PKeyboard, PTuple [PInt c, PStr n], PNone, PList []] h =
     Inr (h\<lparr>root := op_key ops n (root h)\<rparr>)"
  by (simp add: py_call_def numeral_2_eq_2)

lemma py_call_closed [simp]:
  "py_call ops M_keyboard_closed [] h =
     (if op_bound ops (root h)
      then Inr (h\<lparr>kb_handlers := remove1 M_on_keyboard_down (kb_handlers h),
                  root := op_closed ops (root h)\<rparr>)
      else Inl AttributeError)"
  by (simp add: py_call_def)

lemma call_all_singleton [simp]: "call_all ops [cb] args h = py_call ops cb args h"
proof -
  have "call_all ops [] args = Inr" by (rule ext) simp
  then show ?thesis by simp
qed

text \<open>A dispatch to handlers that are all the same method, which changes only
  the root widget, changes only the root widget.\<close>

lemma call_all_root_only:
  assumes "\<forall>cb\<in>set cbs. cb = c" "\<And>h. \<exists>g. py_call ops c args h = Inr (h\<lparr>root := g\<rparr>)"
  shows "\<exists>g. call_all ops cbs args h = Inr (h\<lparr>root := g\<rparr>)"
  using assms(1)
proof (induction cbs arbitrary: h)
  case Nil
  have "h = h\<lparr>root := root h\<rparr>" by simp
  then show ?case by (metis call_all.simps(1))
next
  case (Cons cb cbs)
  obtain g1 where g1: "py_call ops c args h = Inr (h\<lparr>root := g1\<rparr>)" using assms(2) by blast
  from Cons.prems have "\<forall>cb\<in>set cbs. cb = c" by simp
  then obtain g2 where "call_all ops cbs args (h\<lparr>root := g1\<rparr>) = Inr (h\<lparr>root := g1\<rparr>\<lparr>root := g2\<rparr>)"
    using Cons.IH [of "h\<lparr>root := g1\<rparr>"] by blast
  then have g2: "call_all ops cbs args (h\<lparr>root := g1\<rparr>) = Inr (h\<lparr>root := g2\<rparr>)" by simp
  from Cons.prems g1 g2 show ?case by auto
qed

lemma host_typed_root [simp]: "host_typed (h\<lparr>root := g\<rparr>) = host_typed h"
  by (simp add: host_typed_def)

lemma host_typed_running [simp]: "host_typed (h\<lparr>running := b\<rparr>) = host_typed h"
  by (simp add: host_typed_def)

lemma typed_frame:
  assumes "host_typed h"
  shows "\<exists>g. call_all ops (map fst (clock_events h)) [PFloat dt] h = Inr (h\<lparr>root := g\<rparr>)"
proof -
  have "\<forall>cb\<in>set (map fst (clock_events h)). cb = M_update"
    using assms by (auto simp: host_typed_def list_all_iff)
  then show ?thesis by (intro call_all_root_only [where c = M_update]) (simp_all, fast)
qed

lemma typed_key:
  assumes "host_typed h"
  shows "\<exists>g. call_all ops (kb_handlers h) [PKeyboard, PTuple [PInt c, PStr n], PNone, PList []] h
             = Inr (h\<lparr>root := g\<rparr>)"
proof -
  have "\<forall>cb\<in>set (kb_handlers h). cb = M_on_keyboard_down"
    using assms by (auto simp: host_typed_def list_all_iff)
  then show ?thesis by (intro call_all_root_only [where c = M_on_keyboard_down]) (simp_all, fast)
qed

lemma typed_release:
  assumes "host_typed h" "kb_release h = Some cb"
  shows "cb = M_keyboard_closed"
  using assms by (auto simp: host_typed_def)

subsection \<open>The program keeps the host in order\<close>

lemma ops_okD:
  assumes "ops_ok ops"
  shows "op_bound ops (op_bind ops g)" "\<not> op_bound ops (op_closed ops g)"
    "\<not> op_bound ops g \<Longrightarrow> op_closed ops g = g"
    "op_bound ops (op_update ops g) = op_bound ops g"
    "op_bound ops (op_key ops k g) = op_bound ops g"
    "op_bound ops (op_resize ops w ht g) = op_bound ops g"
  using assms by (simp_all add: ops_ok_def)

lemma host_ok_step:
  assumes "ops_ok ops" "host_ok ops h"
  shows "\<exists>h'. host_step ops h e = Inr h' \<and> host_ok ops h'
              \<and> root h' = ops_step ops (root h) (abs_event e)"
  using assms(2)
  by (cases e; cases "op_bound ops (root h)")
     (auto simp: host_ok_def escape_exits_def ops_okD [OF assms(1)])

lemma host_ok_run:
  assumes "ops_ok ops" "host_ok ops h"
  shows "\<exists>h'. host_run ops h es = Inr h' \<and> host_ok ops h'
              \<and> root h' = foldl (ops_step ops) (root h) (map abs_event es)"
  using assms(2)
proof (induction es arbitrary: h)
  case Nil
  then show ?case by simp
next
  case (Cons e es)
  obtain h1 where h1: "host_step ops h e = Inr h1" "host_ok ops h1"
    "root h1 = ops_step ops (root h) (abs_event e)"
    using host_ok_step [OF assms(1) Cons.prems] by blast
  obtain h2 where "host_run ops h1 es = Inr h2" "host_ok ops h2"
    "root h2 = foldl (ops_step ops) (root h1) (map abs_event es)"
    using Cons.IH [OF h1(2)] by blast
  moreover have "running h" using Cons.prems by (simp add: host_ok_def)
  ultimately show ?case using h1 by simp
qed

lemma build_host_ok:
  assumes "ops_ok ops" "clock_events h = []" "kb_handlers h = []" "running h"
  shows "host_ok ops (build ops g0 h) \<and> root (build ops g0 h) = op_bind ops g0"
  using assms
  by (simp add: build_def game_init_def game_run_def config_set_def request_keyboard_def
      kb_bind_def schedule_interval_def host_ok_def ops_okD Let_def)

text \<open>The application started by \<open>main\<close> never raises, never stops, and its
  root widget goes through exactly the game model's steps for the events
  Kivy delivers.\<close>

lemma main_refines_ops:
  assumes "ops_ok ops"
  shows "\<exists>h. main ops g0 es = Inr h \<and> host_ok ops h
             \<and> root h = foldl (ops_step ops) (op_bind ops g0) (map abs_event es)"
proof -
  let ?h0 = "\<lparr>config = default_config, clock_events = [], kb_handlers = [],
              kb_release = None, running = True, root = g0\<rparr> :: 'a host"
  have "host_ok ops (build ops g0 ?h0) \<and> root (build ops g0 ?h0) = op_bind ops g0"
    using assms by (intro build_host_ok) simp_all
  then show ?thesis using host_ok_run [OF assms, of "build ops g0 ?h0" es]
    by (simp add: main_def)
qed

text \<open>Type soundness of the plumbing: when every callback is registered
  where Kivy calls it with as many arguments as it takes, no event of the loop
  raises \<open>TypeError\<close> or \<open>IndexError\<close> (reading \<open>keycode[1]\<close> included): the
  only exception left is \<open>AttributeError\<close> from \<open>_keyboard_closed\<close>; and the
  registries stay typed.\<close>

theorem host_typed_sound:
  assumes "host_typed h"
  shows "(\<forall>err. host_step ops h e = Inl err \<longrightarrow> err = AttributeError)
       \<and> (\<forall>h'. host_step ops h e = Inr h' \<longrightarrow> host_typed h')"
proof (cases e)
  case (Frame dt)
  with typed_frame [OF assms, of ops dt] assms show ?thesis by auto
next
  case (KeyPress c n)
  with typed_key [OF assms, of ops c n] assms show ?thesis by auto
next
  case KeyboardRelease
  show ?thesis
  proof (cases "kb_release h")
    case None
    with KeyboardRelease assms show ?thesis by simp
  next
    case (Some cb)
    with typed_release [OF assms] have "cb = M_keyboard_closed" by blast
    with KeyboardRelease Some assms show ?thesis
      by (auto simp: host_typed_def list_all_remove1)
  qed
next
  case (WindowResize w ht)
  with assms show ?thesis by simp
qed

end
