(* ===== verification/App.thy ===== *)
theory App
  imports Host Snakes_Copy
begin

text \<open>
  The whole application: the plumbing of theory \<open>Host\<close> instantiated with
  the game of src/simply_snakes/snakes.py (\<open>pkg_ops\<close>) and with the game of
  the older copy src/snakes.py, whose methods are the state-monad programs of
  theory \<open>Snakes_Copy\<close> (\<open>copy_ops\<close>). Both satisfy the interface's
  requirements, so \<open>main\<close> runs either of them without an exception and
  delivers to the game exactly the events of \<open>run_events\<close>.
\<close>

text \<open>The bound methods of \<open>SnakesGame\<close> in the package module; \<open>update\<close>
  ignores \<open>dt\<close>, and the root widget's size is the window's.\<close>

definition pkg_ops :: "game game_ops" where
  "pkg_ops =
     \<lparr>op_update = update 0, op_key = on_keyboard_down, op_closed = keyboard_closed,
      op_bound = keyboard_bound, op_bind = \<lambda>g. g\<lparr>keyboard_bound := True\<rparr>,
      op_resize = \<lambda>w ht g. g\<lparr>width := w, height := ht\<rparr>\<rparr>"

text \<open>The bound methods of \<open>SnakesGame\<close> in src/snakes.py:
  \<open>self.keyboard_closed\<close>, \<open>self.on_keyboard_down\<close> and \<open>self.update\<close>, run
  as state-monad programs.\<close>

definition copy_ops :: "game game_ops" where
  "copy_ops =
     \<lparr>op_update = \<lambda>g. snd (run_state (update_copy 0) g),
      op_key = \<lambda>k g. snd (run_state (on_keyboard_down_copy k) g),
      op_closed = \<lambda>g. snd (run_state keyboard_closed_copy g),
      op_bound = keyboard_bound, op_bind = \<lambda>g. g\<lparr>keyboard_bound := True\<rparr>,
      op_resize = \<lambda>w ht g. g\<lparr>width := w, height := ht\<rparr>\<rparr>"

text \<open>\<open>SnakesApp().run()\<close> in the \<open>__main__\<close> block of src/snakes.py.\<close>

definition main_copy :: "game \<Rightarrow> host_event list \<Rightarrow> py_error + game host" where
  "main_copy g0 es = main copy_ops g0 es"

lemma update_ignores_dt: "update dt g = update dt' g"
  by (simp add: update_def)

lemma pkg_ops_ok: "ops_ok pkg_ops"
  by (simp add: ops_ok_def pkg_ops_def keyboard_closed_def)

lemma copy_ops_eq: "copy_ops = pkg_ops"
  by (simp add: copy_ops_def pkg_ops_def keyboard_closed_copy_def keyboard_closed_def fun_eq_iff)

lemma ops_step_pkg: "ops_step pkg_ops = game_step"
proof (intro ext)
  fix g e
  show "ops_step pkg_ops g e = game_step g e"
    by (cases e) (simp_all add: pkg_ops_def keyboard_closed_def update_ignores_dt [of 0])
qed

lemma foldl_game_step: "foldl game_step g es = run_events g es"
  by (induction es arbitrary: g) simp_all

text \<open>What the package's application does, the heart of the claims on
  \<open>main\<close> and on the installed command.\<close>

lemma main_pkg_runs:
  "\<exists>h. main pkg_ops g0 es = Inr h \<and> running h
       \<and> root h = run_events (g0\<lparr>keyboard_bound := True\<rparr>) (map abs_event es)"
proof -
  obtain h where h: "main pkg_ops g0 es = Inr h" "host_ok pkg_ops h"
    "root h = foldl (ops_step pkg_ops) (op_bind pkg_ops g0) (map abs_event es)"
    using main_refines_ops [OF pkg_ops_ok] by blast
  have "running h" using h(2) by (simp add: host_ok_def)
  moreover have "op_bind pkg_ops g0 = g0\<lparr>keyboard_bound := True\<rparr>" by (simp add: pkg_ops_def)
  ultimately show ?thesis
    using h by (simp add: ops_step_pkg foldl_game_step)
qed

text \<open>C11: The application runs the game model: started by \<open>main\<close>, from any
  game the kv layout builds, on any sequence of window events, the program
  raises no exception, Escape does not close it, and the root widget ends in
  exactly the state \<open>run_events\<close> computes for the corresponding game
  events, with the keyboard bound by \<open>__init__\<close>. The older copy's
  application behaves identically.\<close>

theorem main_runs_game:
  "main_copy g0 es = main pkg_ops g0 es
   \<and> (\<exists>h. main pkg_ops g0 es = Inr h \<and> running h
          \<and> root h = run_events (g0\<lparr>keyboard_bound := True\<rparr>) (map abs_event es))"
  using main_pkg_runs by (simp add: main_copy_def copy_ops_eq)

end
