(* ===== verification/Packaging.thy ===== *)
theory Packaging
  imports App "HOL-Library.Sublist"
begin

text \<open>
  src/setup.py: the arguments the program passes to \<open>setuptools.setup\<close>
  (\<open>setup_py\<close>, field by field), and what an installation makes of them: the
  \<open>gui_scripts\<close> entry point \<open>simply-snakes\<close> becomes a command that imports
  a module of an installed package and calls one of its attributes.
  setuptools and Python's import system are modelled from their documented
  behaviour: an entry point is written \<open>name = module:attr\<close> with blanks
  around the parts ignored, a dotted module name is a file under its package,
  and \<open>launch\<close> runs the command, raising \<open>ImportError\<close> for a module that
  is not installed and \<open>AttributeError\<close> for a name the module does not
  define. The only module the sources install is \<open>simply_snakes.snakes\<close>
  (src/simply_snakes/snakes.py), whose \<open>main\<close> is the \<open>main\<close> of theory
  \<open>Host\<close> with the package's game.
\<close>

record setup_args =
  sa_name :: string
  sa_version :: string
  sa_description :: string
  sa_author :: string
  sa_author_email :: string
  sa_url :: string
  sa_license :: string
  sa_packages :: "string list"
  sa_package_data :: "(string \<times> string list) list"
  sa_install_requires :: "string list"
  sa_entry_points :: "(string \<times> string list) list"

text \<open>The call \<open>setup(...)\<close> of src/setup.py; the dictionaries
  \<open>package_data\<close> and \<open>entry_points\<close> as association lists.\<close>

definition setup_py :: setup_args where
  "setup_py =
     \<lparr>sa_name = ''simply-snakes'', sa_version = ''0.1.0'',
      sa_description = ''Snakes game using kivy'', sa_author = ''Brandon Piatt'',
      sa_author_email = ''branpx@gmail.com'', sa_url = ''http://github.com/branpx/simply-snakes'',
      sa_license = ''MIT'', sa_packages = [''simply_snakes''],
      sa_package_data = [(''simply_snakes'', [''*.kv''])], sa_install_requires = [''kivy''],
      sa_entry_points = [(''gui_scripts'', [''simply-snakes=simply_snakes.snakes:main''])]\<rparr>"

subsection \<open>Entry points\<close>

text \<open>\<open>name = module:attr\<close>, blanks around the parts stripped; a
  specification without \<open>=\<close> or without the attribute is rejected.\<close>

definition parse_entry_point :: "string \<Rightarrow> (string \<times> string \<times> string) option" where
  "parse_entry_point s =
     (let strip = \<lambda>x. rev (dropWhile (\<lambda>c. c = CHR '' '') (rev (dropWhile (\<lambda>c. c = CHR '' '') x)));
          n = takeWhile (\<lambda>c. c \<noteq> CHR ''='') s; r = dropWhile (\<lambda>c. c \<noteq> CHR ''='') s
      in if r = [] then None
         else let v = tl r; m = takeWhile (\<lambda>c. c \<noteq> CHR '':'') v;
                  a = dropWhile (\<lambda>c. c \<noteq> CHR '':'') v
              in if a = [] then None else Some (strip n, strip m, strip (tl a)))"

text \<open>The command a \<open>gui_scripts\<close> entry installs: its module and attribute.\<close>

definition gui_script :: "setup_args \<Rightarrow> string \<Rightarrow> (string \<times> string) option" where
  "gui_script sa cmd =
     (case map_of (sa_entry_points sa) ''gui_scripts'' of
        None \<Rightarrow> None
      | Some specs \<Rightarrow> map_of (List.map_filter parse_entry_point specs) cmd)"

subsection \<open>Package data\<close>

text \<open>Shell-style patterns of \<open>package_data\<close> (Python's \<open>fnmatch\<close>):
  \<open>*\<close> matches any sequence of characters, \<open>?\<close> any one character; the
  bracket classes are not used by the program.\<close>

fun fnmatch :: "string \<Rightarrow> string \<Rightarrow> bool" where
  "fnmatch [] s \<longleftrightarrow> s = []"
| "fnmatch (CHR ''*'' # p) [] \<longleftrightarrow> fnmatch p []"
| "fnmatch (CHR ''*'' # p) (c # s) \<longleftrightarrow> fnmatch p (c # s) \<or> fnmatch (CHR ''*'' # p) s"
| "fnmatch (CHR ''?'' # p) (c # s) \<longleftrightarrow> fnmatch p s"
| "fnmatch (d # p) (c # s) \<longleftrightarrow> d = c \<and> fnmatch p s"
| "fnmatch (d # p) [] \<longleftrightarrow> False"

text \<open>Whether an installation of the package \<open>pkg\<close> contains its file \<open>f\<close>.\<close>

definition ships :: "setup_args \<Rightarrow> string \<Rightarrow> string \<Rightarrow> bool" where
  "ships sa pkg f \<longleftrightarrow>
     pkg \<in> set (sa_packages sa)
     \<and> (case map_of (sa_package_data sa) pkg of
          None \<Rightarrow> False
        | Some pats \<Rightarrow> list_ex (\<lambda>pat. fnmatch pat f) pats)"

text \<open>Kivy's \<open>App.load_kv\<close> reads the layout file named after the App class:
  the class name without a trailing \<open>App\<close>, in lower case, with \<open>.kv\<close>, from
  the directory of the App's module.\<close>

definition kv_layout :: "string \<Rightarrow> string" where
  "kv_layout cls =
     (let lower = \<lambda>c. if (65 :: nat) \<le> of_char c \<and> of_char c \<le> (90 :: nat)
                      then char_of (of_char c + (32 :: nat)) else c
      in map lower (if suffix ''App'' cls then take (length cls - 3) cls else cls) @ ''.kv'')"

text \<open>\<open>class SnakesApp(App)\<close>.\<close>

definition app_class :: string where
  "app_class = ''SnakesApp''"

subsection \<open>Running an installed command\<close>

text \<open>The package a dotted module name lives in.\<close>

definition package_of :: "string \<Rightarrow> string" where
  "package_of m = rev (tl (dropWhile (\<lambda>c. c \<noteq> CHR ''.'') (rev m)))"

text \<open>Running the command \<open>cmd\<close> of an installation: import the module (it
  must be inside an installed package, and the only module of the sources is
  \<open>simply_snakes.snakes\<close>, src/simply_snakes/snakes.py), look up the
  attribute (the module defines \<open>main\<close>), and call it; \<open>None\<close> when the
  installation has no such command.\<close>

definition launch ::
  "setup_args \<Rightarrow> string \<Rightarrow> game \<Rightarrow> host_event list \<Rightarrow> (py_error + game host) option" where
  "launch sa cmd g0 es =
     (case gui_script sa cmd of
        None \<Rightarrow> None
      | Some (m, a) \<Rightarrow>
          Some (if m \<noteq> ''simply_snakes.snakes'' \<or> package_of m \<notin> set (sa_packages sa) then Inl ImportError
                else if a \<noteq> ''main'' then Inl AttributeError
                else main pkg_ops g0 es))"

lemma gui_script_setup_py: "gui_script setup_py ''simply-snakes'' = Some (''simply_snakes.snakes'', ''main'')"
    by (simp add: gui_script_def setup_py_def parse_entry_point_def)

lemma package_of_snakes: "package_of ''simply_snakes.snakes'' = ''simply_snakes''"
  by (simp add: package_of_def)

text \<open>The installed command runs the game: the layout file Kivy loads
  for \<open>SnakesApp\<close>, \<open>snakes.kv\<close>, is package data that src/setup.py ships
  with the package, and the \<open>gui_scripts\<close> entry point names a module of a
  listed package and its \<open>main\<close>, so
  running \<open>simply-snakes\<close> imports src/simply_snakes/snakes.py and runs
  \<open>main()\<close>, which, for any game the kv layout builds and any window events,
  raises nothing, keeps running, and leaves the game in the state
  \<open>run_events\<close> computes.\<close>

theorem launch_runs_game:
  "launch setup_py ''simply-snakes'' g0 es = Some (main pkg_ops g0 es)
   \<and> kv_layout app_class = ''snakes.kv'' \<and> ships setup_py ''simply_snakes'' (kv_layout app_class)
   \<and> (\<exists>h. launch setup_py ''simply-snakes'' g0 es = Some (Inr h) \<and> running h
          \<and> root h = run_events (g0\<lparr>keyboard_bound := True\<rparr>) (map abs_event es))"
proof -
  have l: "launch setup_py ''simply-snakes'' g0 es = Some (main pkg_ops g0 es)"
  proof -
    have "sa_packages setup_py = [''simply_snakes'']" by (simp add: setup_py_def)
    then show ?thesis
      by (simp add: launch_def gui_script_setup_py package_of_snakes)
  qed
  moreover have "kv_layout app_class = ''snakes.kv''"
    unfolding kv_layout_def app_class_def by code_simp
  moreover have "ships setup_py ''simply_snakes'' ''snakes.kv''"
    by (simp add: ships_def setup_py_def)
  ultimately show ?thesis using main_pkg_runs [of g0 es] by simp
qed

end
