(* ===== verification/Spec2Isabelle.thy ===== *)
theory Spec2Isabelle
  imports Snakes_Copy Trail_Store Arena Packaging
begin

text \<open>
  \<^bold>\<open>A verification development for simply-snakes.\<close>

  The program (src/simply_snakes/snakes.py, a Kivy application; src/snakes.py
  is an older copy of the same module) is a two-player snake game. Its parts:
  \<^item> the Kivy \<open>Widget\<close> geometry (position, size, \<open>right\<close>, \<open>top\<close>, \<open>center\<close>)
    and \<open>Snake.collide_widget\<close>, a bounding-box test that accepts a second
    widget of negative size and ignores overlaps of less than one unit;
  \<^item> \<open>Trail\<close>, a coloured widget left behind a snake, created when the snake's
    direction changes and grown by the snake on every tick;
  \<^item> \<open>Snake\<close>: \<open>move\<close> (advance, grow the current trail, report a collision
    with the arena's edges, the other snake or any trail) and the observer
    \<open>on_direction\<close> that Kivy calls when the \<open>direction\<close> property changes;
  \<^item> \<open>SnakesGame\<close>: the keyboard handler with its no-reversal guards,
    \<open>update\<close> (snake 1 moves, then snake 2 unless snake 1 crashed; the other
    snake scores and the round is \<open>reset\<close>), \<open>reset\<close>, and the release of the
    keyboard. The clock calls \<open>update\<close> sixty times a second.
  \<^item> the plumbing to Kivy: \<open>SnakesGame.__init__\<close> requests the keyboard and
    binds the key handler, \<open>run\<close> schedules \<open>update\<close> on the clock,
    \<open>SnakesApp.build\<close> switches off exit on Escape and starts the game,
    \<open>main\<close> runs Kivy's event loop;
  \<^item> the widget tree: \<open>on_direction\<close> adds each new Trail to the game's
    children, \<open>reset\<close> removes every listed Trail from them;
  \<^item> src/setup.py: the package, its \<open>*.kv\<close> data and a \<open>gui_scripts\<close>
    entry point \<open>simply-snakes\<close> that runs \<open>main\<close>.

  \<^bold>\<open>Theories.\<close>
  \<^item> \<open>Snakes_Prelude\<close>: type names (\<open>coord = real\<close> for Kivy's floats,
    \<open>dir = int \<times> int\<close>, \<open>oid\<close> for object identities), the rule collections
    \<open>geom_simps\<close> and \<open>store_simps\<close>, list-as-store lemmas.
  \<^item> \<open>Widget\<close>: \<open>record widget\<close> (x, y, width, height as \<open>wx wy width height\<close>),
    \<open>widget_right\<close>, \<open>widget_top\<close>, \<open>set_center\<close>, and \<open>collide_widget\<close>
    translated branch by branch; the reference specification \<open>boxes_collide\<close>
    (normalised extents overlapping by the one-unit margin) and \<open>normalize\<close>.
  \<^item> \<open>Snake\<close>: \<open>record trail\<close>, \<open>record snake\<close> and \<open>record parent\<close>, all
    extensions of \<open>widget\<close> as the classes are subclasses of Widget. Kivy
    objects are shared by reference (a snake's \<open>trail\<close> is also an entry of the
    game's \<open>trails\<close>); the model makes this explicit with a store
    \<open>trail_store\<close>, a list of every Trail ever created, indexed by identity.
    The parent's \<open>children\<close> (a \<open>child\<close> list) is its part of Kivy's widget
    tree: the kv layout's widgets and the Trails added by \<open>add_widget\<close>.
    \<open>parent\<close> is the part of \<open>SnakesGame\<close> a snake reaches through
    \<open>self.parent\<close>, so \<open>move\<close> and \<open>on_direction\<close> are stated over any
    \<open>'a parent_scheme\<close>, in particular over the game. Operations:
    \<open>new_trail\<close> and \<open>on_direction\<close> (Snake.on_direction), \<open>set_direction\<close>
    (the property assignment, which fires the observer only on a change),
    \<open>speed_scale\<close>, \<open>advance\<close>, \<open>grow_trail\<close>, \<open>collide_trails\<close> (the loop
    over trails) and \<open>move\<close> (Snake.move, returning the moved snake, the parent
    with the grown trail and the collision flag).
  \<^item> \<open>Game\<close>: \<open>record game\<close> (parent plus \<open>snake1\<close>, \<open>snake2\<close>,
    \<open>keyboard_bound\<close>), \<open>on_keyboard_down\<close> (one \<open>steer\<close> per key),
    \<open>keyboard_closed\<close>, \<open>reset\<close>, \<open>add_point\<close>, \<open>update\<close>; the host's events
    (\<open>Tick\<close>, \<open>KeyDown\<close>, \<open>KeyboardClosed\<close>, \<open>Resize\<close>) with \<open>game_step\<close> and
    \<open>run_events\<close>, and \<open>reachable\<close>, the least set of states reachable
    from a freshly built game (\<open>initial\<close>, from the spec: the kv layout is not
    among the sources). The invariant \<open>game_inv\<close> and its preservation by every
    event, the spec's key table \<open>key_binding\<close> and its direction state machine
    (\<open>heading\<close>, \<open>turn\<close>) are here too.
  \<^item> \<open>Trail_Store\<close>: the life of Trail objects: \<open>owned\<close> (some snake's
    current trail) and \<open>frozen\<close> (in the store, owned by no snake), the
    relation \<open>keeps_frozen\<close> between a state and its successor, proved for
    every operation and composed along \<open>update\<close>, \<open>reset\<close> and runs, and the
    creation budget \<open>trail_budget\<close> of each event.
  \<^item> \<open>Snakes_Copy\<close>: the older copy src/snakes.py, modelled statement by
    statement in the state monad of HOL-Library (\<open>'a prog\<close> over the game
    state): \<open>self.snakeN\<close> is a reference (a \<open>player\<close>), each attribute
    assignment is one state update in the source's order (\<open>modify_snake\<close>,
    \<open>modify_trail\<close>), \<open>Trail(...)\<close> allocates a store cell
    (\<open>new_trail_obj\<close>) whose fields are then set one by one. Its methods
    (\<open>on_direction_copy\<close>, \<open>move_copy\<close>, \<open>reset_copy\<close>,
    \<open>update_copy\<close>, \<open>on_keyboard_down_copy\<close>, \<open>keyboard_closed_copy\<close>)
    and the event loop \<open>run_events_copy\<close> are proved to compute the functions
    of theory \<open>Game\<close>, so every property of the package module holds of the
    copy too.
  \<^item> \<open>Arena\<close>: the spec's Arena as an abstract machine without object
    identities (segments a plain list, a competitor holding the position of
    its current segment: \<open>arena_advance\<close>, \<open>set_heading\<close>, \<open>arena_key\<close>,
    \<open>arena_reset\<close>, \<open>arena_update\<close>, \<open>arena_step\<close>), the abstraction
    \<open>abs_game\<close> (the listed Trails in order, each snake's Trail read as its
    position in the list or none), the invariant \<open>ref_ok\<close> it needs
    (distinct listed objects, all in the store), and the simulation of every
    operation: \<open>abs_move\<close>, \<open>abs_set_snake_direction\<close>, \<open>abs_reset\<close>,
    \<open>abs_update\<close>, \<open>abs_step\<close>.
  \<^item> \<open>Host\<close>: the plumbing, over an interface \<open>game_ops\<close> to the game.
    Kivy's state is \<open>record host\<close> (configuration, the clock's interval
    events, the keyboard's \<open>on_key_down\<close> handlers and release callback,
    whether the application runs, the root widget); Python values
    (\<open>pyval\<close>) are passed to bound methods (\<open>callback\<close>), a call with the
    wrong number of arguments raises (\<open>py_call\<close>), and errors are values of
    \<open>py_error + 'a\<close> with \<open>bind_err\<close> from the prelude. Code: \<open>run_method\<close>
    (the bodies as Kivy calls them: \<open>_keyboard_closed\<close> raising
    \<open>AttributeError\<close> on \<open>None\<close>, the \<open>keycode[1]\<close> read), \<open>game_init\<close>,
    \<open>game_run\<close>, \<open>build\<close>, \<open>main\<close>; Kivy's loop is \<open>host_step\<close> and
    \<open>host_run\<close>. The typing \<open>host_typed\<close> of the registries (progress and
    preservation), the invariant \<open>host_ok\<close> that start-up establishes, and
    the simulation of the game model's step \<open>ops_step\<close> by the loop.
  \<^item> \<open>App\<close>: the interface instantiated with the package's game
    (\<open>pkg_ops\<close>) and the copy's state-monad methods (\<open>copy_ops\<close>,
    \<open>main_copy\<close>); the application runs \<open>run_events\<close>.
  \<^item> \<open>Packaging\<close>: the \<open>setup()\<close> call of src/setup.py (\<open>setup_py\<close>), the
    entry-point syntax (\<open>parse_entry_point\<close>, \<open>gui_script\<close>), package data
    patterns (\<open>fnmatch\<close>, \<open>ships\<close>), Kivy's kv file name (\<open>kv_layout\<close>),
    and running an installed command (\<open>launch\<close>).
  \<^item> this theory: a concrete 250 by 250 arena (\<open>demo_game\<close>), the
    witnesses, and the properties that run several operations in sequence.

  \<^bold>\<open>What is proved.\<close>
  Collision test (Widget): equal to the reference specification for a first
  widget of non-negative size, symmetric there, independent of the sign
  encoding of the second widget, touching boxes never collide, boxes
  overlapping by one unit always do, and not symmetric in general.
  Snake and game: the invariant holds in every reachable state (trail
  references in range, directions idle or cardinal, scores non-negative, each
  snake's current trail right behind it); consequently a snake never collides
  with its own growing trail. Scores never decrease and rise by at most one per
  tick; a head-on collision gives both snakes a point; a crash into the edge
  gives the other snake a point and resets the round. The keyboard handler
  refines the abstract turn rule, never reverses a snake by one key, and
  creates exactly one trail per turn; every key of the spec's table
  (\<open>key_for\<close>, the table read backwards) is decoded by the handler to
  exactly its player and direction; every event refines the spec's heading
  state machine (\<open>heading_trans\<close>), and a moving snake becomes idle only by a
  tick that ends the round. \<open>reset\<close> is idempotent and re-centres the snakes.
  A tick keeps the trail list or empties it; when snake 1 crashes, snake 2
  does not move in that tick (the order of \<open>update\<close>). Over several ticks
  either snake moves in a straight line; idle snakes stay put; if either
  snake is inside the arena and moving and no key is pressed, one of the
  first \<open>\<lceil>d / s\<rceil>\<close> ticks ends the round (\<open>d\<close> the snake's distance to the
  edge it heads for, \<open>s\<close> the speed scale), the liveness property
  \<open>round_ends\<close>; the bound is exact for the \<open>\<ge>\<close> edge test of the code. When snake 1's move
  is quiet and snake 2 leaves the arena, snake 1 scores and the round resets.
  Trail objects (theory \<open>Trail_Store\<close>): a frozen Trail is never owned or
  changed again; the store never shrinks and a run creates at most two Trails
  per tick and one per key; within a round the trail list only grows, and
  only a tick that ends the round empties it; the Trails drawn as children of
  the game are exactly the listed ones (\<open>drawn_trails_listed\<close>), and
  \<open>reset\<close> takes them all off the screen. The older copy src/snakes.py
  computes exactly the states of the package module on every run of events,
  and its reachable states satisfy the invariant. The whole program refines
  the spec's alias-free Arena: from every reachable state, every run of events
  reads, under \<open>abs_game\<close>, as the same run of the abstract machine. The
  plumbing (theories \<open>Host\<close>, \<open>App\<close>): the application started by
  \<open>main\<close>, in either copy, raises
  nothing, is not closed by Escape, and its root game goes through exactly
  \<open>run_events\<close>; the installed \<open>simply-snakes\<close> command runs that \<open>main\<close>
  and ships the kv layout Kivy loads for \<open>SnakesApp\<close>. Findings: two keys within
  one tick do reverse a snake into its own trail, in both copies of the
  module, and from every heading (\<open>two_keys_reverse\<close>); \<open>reset\<close> leaves each moving snake holding a detached full-size
  trail; the collision test is not symmetric for a first widget of negative
  size; the speed scale is not clamped (a zero-width window gives 0);
  a resize that leaves an idle snake outside the arena gives the other snake
  a point at the next tick.

  \<^bold>\<open>Numbers.\<close> Coordinates are \<open>real\<close>: Python floats are not modelled bit for
  bit, so the theorems hold of exact arithmetic; in the scenarios (speed scale
  1, integral or thirds positions) the float computation is exact or off by
  rounding far below the one-unit margin. Scores and direction components are
  Python ints, modelled as \<open>int\<close>. No loop of the program is unbounded: the
  loops run over the finite trail list (the collision loop of \<open>move\<close> and
  the \<open>remove_widget\<close> loop of \<open>reset\<close>), so no fuel is needed; the game
  loop itself is the run of events, and \<open>round_ends\<close> bounds the number of
  ticks a round can last.

  \<^bold>\<open>Not modelled.\<close> Drawing on the canvas (colours are carried along but
  never read), and the kv layout that sizes the snakes and places the status
  bar, which is not among the sources (its effect is the \<open>initial\<close>
  predicate, the parameter \<open>g0\<close> of \<open>build\<close>, and the field
  \<open>status_bar_y\<close>). The metadata strings of \<open>setup()\<close> are carried but have
  no behaviour. Kivy's own semantics enter
  from its documentation and the spec: the \<open>center\<close> setter
  (\<open>set_center\<close>), the property assignment that fires \<open>on_direction\<close> only
  on a change (\<open>set_direction\<close>, \<open>assign_direction\<close>), and in theory
  \<open>Host\<close> the configuration, keyboard, clock and event loop, \<open>add_widget\<close>
  and \<open>remove_widget\<close>; setuptools' entry points and package data and Python's
  import in theory \<open>Packaging\<close>. A clock frame
  fires every interval event once (the interval 1/60 is recorded, not
  timed), and the only Kivy key that acts on its own is Escape.

  \<^bold>\<open>Further work.\<close> A
  bound on the length of the trail list within a round; the spec's
  properties stated directly on the abstract Arena and carried to the program
  through the refinement; the game-level properties restated of the running
  application through \<open>main_runs_game\<close>.
\<close>

section \<open>A concrete arena\<close>

text \<open>The arena of the spec's scenarios: 250 by 250 with the status bar at
  height 240, so that the speed scale is 1; two 10 by 10 snakes at the
  positions \<open>reset\<close> gives them, idle, with no trail and no score.\<close>

definition demo_snake :: "real list \<Rightarrow> coord \<Rightarrow> snake" where
  "demo_snake c x = \<lparr>wx = x, wy = 120, width = 10, height = 10, color = c,
                     direction_x = 0, direction_y = 0, trail = None, score = 0\<rparr>"

definition demo_game :: game where
  "demo_game = \<lparr>wx = 0, wy = 0, width = 250, height = 250, trails = [], status_bar_y = 240,
                trail_store = [], children = [], snake1 = demo_snake [1, 0, 0] (235 / 3),
                snake2 = demo_snake [0, 0, 1] (485 / 3), keyboard_bound = True\<rparr>"

lemmas demo_eval = demo_game_def demo_snake_def on_keyboard_down_def steer_def
  set_snake_direction_eq direction_def Let_def new_trail_def update_eq move_def advance_def
  speed_scale_def grow_trail_def collide_widget_def geom_simps reset_def add_point_def
  set_center_def out_of_arena_def key_binding_def neg_dir_def tick_collides_def

lemma demo_initial: "initial demo_game"
  by (simp add: initial_def demo_game_def demo_snake_def fresh_snake_def direction_def)

lemma demo_reachable_d: "reachable (game_step demo_game (KeyDown ''d''))"
  by (intro reachable.step reachable.start demo_initial) simp

section \<open>Witnesses of the game's properties\<close>

theorem update_head_on_scores_witness:
  "\<not> out_of_arena (advance (speed_scale (demo_game\<lparr>snake1 := (demo_snake [1, 0, 0] 155)\<lparr>direction_x := 1\<rparr>\<rparr>))
                          (snake1 (demo_game\<lparr>snake1 := (demo_snake [1, 0, 0] 155)\<lparr>direction_x := 1\<rparr>\<rparr>)))
                 (demo_game\<lparr>snake1 := (demo_snake [1, 0, 0] 155)\<lparr>direction_x := 1\<rparr>\<rparr>)
   \<and> collide_widget (advance (speed_scale (demo_game\<lparr>snake1 := (demo_snake [1, 0, 0] 155)\<lparr>direction_x := 1\<rparr>\<rparr>))
                          (snake1 (demo_game\<lparr>snake1 := (demo_snake [1, 0, 0] 155)\<lparr>direction_x := 1\<rparr>\<rparr>)))
                    (snake2 (demo_game\<lparr>snake1 := (demo_snake [1, 0, 0] 155)\<lparr>direction_x := 1\<rparr>\<rparr>))
   \<and> score (snake1 (update 0 (demo_game\<lparr>snake1 := (demo_snake [1, 0, 0] 155)\<lparr>direction_x := 1\<rparr>\<rparr>))) = 1
   \<and> score (snake2 (update 0 (demo_game\<lparr>snake1 := (demo_snake [1, 0, 0] 155)\<lparr>direction_x := 1\<rparr>\<rparr>))) = 1"
proof -
  let ?g = "demo_game\<lparr>snake1 := (demo_snake [1, 0, 0] 155)\<lparr>direction_x := 1\<rparr>\<rparr>"
  have h1: "\<not> out_of_arena (advance (speed_scale ?g) (snake1 ?g)) ?g"
    and h2: "collide_widget (advance (speed_scale ?g) (snake1 ?g)) (snake2 ?g)"
    by (simp_all add: demo_eval)
  have s: "score (snake1 ?g) = 0" "score (snake2 ?g) = 0"
    by (simp_all add: demo_eval)
  from h1 h2 s update_head_on_scores [OF h1 h2, of 0] show ?thesis by simp
qed

theorem update_wall_crash_witness:
  "out_of_arena (advance (speed_scale (demo_game\<lparr>snake1 := (demo_snake [1, 0, 0] (1 / 2))\<lparr>direction_x := -1\<rparr>\<rparr>))
                        (snake1 (demo_game\<lparr>snake1 := (demo_snake [1, 0, 0] (1 / 2))\<lparr>direction_x := -1\<rparr>\<rparr>)))
               (demo_game\<lparr>snake1 := (demo_snake [1, 0, 0] (1 / 2))\<lparr>direction_x := -1\<rparr>\<rparr>)
   \<and> score (snake2 (update 0 (demo_game\<lparr>snake1 := (demo_snake [1, 0, 0] (1 / 2))\<lparr>direction_x := -1\<rparr>\<rparr>))) = 1
   \<and> trails (update 0 (demo_game\<lparr>snake1 := (demo_snake [1, 0, 0] (1 / 2))\<lparr>direction_x := -1\<rparr>\<rparr>)) = []"
proof -
  let ?g = "demo_game\<lparr>snake1 := (demo_snake [1, 0, 0] (1 / 2))\<lparr>direction_x := -1\<rparr>\<rparr>"
  have h: "out_of_arena (advance (speed_scale ?g) (snake1 ?g)) ?g"
    by (simp add: demo_eval)
  have s: "score (snake2 ?g) = 0"
    by (simp add: demo_eval)
  from h s update_wall_crash [OF h, of 0] show ?thesis by simp
qed

theorem no_reversal_witness:
  "key_binding ''a'' = Some (Player1, (-1, 0))
   \<and> direction (get_snake Player1 (game_step demo_game (KeyDown ''d''))) = neg_dir (-1, 0)
   \<and> on_keyboard_down ''a'' (game_step demo_game (KeyDown ''d'')) = game_step demo_game (KeyDown ''d'')"
proof -
  have k: "key_binding ''a'' = Some (Player1, (-1, 0))"
    by (simp add: key_binding_def)
  have d: "direction (get_snake Player1 (game_step demo_game (KeyDown ''d''))) = neg_dir (-1, 0)"
    by (simp add: demo_eval)
  from k d no_reversal [OF k d] show ?thesis by blast
qed

theorem turn_creates_trail_witness:
  "key_binding ''d'' = Some (Player1, (1, 0))
   \<and> direction (get_snake Player1 demo_game) \<noteq> (1, 0)
   \<and> direction (get_snake Player1 demo_game) \<noteq> neg_dir (1, 0)
   \<and> trails (on_keyboard_down ''d'' demo_game) = [0]"
proof -
  have k: "key_binding ''d'' = Some (Player1, (1, 0))"
    by (simp add: key_binding_def)
  have d1: "direction (get_snake Player1 demo_game) \<noteq> (1, 0)"
    and d2: "direction (get_snake Player1 demo_game) \<noteq> neg_dir (1, 0)"
    by (simp_all add: demo_eval)
  have "trails (on_keyboard_down ''d'' demo_game) = trails demo_game @ [length (trail_store demo_game)]"
    using turn_creates_trail [OF k d1 d2] by blast
  with k d1 d2 show ?thesis by (simp add: demo_game_def)
qed

theorem reachable_wellformed_witness:
  "reachable (game_step demo_game (KeyDown ''d''))
   \<and> valid_dir (direction (get_snake Player1 (game_step demo_game (KeyDown ''d''))))"
  using demo_reachable_d reachable_wellformed [OF demo_reachable_d] by blast

theorem move_misses_own_trail_witness:
  "reachable (game_step demo_game (KeyDown ''d''))
   \<and> direction (get_snake Player1 (game_step demo_game (KeyDown ''d''))) \<noteq> (0, 0)
   \<and> trail (get_snake Player1 (game_step demo_game (KeyDown ''d''))) = Some 0
   \<and> \<not> collide_widget
        (fst (move (get_snake Player1 (game_step demo_game (KeyDown ''d'')))
                   (snake2 (game_step demo_game (KeyDown ''d''))) (game_step demo_game (KeyDown ''d''))))
        (trail_store (fst (snd (move (get_snake Player1 (game_step demo_game (KeyDown ''d'')))
                   (snake2 (game_step demo_game (KeyDown ''d''))) (game_step demo_game (KeyDown ''d''))))) ! 0)"
proof -
  have d: "direction (get_snake Player1 (game_step demo_game (KeyDown ''d''))) \<noteq> (0, 0)"
    and t: "trail (get_snake Player1 (game_step demo_game (KeyDown ''d''))) = Some 0"
    by (simp_all add: demo_eval)
  show ?thesis
    by (intro conjI demo_reachable_d d t move_misses_own_trail [OF demo_reachable_d d t])
qed

section \<open>Properties across snakes, trails and the game\<close>

lemma run_ticks_Suc:
  "run_events g (replicate (Suc n) (Tick dt)) = run_events (update dt g) (replicate n (Tick dt))"
  by simp

lemma speed_scale_update [simp]: "speed_scale (update dt g) = speed_scale g"
  by (simp add: speed_scale_def)

text \<open>A quiet tick moves each snake by its direction times the speed scale and
  keeps its direction and size.\<close>

lemma update_quiet_snake:
  assumes "\<not> tick_collides g"
  shows "wx (get_snake pl (update dt g)) = wx (get_snake pl g) + of_int (direction_x (get_snake pl g)) * speed_scale g
       \<and> wy (get_snake pl (update dt g)) = wy (get_snake pl g) + of_int (direction_y (get_snake pl g)) * speed_scale g
       \<and> direction (get_snake pl (update dt g)) = direction (get_snake pl g)
       \<and> width (get_snake pl (update dt g)) = width (get_snake pl g)
       \<and> height (get_snake pl (update dt g)) = height (get_snake pl g)"
  using assms
  by (cases pl) (simp_all add: tick_collides_def update_eq Let_def move_pos speed_scale_def)

text \<open>A run of quiet ticks: each snake keeps its direction, moves by its
  direction times the speed scale per tick, and the arena is unchanged.\<close>

lemma quiet_ticks:
  assumes "\<forall>k<n. \<not> tick_collides (run_events g (replicate k (Tick dt)))"
  shows "wx (get_snake pl (run_events g (replicate n (Tick dt))))
           = wx (get_snake pl g) + of_nat n * (of_int (direction_x (get_snake pl g)) * speed_scale g)
       \<and> wy (get_snake pl (run_events g (replicate n (Tick dt))))
           = wy (get_snake pl g) + of_nat n * (of_int (direction_y (get_snake pl g)) * speed_scale g)
       \<and> direction (get_snake pl (run_events g (replicate n (Tick dt)))) = direction (get_snake pl g)
       \<and> width (get_snake pl (run_events g (replicate n (Tick dt)))) = width (get_snake pl g)
       \<and> height (get_snake pl (run_events g (replicate n (Tick dt)))) = height (get_snake pl g)
       \<and> width (run_events g (replicate n (Tick dt))) = width g
       \<and> height (run_events g (replicate n (Tick dt))) = height g
       \<and> status_bar_y (run_events g (replicate n (Tick dt))) = status_bar_y g"
  using assms
proof (induction n arbitrary: g)
  case 0
  then show ?case by simp
next
  case (Suc n)
  from Suc.prems have q: "\<not> tick_collides g" by auto
  from Suc.prems have "\<forall>k<n. \<not> tick_collides (run_events (update dt g) (replicate k (Tick dt)))"
    by (metis Suc_mono run_ticks_Suc)
  then have IH: "wx (get_snake pl (run_events (update dt g) (replicate n (Tick dt))))
           = wx (get_snake pl (update dt g)) + of_nat n * (of_int (direction_x (get_snake pl (update dt g))) * speed_scale g)
       \<and> wy (get_snake pl (run_events (update dt g) (replicate n (Tick dt))))
           = wy (get_snake pl (update dt g)) + of_nat n * (of_int (direction_y (get_snake pl (update dt g))) * speed_scale g)
       \<and> direction (get_snake pl (run_events (update dt g) (replicate n (Tick dt)))) = direction (get_snake pl (update dt g))
       \<and> width (get_snake pl (run_events (update dt g) (replicate n (Tick dt)))) = width (get_snake pl (update dt g))
       \<and> height (get_snake pl (run_events (update dt g) (replicate n (Tick dt)))) = height (get_snake pl (update dt g))
       \<and> width (run_events (update dt g) (replicate n (Tick dt))) = width g
       \<and> height (run_events (update dt g) (replicate n (Tick dt))) = height g
       \<and> status_bar_y (run_events (update dt g) (replicate n (Tick dt))) = status_bar_y g"
    using Suc.IH by simp
  note u = update_quiet_snake [OF q, of pl dt]
  then have "direction_x (get_snake pl (update dt g)) = direction_x (get_snake pl g)"
    and "direction_y (get_snake pl (update dt g)) = direction_y (get_snake pl g)"
    by (simp_all add: direction_def)
  with IH u show ?case
    by (simp only: run_ticks_Suc) (simp add: algebra_simps)
qed

text \<open>C24: Spec scenario: while no tick of a run ends the round, each snake
  moves in a straight line: after \<open>n\<close> ticks its position has advanced by
  \<open>n\<close> times its direction times the speed scale.\<close>

theorem ticks_move_straight:
  assumes "\<forall>k<n. \<not> tick_collides (run_events g (replicate k (Tick dt)))"
  shows "wx (get_snake pl (run_events g (replicate n (Tick dt))))
           = wx (get_snake pl g) + of_nat n * (of_int (direction_x (get_snake pl g)) * speed_scale g)
       \<and> wy (get_snake pl (run_events g (replicate n (Tick dt))))
           = wy (get_snake pl g) + of_nat n * (of_int (direction_y (get_snake pl g)) * speed_scale g)"
  using quiet_ticks [OF assms] by blast

text \<open>C25: Spec scenario: before any key is pressed nothing happens: a tick on
  a game whose snakes are idle, inside the arena and apart, with no trail
  listed, leaves the whole state unchanged; in particular no trail is created
  before the first turn.\<close>

theorem idle_tick_noop:
  assumes "direction (snake1 g) = (0, 0)" "direction (snake2 g) = (0, 0)" "trails g = []"
    and "\<not> out_of_arena (snake1 g) g" "\<not> out_of_arena (snake2 g) g"
    and "\<not> collide_widget (snake1 g) (snake2 g)" "\<not> collide_widget (snake2 g) (snake1 g)"
  shows "update dt g = g"
proof -
  have m1: "move (snake1 g) (snake2 g) g = (snake1 g, g, False)"
    using assms by (intro move_idle) simp_all
  have m2: "move (snake2 g) (snake1 g) g = (snake2 g, g, False)"
    using assms by (intro move_idle) simp_all
  from m1 m2 show ?thesis
    by (simp add: update_eq Let_def)
qed

theorem idle_tick_noop_witness:
  "direction (snake1 demo_game) = (0, 0) \<and> direction (snake2 demo_game) = (0, 0) \<and> trails demo_game = []
   \<and> \<not> out_of_arena (snake1 demo_game) demo_game \<and> \<not> out_of_arena (snake2 demo_game) demo_game
   \<and> \<not> collide_widget (snake1 demo_game) (snake2 demo_game)
   \<and> \<not> collide_widget (snake2 demo_game) (snake1 demo_game)
   \<and> update 0 demo_game = demo_game"
proof -
  have h: "direction (snake1 demo_game) = (0, 0)" "direction (snake2 demo_game) = (0, 0)"
    "trails demo_game = []"
    "\<not> out_of_arena (snake1 demo_game) demo_game" "\<not> out_of_arena (snake2 demo_game) demo_game"
    "\<not> collide_widget (snake1 demo_game) (snake2 demo_game)"
    "\<not> collide_widget (snake2 demo_game) (snake1 demo_game)"
    by (simp_all add: demo_eval)
  from h idle_tick_noop [OF h, of 0] show ?thesis by blast
qed

text \<open>Two keys pressed within one tick reverse a snake: moving right,
  \<open>w\<close> then \<open>a\<close> each pass the no-reversal guard (the guard compares with the
  direction just set, not with the heading the snake last moved in), the snake
  now heads left, and on the next tick it runs into its own previous trail
  (not a wall, not the other snake): the round ends and the other snake
  scores.\<close>

theorem double_turn_reverses_into_trail:
  "heading_of (direction (snake1 (run_events demo_game [KeyDown ''d'', Tick 0, KeyDown ''w'', KeyDown ''a''])))
     = opposite (heading_of (direction (snake1 (run_events demo_game [KeyDown ''d'', Tick 0]))))
   \<and> \<not> out_of_arena (advance 1 (snake1 (run_events demo_game [KeyDown ''d'', Tick 0, KeyDown ''w'', KeyDown ''a''])))
                     (run_events demo_game [KeyDown ''d'', Tick 0, KeyDown ''w'', KeyDown ''a''])
   \<and> \<not> collide_widget (advance 1 (snake1 (run_events demo_game [KeyDown ''d'', Tick 0, KeyDown ''w'', KeyDown ''a''])))
                       (snake2 (run_events demo_game [KeyDown ''d'', Tick 0, KeyDown ''w'', KeyDown ''a'']))
   \<and> tick_collides (run_events demo_game [KeyDown ''d'', Tick 0, KeyDown ''w'', KeyDown ''a''])
   \<and> score (snake2 (run_events demo_game [KeyDown ''d'', Tick 0, KeyDown ''w'', KeyDown ''a'', Tick 0])) = 1
   \<and> trails (run_events demo_game [KeyDown ''d'', Tick 0, KeyDown ''w'', KeyDown ''a'', Tick 0]) = []"
  by (simp add: demo_eval heading_of_def)

text \<open>C26: The reversal is no accident of one scenario: whatever cardinal
  heading a snake has, its player's key for the perpendicular direction
  obtained by swapping the components, followed by the key for the opposite
  heading, both pass the no-reversal guard, and the snake ends up heading
  back the way it came, within one tick.\<close>

theorem two_keys_reverse:
  assumes "keyboard_bound g" "d \<in> {(0, 1), (0, -1), (-1, 0), (1, 0)}"
    "direction (get_snake pl g) = d"
  shows "direction (get_snake pl (run_events g
           [KeyDown (key_for pl (snd d, fst d)), KeyDown (key_for pl (neg_dir d))])) = neg_dir d"
proof -
  have p: "key_binding (key_for pl (snd d, fst d)) = Some (pl, (snd d, fst d))"
    using assms(2) by (intro key_binding_key_for) auto
  have n: "key_binding (key_for pl (neg_dir d)) = Some (pl, neg_dir d)"
    using assms(2) by (intro key_binding_key_for) (auto simp: neg_dir_def)
  have "d \<noteq> neg_dir (snd d, fst d)" "(snd d, fst d) \<noteq> neg_dir (neg_dir d)"
    using assms(2) by (auto simp: neg_dir_def)
  with p n assms(1,3) show ?thesis by (simp add: on_keyboard_down_table)
qed

theorem ticks_move_straight_witness:
  "\<not> tick_collides (run_events (game_step demo_game (KeyDown ''d'')) (replicate 0 (Tick 0)))
   \<and> \<not> tick_collides (run_events (game_step demo_game (KeyDown ''d'')) (replicate 1 (Tick 0)))
   \<and> wx (snake1 (run_events (game_step demo_game (KeyDown ''d'')) (replicate 2 (Tick 0)))) = 235 / 3 + 2"
proof -
  let ?g = "game_step demo_game (KeyDown ''d'')"
  have h0: "\<not> tick_collides (run_events ?g (replicate 0 (Tick 0)))"
    by (simp add: demo_eval)
  have h1: "\<not> tick_collides (run_events ?g (replicate 1 (Tick 0)))"
    by (simp add: demo_eval)
  have h: "\<forall>k<2. \<not> tick_collides (run_events ?g (replicate k (Tick 0)))"
  proof (intro allI impI)
    fix k :: nat
    assume "k < 2"
    then have "k = 0 \<or> k = 1" by arith
    with h0 h1 show "\<not> tick_collides (run_events ?g (replicate k (Tick 0)))" by blast
  qed
  have "wx (get_snake Player1 (run_events ?g (replicate 2 (Tick 0))))
          = wx (get_snake Player1 ?g) + of_nat 2 * (of_int (direction_x (get_snake Player1 ?g)) * speed_scale ?g)"
    using ticks_move_straight [OF h, of Player1] by blast
  moreover have "wx (snake1 ?g) = 235 / 3" "direction_x (snake1 ?g) = 1" "speed_scale ?g = 1"
    by (simp_all add: demo_eval)
  ultimately show ?thesis using h0 h1 by simp
qed
lemma quiet_tick_inside:
  assumes "\<not> tick_collides g"
  shows "\<not> out_of_arena (advance (speed_scale g) (get_snake pl g)) g"
  using assms
  by (cases pl) (auto simp: tick_collides_def move_result Let_def out_of_arena_def speed_scale_def)

lemma edge_distance_step:
  assumes "valid_dir (direction s)" "direction s \<noteq> (0, 0)" "0 < speed_scale p"
    and "\<not> out_of_arena (advance (speed_scale p) s) p"
  shows "speed_scale p < edge_distance s p"
  using assms
  by (auto simp: valid_dir_def edge_distance_def out_of_arena_def direction_def geom_simps)

text \<open>The core of the liveness argument: the ticks up to the bound cannot all
  be quiet.\<close>

lemma quiet_ticks_bounded:
  assumes "valid_dir (direction (get_snake pl g))" "direction (get_snake pl g) \<noteq> (0, 0)" "0 < speed_scale g"
    and inside: "\<not> out_of_arena (get_snake pl g) g"
    and quiet: "\<forall>k < nat \<lceil>edge_distance (get_snake pl g) g / speed_scale g\<rceil>.
                  \<not> tick_collides (run_events g (replicate k (Tick dt)))"
  shows False
proof -
  define sc where "sc = speed_scale g"
  define K where "K = nat \<lceil>edge_distance (get_snake pl g) g / sc\<rceil>"
  have "0 < edge_distance (get_snake pl g) g"
    using assms(1,2) inside
    by (auto simp: valid_dir_def edge_distance_def out_of_arena_def direction_def geom_simps)
  then have "0 < K" using assms(3) by (simp add: K_def sc_def)
  then obtain K' where K: "K = Suc K'" by (cases K) auto
  define gK where "gK = run_events g (replicate K' (Tick dt))"
  from quiet have quiet: "\<forall>k < K. \<not> tick_collides (run_events g (replicate k (Tick dt)))"
    by (simp add: K_def sc_def)
  then have q: "\<forall>k<K'. \<not> tick_collides (run_events g (replicate k (Tick dt)))" using K by auto
  note run = quiet_ticks [OF q, of pl, folded gK_def sc_def]
  from run have "width gK = width g" "height gK = height g" by simp_all
  then have sc: "speed_scale gK = sc"
    by (simp add: speed_scale_def sc_def)
  have "\<not> tick_collides gK" using quiet K by (simp add: gK_def)
  then have "\<not> out_of_arena (advance (speed_scale gK) (get_snake pl gK)) gK"
    by (rule quiet_tick_inside)
  then have "sc < edge_distance (get_snake pl gK) gK"
    using edge_distance_step [of "get_snake pl gK" gK] assms run sc by (simp add: sc_def)
  moreover have "edge_distance (get_snake pl gK) gK = edge_distance (get_snake pl g) g - of_nat K' * sc"
    using run assms(1,2)
    by (auto simp: edge_distance_def valid_dir_def direction_def geom_simps algebra_simps)
  moreover have "edge_distance (get_snake pl g) g / sc \<le> of_nat K"
    by (simp add: K_def of_nat_ceiling)
  then have "edge_distance (get_snake pl g) g \<le> of_nat K * sc"
    using assms(3) by (simp add: divide_le_eq sc_def)
  ultimately show False using assms(3) K by (simp add: sc_def algebra_simps)
qed

text \<open>C7: A round always ends, at the latest at the tick the spec's bound
  gives: if either snake is inside the arena and moving and no key is
  pressed, one of the first \<open>\<lceil>d / s\<rceil>\<close> ticks ends the round, where \<open>d\<close> is the
  snake's distance to the edge it is heading for and \<open>s\<close> the speed scale
  (the tick numbered \<open>k + 1\<close> below, by a crash into that edge or earlier
  into something else).\<close>

theorem round_ends:
  assumes "valid_dir (direction (get_snake pl g))" "direction (get_snake pl g) \<noteq> (0, 0)" "0 < speed_scale g"
    "\<not> out_of_arena (get_snake pl g) g"
  shows "\<exists>k < nat \<lceil>edge_distance (get_snake pl g) g / speed_scale g\<rceil>.
           tick_collides (run_events g (replicate k (Tick dt)))"
  using quiet_ticks_bounded [OF assms] by blast

text \<open>C12: The order of \<open>update\<close> (spec 4.4): when snake 1's move reports a
  collision, snake 2 does not move in that tick: the trail it is growing is
  left exactly as it was, and it gains the point.\<close>

theorem crash_preempts_second_move:
  assumes "snd (snd (move (snake1 g) (snake2 g) g))"
    and "trail (snake2 g) = Some j" "trail (snake1 g) \<noteq> Some j" "j < length (trail_store g)"
  shows "trail_store (update dt g) ! j = trail_store g ! j
       \<and> score (snake2 (update dt g)) = score (snake2 g) + 1"
proof -
  let ?m1 = "move (snake1 g) (snake2 g) g"
  let ?g1 = "add_point Player2 (put_snake Player1 (fst ?m1) (fst (snd ?m1)))"
  have "trail_store ?g1 ! j = trail_store g ! j"
    using assms(3) by (simp add: add_point_def move_store_other)
  moreover have "j < length (trail_store ?g1)"
    using assms(4) by (simp add: add_point_def)
  ultimately have "trail_store (reset ?g1) ! j = trail_store g ! j"
    by (simp add: reset_store_nth)
  with assms(1) show ?thesis
    by (simp add: update_first_collides reset_snakes add_point_def)
qed

text \<open>C27: What \<open>reset\<close> does to a moving snake's trail reference (not covered
  by the spec): making the snake idle fires \<open>on_direction\<close>, which creates
  one more Trail, of the snake's full size at its new centre; the trail list
  is then cleared, so this Trail is detached, yet it stays the snake's
  \<open>trail\<close>.\<close>

theorem reset_detached_trail:
  assumes "direction (snake1 g) \<noteq> (0, 0)"
  shows "trail (snake1 (reset g)) = Some (length (trail_store g))
       \<and> trail_store (reset g) ! length (trail_store g) =
           \<lparr>wx = wx (snake1 (reset g)), wy = wy (snake1 (reset g)),
            width = width (snake1 g), height = height (snake1 g), trail_color = color (snake1 g)\<rparr>
       \<and> length (trail_store g) \<notin> set (trails (reset g))"
  using assms
  by (auto simp: reset_def Let_def set_snake_direction_eq set_center_def direction_def new_trail_def
                 nth_append_left)

theorem round_ends_witness:
  "valid_dir (direction (get_snake Player1 (game_step demo_game (KeyDown ''d''))))
   \<and> direction (get_snake Player1 (game_step demo_game (KeyDown ''d''))) \<noteq> (0, 0)
   \<and> 0 < speed_scale (game_step demo_game (KeyDown ''d''))
   \<and> \<not> out_of_arena (get_snake Player1 (game_step demo_game (KeyDown ''d''))) (game_step demo_game (KeyDown ''d''))
   \<and> (\<exists>k < nat \<lceil>edge_distance (get_snake Player1 (game_step demo_game (KeyDown ''d''))) (game_step demo_game (KeyDown ''d''))
               / speed_scale (game_step demo_game (KeyDown ''d''))\<rceil>.
        tick_collides (run_events (game_step demo_game (KeyDown ''d'')) (replicate k (Tick 0))))"
proof -
  let ?g = "game_step demo_game (KeyDown ''d'')"
  have h: "valid_dir (direction (get_snake Player1 ?g))" "direction (get_snake Player1 ?g) \<noteq> (0, 0)"
    "0 < speed_scale ?g" "\<not> out_of_arena (get_snake Player1 ?g) ?g"
    by (simp_all add: demo_eval valid_dir_def out_of_arena_def geom_simps)
  from h round_ends [OF h, of 0] show ?thesis by blast
qed

theorem crash_preempts_second_move_witness:
  "snd (snd (move (snake1 ((game_step demo_game (KeyDown ''left''))\<lparr>snake1 := (demo_snake [1, 0, 0] (1 / 2))\<lparr>direction_x := -1\<rparr>\<rparr>))
                  (snake2 ((game_step demo_game (KeyDown ''left''))\<lparr>snake1 := (demo_snake [1, 0, 0] (1 / 2))\<lparr>direction_x := -1\<rparr>\<rparr>))
                  ((game_step demo_game (KeyDown ''left''))\<lparr>snake1 := (demo_snake [1, 0, 0] (1 / 2))\<lparr>direction_x := -1\<rparr>\<rparr>)))
   \<and> trail (snake2 ((game_step demo_game (KeyDown ''left''))\<lparr>snake1 := (demo_snake [1, 0, 0] (1 / 2))\<lparr>direction_x := -1\<rparr>\<rparr>)) = Some 0
   \<and> trail (snake1 ((game_step demo_game (KeyDown ''left''))\<lparr>snake1 := (demo_snake [1, 0, 0] (1 / 2))\<lparr>direction_x := -1\<rparr>\<rparr>)) \<noteq> Some 0
   \<and> 0 < length (trail_store ((game_step demo_game (KeyDown ''left''))\<lparr>snake1 := (demo_snake [1, 0, 0] (1 / 2))\<lparr>direction_x := -1\<rparr>\<rparr>))
   \<and> score (snake2 (update 0 ((game_step demo_game (KeyDown ''left''))\<lparr>snake1 := (demo_snake [1, 0, 0] (1 / 2))\<lparr>direction_x := -1\<rparr>\<rparr>))) = 1"
proof -
  let ?g = "(game_step demo_game (KeyDown ''left''))\<lparr>snake1 := (demo_snake [1, 0, 0] (1 / 2))\<lparr>direction_x := -1\<rparr>\<rparr>"
  have h: "snd (snd (move (snake1 ?g) (snake2 ?g) ?g))" "trail (snake2 ?g) = Some 0"
    "trail (snake1 ?g) \<noteq> Some 0" "0 < length (trail_store ?g)"
    by (simp_all add: demo_eval)
  have s: "score (snake2 ?g) = 0" by (simp add: demo_eval)
  from h s crash_preempts_second_move [OF h, of 0] show ?thesis by simp
qed

theorem reset_detached_trail_witness:
  "direction (snake1 (game_step demo_game (KeyDown ''d''))) \<noteq> (0, 0)
   \<and> trail (snake1 (reset (game_step demo_game (KeyDown ''d'')))) = Some 1"
proof -
  let ?g = "game_step demo_game (KeyDown ''d'')"
  have h: "direction (snake1 ?g) \<noteq> (0, 0)" by (simp add: demo_eval)
  have "length (trail_store ?g) = 1" by (simp add: demo_eval)
  with h reset_detached_trail [OF h] show ?thesis by simp
qed

theorem game_step_heading_witness:
  "heading_trans (heading_of (direction (get_snake Player1 (demo_game\<lparr>snake1 := (demo_snake [1, 0, 0] (1 / 2))\<lparr>direction_x := -1\<rparr>\<rparr>))))
                 (heading_of (direction (get_snake Player1 (game_step (demo_game\<lparr>snake1 := (demo_snake [1, 0, 0] (1 / 2))\<lparr>direction_x := -1\<rparr>\<rparr>) (Tick 0)))))
   \<and> heading_of (direction (get_snake Player1 (game_step (demo_game\<lparr>snake1 := (demo_snake [1, 0, 0] (1 / 2))\<lparr>direction_x := -1\<rparr>\<rparr>) (Tick 0)))) = Idle
   \<and> heading_of (direction (get_snake Player1 (demo_game\<lparr>snake1 := (demo_snake [1, 0, 0] (1 / 2))\<lparr>direction_x := -1\<rparr>\<rparr>))) = Left
   \<and> tick_collides (demo_game\<lparr>snake1 := (demo_snake [1, 0, 0] (1 / 2))\<lparr>direction_x := -1\<rparr>\<rparr>)"
proof -
  let ?g = "demo_game\<lparr>snake1 := (demo_snake [1, 0, 0] (1 / 2))\<lparr>direction_x := -1\<rparr>\<rparr>"
  have before: "heading_of (direction (get_snake Player1 ?g)) = Left"
    by (simp add: demo_eval heading_of_def)
  have after: "heading_of (direction (get_snake Player1 (game_step ?g (Tick 0)))) = Idle"
    by (simp add: demo_eval heading_of_def)
  from game_step_heading [of Player1 ?g "Tick 0"] before after show ?thesis by auto
qed

section \<open>The second snake, window resizes, the trail store and the older copy\<close>

text \<open>C13: The order of \<open>update\<close>, second half: when snake 1's move reports no
  collision and snake 2's move leaves the arena, snake 1 gains the point,
  snake 2 does not, and the round is reset: both snakes re-centred, idle,
  and the trail list empty.\<close>

theorem update_second_snake_crash:
  assumes "\<not> snd (snd (move (snake1 g) (snake2 g) g))"
    and "out_of_arena (advance (speed_scale g) (snake2 g)) g"
  shows "score (snake1 (update dt g)) = score (snake1 g) + 1
       \<and> score (snake2 (update dt g)) = score (snake2 g)
       \<and> wx (snake1 (update dt g)) = width g / 3 - width (snake1 g) / 2
       \<and> wx (snake2 (update dt g)) = width g * 2 / 3 - width (snake2 g) / 2
       \<and> direction (snake1 (update dt g)) = (0, 0) \<and> direction (snake2 (update dt g)) = (0, 0)
       \<and> trails (update dt g) = []"
proof -
  let ?m1 = "move (snake1 g) (snake2 g) g"
  let ?g1 = "put_snake Player1 (fst ?m1) (fst (snd ?m1))"
  let ?m2 = "move (snake2 ?g1) (snake1 ?g1) ?g1"
  have s1: "score (fst ?m1) = score (snake1 g)"
    using assms(1) by (rule move_no_collision_score)
  have "speed_scale ?g1 = speed_scale g" "out_of_arena s ?g1 = out_of_arena s g" for s :: snake
    by (simp_all add: speed_scale_def out_of_arena_def)
  with assms(2) have o2: "out_of_arena (advance (speed_scale ?g1) (snake2 ?g1)) ?g1"
    by simp
  then have c2: "snd (snd ?m2)"
    by (simp add: move_result Let_def)
  have s2: "score (fst ?m2) = score (snake2 g)"
    using o2 by (simp add: move_score)
  from assms(1) c2 s1 s2 show ?thesis
    by (simp add: update_eq Let_def reset_snakes add_point_def)
qed

theorem update_second_snake_crash_witness:
  "\<not> snd (snd (move (snake1 (demo_game\<lparr>snake2 := (demo_snake [0, 0, 1] (1 / 2))\<lparr>direction_x := -1\<rparr>\<rparr>))
                   (snake2 (demo_game\<lparr>snake2 := (demo_snake [0, 0, 1] (1 / 2))\<lparr>direction_x := -1\<rparr>\<rparr>))
                   (demo_game\<lparr>snake2 := (demo_snake [0, 0, 1] (1 / 2))\<lparr>direction_x := -1\<rparr>\<rparr>)))
   \<and> out_of_arena (advance (speed_scale (demo_game\<lparr>snake2 := (demo_snake [0, 0, 1] (1 / 2))\<lparr>direction_x := -1\<rparr>\<rparr>))
                          (snake2 (demo_game\<lparr>snake2 := (demo_snake [0, 0, 1] (1 / 2))\<lparr>direction_x := -1\<rparr>\<rparr>)))
                 (demo_game\<lparr>snake2 := (demo_snake [0, 0, 1] (1 / 2))\<lparr>direction_x := -1\<rparr>\<rparr>)
   \<and> score (snake1 (update 0 (demo_game\<lparr>snake2 := (demo_snake [0, 0, 1] (1 / 2))\<lparr>direction_x := -1\<rparr>\<rparr>))) = 1"
proof -
  let ?g = "demo_game\<lparr>snake2 := (demo_snake [0, 0, 1] (1 / 2))\<lparr>direction_x := -1\<rparr>\<rparr>"
  have h1: "\<not> snd (snd (move (snake1 ?g) (snake2 ?g) ?g))"
    and h2: "out_of_arena (advance (speed_scale ?g) (snake2 ?g)) ?g"
    by (simp_all add: demo_eval)
  have s: "score (snake1 ?g) = 0"
    by (simp add: demo_eval)
  from h1 h2 s update_second_snake_crash [OF h1 h2, of 0] show ?thesis by simp
qed

text \<open>C28: Window resizes are not handled by the code (spec, section 9 leaves
  them open): the new size is read at the next tick, and a snake that the new
  arena no longer contains ends the round there even when it is idle. A
  resize between rounds, with no key pressed, gives the other snake a point.\<close>

theorem resize_strands_idle_snake:
  assumes "direction (snake1 g) = (0, 0)" and "w \<le> widget_right (snake1 g)"
  shows "score (snake2 (run_events g [Resize w h, Tick dt])) = score (snake2 g) + 1"
proof -
  let ?g = "g\<lparr>width := w, height := h\<rparr>"
  have "advance (speed_scale ?g) (snake1 ?g) = snake1 g"
    using assms(1) by (simp add: advance_def direction_def)
  then have "out_of_arena (advance (speed_scale ?g) (snake1 ?g)) ?g"
    using assms(2) by (simp add: out_of_arena_def)
  then have "snd (snd (move (snake1 ?g) (snake2 ?g) ?g))"
    by (simp add: move_result Let_def)
  then show ?thesis
    by (simp add: update_first_collides add_point_def reset_snakes)
qed

theorem resize_strands_idle_snake_witness:
  "direction (snake1 demo_game) = (0, 0) \<and> 80 \<le> widget_right (snake1 demo_game)
   \<and> score (snake2 (run_events demo_game [Resize 80 250, Tick 0])) = 1"
proof -
  have h: "direction (snake1 demo_game) = (0, 0)" "80 \<le> widget_right (snake1 demo_game)"
    by (simp_all add: demo_eval)
  have "score (snake2 demo_game) = 0"
    by (simp add: demo_eval)
  with h resize_strands_idle_snake [OF h, of 250 0] show ?thesis by simp
qed

theorem frozen_trail_never_changes_witness:
  "frozen (run_events demo_game [KeyDown ''d'', KeyDown ''w'']) 0
   \<and> trail_store (run_events (run_events demo_game [KeyDown ''d'', KeyDown ''w'']) [Tick 0, KeyDown ''a''])
       ! 0 = trail_store (run_events demo_game [KeyDown ''d'', KeyDown ''w'']) ! 0"
proof -
  have h: "frozen (run_events demo_game [KeyDown ''d'', KeyDown ''w'']) 0"
    by (simp add: frozen_def owned_def demo_eval)
  from h frozen_trail_never_changes [OF h, of "[Tick 0, KeyDown ''a'']"] show ?thesis by blast
qed

text \<open>The reversal of two keys within one tick is in the older copy too:
  run through the statement-level model of src/snakes.py, the keys \<open>d\<close>,
  a tick, \<open>w\<close> and \<open>a\<close> turn snake 1 back on its heading, and the next
  tick ends the round on its own trail, with the point for snake 2.\<close>

theorem double_turn_copy:
  "heading_of (direction (snake1 (snd (run_state
       (run_events_copy [KeyDown ''d'', Tick 0, KeyDown ''w'', KeyDown ''a'']) demo_game))))
     = opposite (heading_of (direction (snake1 (snd (run_state
         (run_events_copy [KeyDown ''d'', Tick 0]) demo_game)))))
   \<and> \<not> out_of_arena (advance 1 (snake1 (snd (run_state
         (run_events_copy [KeyDown ''d'', Tick 0, KeyDown ''w'', KeyDown ''a'']) demo_game))))
       (snd (run_state (run_events_copy [KeyDown ''d'', Tick 0, KeyDown ''w'', KeyDown ''a'']) demo_game))
   \<and> \<not> collide_widget (advance 1 (snake1 (snd (run_state
         (run_events_copy [KeyDown ''d'', Tick 0, KeyDown ''w'', KeyDown ''a'']) demo_game))))
       (snake2 (snd (run_state (run_events_copy [KeyDown ''d'', Tick 0, KeyDown ''w'', KeyDown ''a'']) demo_game)))
   \<and> score (snake2 (snd (run_state
         (run_events_copy [KeyDown ''d'', Tick 0, KeyDown ''w'', KeyDown ''a'', Tick 0]) demo_game))) = 1"
  by (simp add: demo_eval heading_of_def run_events_copy_Nil del: run_events_copy.simps game_step_copy.simps)

theorem game_refines_arena_witness:
  "reachable demo_game
   \<and> abs_game (run_events demo_game [KeyDown ''d'', Tick 0, KeyDown ''w''])
       = arena_run (abs_game demo_game) [KeyDown ''d'', Tick 0, KeyDown ''w'']"
proof -
  have r: "reachable demo_game" by (rule reachable.start [OF demo_initial])
  from r game_refines_arena [OF r] show ?thesis by blast
qed

theorem two_keys_reverse_witness:
  "keyboard_bound (game_step demo_game (KeyDown ''d''))
   \<and> (1, 0) \<in> {(0, 1), (0, -1), (-1, 0), (1, 0 :: int)}
   \<and> direction (get_snake Player1 (game_step demo_game (KeyDown ''d''))) = (1, 0)
   \<and> direction (get_snake Player1 (run_events (game_step demo_game (KeyDown ''d''))
        [KeyDown ''w'', KeyDown ''a''])) = (-1, 0)"
proof -
  have h: "keyboard_bound (game_step demo_game (KeyDown ''d''))"
    "direction (get_snake Player1 (game_step demo_game (KeyDown ''d''))) = (1, 0)"
    by (simp_all add: demo_eval direction_def)
  have c: "direction (get_snake Player1 (run_events (game_step demo_game (KeyDown ''d''))
      [KeyDown (key_for Player1 (snd (1 :: int, 0 :: int), fst (1 :: int, 0 :: int))), KeyDown (key_for Player1 (neg_dir (1, 0)))]))
      = neg_dir (1, 0)"
    by (rule two_keys_reverse [OF h(1) _ h(2)]) simp
  show ?thesis using c h
    by (simp add: key_for_def neg_dir_def del: run_events.simps game_step.simps)
qed

theorem key_for_roundtrip_witness:
  "(0, 1) \<in> {(0, 1), (0, -1), (-1, 0), (1, 0 :: int)}
   \<and> direction (get_snake Player1 demo_game) \<noteq> neg_dir (0, 1)
   \<and> key_binding ''w'' = Some (Player1, (0, 1))
   \<and> direction (get_snake Player1 (on_keyboard_down ''w'' demo_game)) = (0, 1)
   \<and> get_snake Player2 (on_keyboard_down ''w'' demo_game) = get_snake Player2 demo_game"
proof -
  have h: "direction (get_snake Player1 demo_game) \<noteq> neg_dir (0, 1)"
    by (simp add: demo_eval direction_def neg_dir_def)
  have "key_for Player1 (0, 1) = ''w''" by (simp add: key_for_def)
  with Game.key_for_roundtrip [OF _ h] h show ?thesis by simp
qed

theorem drawn_trails_listed_witness:
  "reachable (game_step demo_game (KeyDown ''d''))
   \<and> trails (game_step demo_game (KeyDown ''d'')) = [0]
   \<and> trail_children (children (game_step demo_game (KeyDown ''d''))) = [0]"
proof -
  have t: "trails (game_step demo_game (KeyDown ''d'')) = [0]" by (simp add: demo_eval)
  from t Trail_Store.drawn_trails_listed [OF demo_reachable_d] demo_reachable_d show ?thesis by simp
qed

end
